theory Spec2Isabelle
  imports Main "HOL-Library.Word"
begin

section \<open>Errors and reconcile results\<close>

text \<open>
  Go's \<open>error\<close> values. \<open>NotFound\<close> is the one class the reconcilers tell apart
  (\<open>errors.IsNotFound\<close>); \<open>Failure\<close> carries the message of any other error
  (object-store I/O, remote command, health probe, tenant creation, builder).
  \<open>AlreadyOwned\<close>, \<open>CrossNamespaceOwner\<close> and \<open>KeyMutated\<close> are the errors of
  controller-runtime's \<open>SetControllerReference\<close> and \<open>CreateOrUpdate\<close>.
  A Go \<open>error\<close> that may be nil is an \<open>error option\<close>.
\<close>

datatype error =
    NotFound
  | AlreadyExists
  | AlreadyOwned
  | CrossNamespaceOwner
  | KeyMutated
  | Failure string

definition IsNotFound :: "error \<Rightarrow> bool" where
  "IsNotFound err = (err = NotFound)"

text \<open>\<open>time.Duration\<close> counts nanoseconds.\<close>

type_synonym Duration = int

definition Second :: Duration where
  "Second = 1000000000"

text \<open>\<open>ctrl.Result\<close> of controller-runtime, and its \<open>IsZero\<close>.\<close>

record Result =
  Requeue :: bool
  RequeueAfter :: Duration

definition IsZero :: "Result \<Rightarrow> bool" where
  "IsZero r = (\<not> Requeue r \<and> RequeueAfter r = 0)"

type_synonym outcome = "Result \<times> error option"

text \<open>
  Modelled from the spec: package \<open>controllers\<close> (\<open>Ok\<close>, \<open>NoRequeue\<close>,
  \<open>RequeueImmediately\<close>, \<open>RequeueAfter\<close>) is not among the sources. The spec gives
  the three-way return: continue (no requeue, no error), requeue after a delay or
  immediately with an optional cause, and fail with an error and no requeue delay.
  \<open>controllers.RequeueAfter\<close> is \<open>RequeueAfterC\<close> here, the name \<open>RequeueAfter\<close>
  being the field of \<open>ctrl.Result\<close>.
\<close>

definition Ok :: outcome where
  "Ok = (\<lparr>Requeue = False, RequeueAfter = 0\<rparr>, None)"

definition NoRequeue :: "error \<Rightarrow> outcome" where
  "NoRequeue err = (\<lparr>Requeue = False, RequeueAfter = 0\<rparr>, Some err)"

definition RequeueImmediately :: outcome where
  "RequeueImmediately = (\<lparr>Requeue = True, RequeueAfter = 0\<rparr>, None)"

definition RequeueAfterC :: "Duration \<Rightarrow> error option \<Rightarrow> outcome" where
  "RequeueAfterC duration err = (\<lparr>Requeue = True, RequeueAfter = duration\<rparr>, err)"

text \<open>The test every \<open>Sync\<close> makes after a phase: \<open>err != nil || !result.IsZero()\<close>.\<close>

definition stops :: "outcome \<Rightarrow> bool" where
  "stops out = (snd out \<noteq> None \<or> \<not> IsZero (fst out))"

section \<open>Conditions\<close>

text \<open>
  \<open>metav1.Condition\<close> with the four fields the reconcilers write. The transition
  timestamp (read from the clock) is left out. A Go slice that may be nil is an
  \<open>option\<close>: \<open>None\<close> is the nil slice.
\<close>

record Condition =
  c_Type :: string
  c_Status :: string
  c_Reason :: string
  c_Message :: string

definition slice :: "'a list option \<Rightarrow> 'a list" where
  "slice xs = (case xs of None \<Rightarrow> [] | Some ys \<Rightarrow> ys)"

text \<open>\<open>meta.IsStatusConditionPresentAndEqual\<close>: the first condition of the type decides.\<close>

fun IsStatusConditionPresentAndEqual :: "Condition list \<Rightarrow> string \<Rightarrow> string \<Rightarrow> bool" where
  "IsStatusConditionPresentAndEqual [] conditionType status = False"
| "IsStatusConditionPresentAndEqual (c # cs) conditionType status =
     (if c_Type c = conditionType then c_Status c = status
      else IsStatusConditionPresentAndEqual cs conditionType status)"

definition IsStatusConditionTrue :: "Condition list option \<Rightarrow> string \<Rightarrow> bool" where
  "IsStatusConditionTrue conditions conditionType =
     IsStatusConditionPresentAndEqual (slice conditions) conditionType ''True''"

text \<open>\<open>meta.FindStatusCondition\<close>: the position of the first condition of the type.\<close>

fun FindStatusCondition :: "Condition list \<Rightarrow> string \<Rightarrow> nat option" where
  "FindStatusCondition [] conditionType = None"
| "FindStatusCondition (c # cs) conditionType =
     (if c_Type c = conditionType then Some 0
      else map_option Suc (FindStatusCondition cs conditionType))"

text \<open>
  \<open>meta.SetStatusCondition\<close>: append when the type is absent, otherwise overwrite
  status, reason and message of the existing entry in place.
\<close>

definition SetStatusCondition :: "Condition list option \<Rightarrow> Condition \<Rightarrow> Condition list option" where
  "SetStatusCondition conditions newCondition =
     (let cs = slice conditions in
      case FindStatusCondition cs (c_Type newCondition) of
        None \<Rightarrow> Some (cs @ [newCondition])
      | Some i \<Rightarrow>
          Some (cs[i := (cs ! i)\<lparr>c_Status := c_Status newCondition,
                                 c_Reason := c_Reason newCondition,
                                 c_Message := c_Message newCondition\<rparr>]))"

section \<open>Resources\<close>

text \<open>
  The status of a Storage and of a Database resource has the same two fields the
  reconcilers use.
\<close>

record CRStatus =
  State :: string
  Conditions :: "Condition list option"

record StorageSpec =
  s_Nodes :: "32 word"

record Storage =
  s_Name :: string
  s_Namespace :: string
  s_Spec :: StorageSpec
  s_Status :: CRStatus

datatype PullPolicy = PullAlways | PullNever | PullIfNotPresent

record NamespacedRef =
  ref_Name :: string
  ref_Namespace :: string

record PodImage =
  img_Name :: string
  img_PullPolicyName :: "PullPolicy option"

record DatabaseSpec =
  StorageClusterRef :: NamespacedRef
  Image :: PodImage
  YDBVersion :: string
  d_Nodes :: "32 word"

record Database =
  d_Name :: string
  d_Namespace :: string
  d_Spec :: DatabaseSpec
  d_Status :: CRStatus

section \<open>Parts of the repository that are not among the sources\<close>

text \<open>
  The constants \<open>ImagePathFormat\<close>, \<open>RegistryPath\<close> and \<open>DefaultTag\<close>, the function
  \<open>SetStorageClusterSpecDefaults\<close>, package \<open>labels\<close> and the builder types
  (\<open>ServiceMonitorBuilder\<close>, \<open>ServiceBuilder\<close>, \<open>ConfigMapBuilder\<close>,
  \<open>StorageStatefulSetBuilder\<close>) are used by the code below and declared elsewhere.
  They are parameters, together with \<open>fmt.Sprintf\<close> on string arguments:
  \<^item> \<open>storagePodLabels name\<close> is the label set \<open>labels.Common(name, {})\<close> merged with
    the component label, as \<open>waitForStatefulSetToScale\<close> builds it;
  \<^item> \<open>storageBuilders\<close> and \<open>databaseBuilders\<close> are the lists \<open>GetResourceBuilders\<close>
    returns; a builder is its two methods, \<open>Placeholder\<close> (given the owner) and
    \<open>Build\<close>.

  A child object is its key (kind, namespace, name), its controller reference, the
  replica count its status reports (read for a workload object) and a body standing
  for everything else.
\<close>

record ResourceRef =
  k_Kind :: string
  k_Namespace :: string
  k_Name :: string

record KObject =
  o_Key :: ResourceRef
  o_Owner :: "ResourceRef option"
  o_Body :: string
  o_Replicas :: "32 word"

record ResourceBuilder =
  Placeholder :: "ResourceRef \<Rightarrow> KObject"
  Build :: "KObject \<Rightarrow> error + KObject"

record Deps =
  Sprintf :: "string \<Rightarrow> string list \<Rightarrow> string"
  ImagePathFormat :: string
  RegistryPath :: string
  DefaultTag :: string
  SetStorageClusterSpecDefaults :: "StorageSpec \<Rightarrow> StorageSpec"
  storagePodLabels :: "string \<Rightarrow> (string \<times> string) list"
  storageBuilders :: "Storage \<Rightarrow> ResourceBuilder list"
  databaseBuilders :: "Database \<Rightarrow> ResourceBuilder list"

section \<open>Defaults of a Database spec\<close>

text \<open>
  \<open>SetDatabaseSpecDefaults(ydbCr, ydbSpec)\<close> mutates \<open>ydbSpec\<close>; the model returns
  the new spec.
\<close>

definition SetDatabaseSpecDefaults :: "Deps \<Rightarrow> Database \<Rightarrow> DatabaseSpec \<Rightarrow> DatabaseSpec" where
  "SetDatabaseSpecDefaults D ydbCr ydbSpec =
     (let s1 = (if ref_Namespace (StorageClusterRef ydbSpec) = ''''
                then ydbSpec\<lparr>StorageClusterRef :=
                       (StorageClusterRef ydbSpec)\<lparr>ref_Namespace := d_Namespace ydbCr\<rparr>\<rparr>
                else ydbSpec);
          s2 = (if img_Name (Image s1) = ''''
                then (if YDBVersion s1 = ''''
                      then s1\<lparr>Image := (Image s1)\<lparr>img_Name :=
                             Sprintf D (ImagePathFormat D) [RegistryPath D, DefaultTag D]\<rparr>\<rparr>
                      else s1\<lparr>Image := (Image s1)\<lparr>img_Name :=
                             Sprintf D (ImagePathFormat D) [RegistryPath D, YDBVersion s1]\<rparr>\<rparr>)
                else s1)
      in (if img_PullPolicyName (Image s2) = None
          then s2\<lparr>Image := (Image s2)\<lparr>img_PullPolicyName := Some PullIfNotPresent\<rparr>\<rparr>
          else s2))"

section \<open>The world outside the reconcilers\<close>

text \<open>
  The object store, the collaborators and the event recorder are explicit state. The
  store keeps the Storage and Database resources by (namespace, name), the owned child
  objects (workload object included) by kind, namespace and name, and the pods.

  Every call to the store takes the next entry of \<open>apiFaults\<close>: \<open>Some err\<close> makes
  this call fail with \<open>err\<close>, \<open>None\<close> (or an exhausted list) lets it go through.
  The remote command, the health probe and the tenant creation take their outcome
  from their own lists in the same way, and log the call.
\<close>

datatype EventType = EventTypeNormal | EventTypeWarning

record Pod =
  p_Namespace :: string
  p_Labels :: "(string \<times> string) list"
  p_Phase :: string

record ExecCall =
  e_Namespace :: string
  e_Pod :: string
  e_Container :: string
  e_Cmd :: "string list"

record World =
  storageCRs :: "string \<times> string \<rightharpoonup> Storage"
  databaseCRs :: "string \<times> string \<rightharpoonup> Database"
  objects :: "ResourceRef \<rightharpoonup> KObject"
  pods :: "Pod list"
  apiFaults :: "error option list"
  execOutcomes :: "error option list"
  healthOutcomes :: "error option list"
  tenantOutcomes :: "error option list"
  execLog :: "ExecCall list"
  tenantLog :: "string list"
  createLog :: "ResourceRef list"
  events :: "(EventType \<times> string) list"

text \<open>\<open>r.Recorder.Event(obj, type, reason, message)\<close>; the message text is not kept.\<close>

definition Event :: "EventType \<Rightarrow> string \<Rightarrow> World \<Rightarrow> World" where
  "Event eventtype reason w = w\<lparr>events := events w @ [(eventtype, reason)]\<rparr>"

definition nextOutcome :: "error option list \<Rightarrow> error option \<times> error option list" where
  "nextOutcome plan = (case plan of [] \<Rightarrow> (None, []) | x # rest \<Rightarrow> (x, rest))"

definition nextFault :: "World \<Rightarrow> error option \<times> World" where
  "nextFault w = (fst (nextOutcome (apiFaults w)), w\<lparr>apiFaults := snd (nextOutcome (apiFaults w))\<rparr>)"

subsection \<open>Object store client\<close>

definition GetStorage :: "string \<times> string \<Rightarrow> World \<Rightarrow> (error + Storage) \<times> World" where
  "GetStorage key w =
     (case nextFault w of
        (Some err, w1) \<Rightarrow> (Inl err, w1)
      | (None, w1) \<Rightarrow>
          (case storageCRs w1 key of None \<Rightarrow> (Inl NotFound, w1) | Some cr \<Rightarrow> (Inr cr, w1)))"

definition GetDatabase :: "string \<times> string \<Rightarrow> World \<Rightarrow> (error + Database) \<times> World" where
  "GetDatabase key w =
     (case nextFault w of
        (Some err, w1) \<Rightarrow> (Inl err, w1)
      | (None, w1) \<Rightarrow>
          (case databaseCRs w1 key of None \<Rightarrow> (Inl NotFound, w1) | Some cr \<Rightarrow> (Inr cr, w1)))"

definition GetObject :: "ResourceRef \<Rightarrow> World \<Rightarrow> (error + KObject) \<times> World" where
  "GetObject key w =
     (case nextFault w of
        (Some err, w1) \<Rightarrow> (Inl err, w1)
      | (None, w1) \<Rightarrow>
          (case objects w1 key of None \<Rightarrow> (Inl NotFound, w1) | Some obj \<Rightarrow> (Inr obj, w1)))"

definition CreateObject :: "KObject \<Rightarrow> World \<Rightarrow> error option \<times> World" where
  "CreateObject obj w =
     (case nextFault w of
        (Some err, w1) \<Rightarrow> (Some err, w1)
      | (None, w1) \<Rightarrow>
          (case objects w1 (o_Key obj) of
             Some old \<Rightarrow> (Some AlreadyExists, w1)
           | None \<Rightarrow> (None, w1\<lparr>objects := (objects w1)(o_Key obj \<mapsto> obj),
                                createLog := createLog w1 @ [o_Key obj]\<rparr>)))"

definition UpdateObject :: "KObject \<Rightarrow> World \<Rightarrow> error option \<times> World" where
  "UpdateObject obj w =
     (case nextFault w of
        (Some err, w1) \<Rightarrow> (Some err, w1)
      | (None, w1) \<Rightarrow>
          (case objects w1 (o_Key obj) of
             None \<Rightarrow> (Some NotFound, w1)
           | Some old \<Rightarrow> (None, w1\<lparr>objects := (objects w1)(o_Key obj \<mapsto> obj)\<rparr>)))"

text \<open>\<open>r.Status().Update\<close>: writes the status of the stored resource.\<close>

definition StatusUpdateStorage :: "Storage \<Rightarrow> World \<Rightarrow> error option \<times> World" where
  "StatusUpdateStorage cr w =
     (case nextFault w of
        (Some err, w1) \<Rightarrow> (Some err, w1)
      | (None, w1) \<Rightarrow>
          (case storageCRs w1 (s_Namespace cr, s_Name cr) of
             None \<Rightarrow> (Some NotFound, w1)
           | Some old \<Rightarrow>
               (None, w1\<lparr>storageCRs := (storageCRs w1)((s_Namespace cr, s_Name cr) \<mapsto>
                                            old\<lparr>s_Status := s_Status cr\<rparr>)\<rparr>)))"

definition StatusUpdateDatabase :: "Database \<Rightarrow> World \<Rightarrow> error option \<times> World" where
  "StatusUpdateDatabase cr w =
     (case nextFault w of
        (Some err, w1) \<Rightarrow> (Some err, w1)
      | (None, w1) \<Rightarrow>
          (case databaseCRs w1 (d_Namespace cr, d_Name cr) of
             None \<Rightarrow> (Some NotFound, w1)
           | Some old \<Rightarrow>
               (None, w1\<lparr>databaseCRs := (databaseCRs w1)((d_Namespace cr, d_Name cr) \<mapsto>
                                             old\<lparr>d_Status := d_Status cr\<rparr>)\<rparr>)))"

text \<open>\<open>r.List\<close> of pods with \<open>client.InNamespace\<close> and \<open>client.MatchingLabels\<close>.\<close>

definition matchesLabels :: "(string \<times> string) list \<Rightarrow> Pod \<Rightarrow> bool" where
  "matchesLabels selector p = list_all (\<lambda>(k, v). map_of (p_Labels p) k = Some v) selector"

definition ListPods :: "string \<Rightarrow> (string \<times> string) list \<Rightarrow> World \<Rightarrow> (error + Pod list) \<times> World" where
  "ListPods namespace selector w =
     (case nextFault w of
        (Some err, w1) \<Rightarrow> (Inl err, w1)
      | (None, w1) \<Rightarrow>
          (Inr (filter (\<lambda>p. p_Namespace p = namespace \<and> matchesLabels selector p) (pods w1)), w1))"

subsection \<open>Collaborators\<close>

text \<open>
  Modelled from the spec: packages \<open>exec\<close>, \<open>healthcheck\<close> and \<open>cms\<close> are not among
  the sources. The spec gives each as a narrow synchronous call with a success or
  failure outcome: run a command inside a remote compute unit, probe the bootstrap
  health status, create a tenant named after the Database.
\<close>

definition ExecInPod :: "string \<Rightarrow> string \<Rightarrow> string \<Rightarrow> string list \<Rightarrow> World \<Rightarrow> error option \<times> World" where
  "ExecInPod namespace podName container cmd w =
     (fst (nextOutcome (execOutcomes w)),
      w\<lparr>execOutcomes := snd (nextOutcome (execOutcomes w)),
        execLog := execLog w @ [\<lparr>e_Namespace = namespace, e_Pod = podName,
                                 e_Container = container, e_Cmd = cmd\<rparr>]\<rparr>)"

definition CheckBootstrapHealth :: "Storage \<Rightarrow> World \<Rightarrow> error option \<times> World" where
  "CheckBootstrapHealth storage w =
     (fst (nextOutcome (healthOutcomes w)),
      w\<lparr>healthOutcomes := snd (nextOutcome (healthOutcomes w))\<rparr>)"

definition TenantCreate :: "Database \<Rightarrow> World \<Rightarrow> error option \<times> World" where
  "TenantCreate database w =
     (fst (nextOutcome (tenantOutcomes w)),
      w\<lparr>tenantOutcomes := snd (nextOutcome (tenantOutcomes w)),
        tenantLog := tenantLog w @ [d_Name database]\<rparr>)"

section \<open>Idempotent apply (controller-runtime)\<close>

datatype OperationResult = OperationResultNone | OperationResultCreated | OperationResultUpdated

text \<open>
  \<open>ctrl.SetControllerReference(owner, controlled, scheme)\<close>: an owner in another
  namespace is refused, an object controlled by another owner is refused, otherwise
  the owner reference is set.
\<close>

definition SetControllerReference :: "ResourceRef \<Rightarrow> KObject \<Rightarrow> error + KObject" where
  "SetControllerReference owner controlled =
     (if k_Namespace owner \<noteq> '''' \<and> k_Namespace owner \<noteq> k_Namespace (o_Key controlled)
      then Inl CrossNamespaceOwner
      else (case o_Owner controlled of
              Some existing \<Rightarrow>
                (if existing \<noteq> owner then Inl AlreadyOwned
                 else Inr (controlled\<lparr>o_Owner := Some owner\<rparr>))
            | None \<Rightarrow> Inr (controlled\<lparr>o_Owner := Some owner\<rparr>)))"

text \<open>
  \<open>mutate(f, key, obj)\<close>: run the mutation, then refuse a changed name or
  namespace. The mutation may record events, so it passes the world through.
\<close>

type_synonym MutateFn = "KObject \<Rightarrow> World \<Rightarrow> (error + KObject) \<times> World"

definition mutate :: "MutateFn \<Rightarrow> ResourceRef \<Rightarrow> KObject \<Rightarrow> World \<Rightarrow> (error + KObject) \<times> World" where
  "mutate f key obj w =
     (case f obj w of
        (Inl err, w1) \<Rightarrow> (Inl err, w1)
      | (Inr obj1, w1) \<Rightarrow>
          (if o_Key obj1 \<noteq> key then (Inl KeyMutated, w1) else (Inr obj1, w1)))"

text \<open>\<open>ctrl.CreateOrUpdate(ctx, c, obj, f)\<close>.\<close>

definition CreateOrUpdate :: "KObject \<Rightarrow> MutateFn \<Rightarrow> World \<Rightarrow> (error + OperationResult) \<times> World" where
  "CreateOrUpdate obj f w =
     (let key = o_Key obj in
      case GetObject key w of
        (Inl err, w1) \<Rightarrow>
          (if \<not> IsNotFound err then (Inl err, w1)
           else (case mutate f key obj w1 of
                   (Inl err2, w2) \<Rightarrow> (Inl err2, w2)
                 | (Inr obj2, w2) \<Rightarrow>
                     (case CreateObject obj2 w2 of
                        (Some err3, w3) \<Rightarrow> (Inl err3, w3)
                      | (None, w3) \<Rightarrow> (Inr OperationResultCreated, w3))))
      | (Inr existing, w1) \<Rightarrow>
          (case mutate f key existing w1 of
             (Inl err2, w2) \<Rightarrow> (Inl err2, w2)
           | (Inr obj2, w2) \<Rightarrow>
               (if existing = obj2 then (Inr OperationResultNone, w2)
                else (case UpdateObject obj2 w2 of
                        (Some err3, w3) \<Rightarrow> (Inl err3, w3)
                      | (None, w3) \<Rightarrow> (Inr OperationResultUpdated, w3)))))"

section \<open>Resource sync\<close>

text \<open>
  The closure both \<open>handleResourcesSync\<close> functions hand to \<open>CreateOrUpdate\<close>:
  build the child, then set the controller reference; each failure records a
  \<open>ProvisioningFailed\<close> warning.
\<close>

definition buildAndOwn :: "ResourceBuilder \<Rightarrow> ResourceRef \<Rightarrow> MutateFn" where
  "buildAndOwn builder owner rr w =
     (case Build builder rr of
        Inl err \<Rightarrow> (Inl err, Event EventTypeWarning ''ProvisioningFailed'' w)
      | Inr rr1 \<Rightarrow>
          (case SetControllerReference owner rr1 of
             Inl err \<Rightarrow> (Inl err, Event EventTypeWarning ''ProvisioningFailed'' w)
           | Inr rr2 \<Rightarrow> (Inr rr2, w)))"

text \<open>
  The loop over the builders, with the flag \<open>areResourcesCreated\<close>. It returns the
  error that ended it, if any, and the flag.
\<close>

fun syncBuilders :: "ResourceRef \<Rightarrow> ResourceBuilder list \<Rightarrow> bool \<Rightarrow> World \<Rightarrow> (error option \<times> bool) \<times> World" where
  "syncBuilders owner [] areResourcesCreated w = ((None, areResourcesCreated), w)"
| "syncBuilders owner (builder # rest) areResourcesCreated w =
     (case CreateOrUpdate (Placeholder builder owner) (buildAndOwn builder owner) w of
        (Inl err, w1) \<Rightarrow>
          ((Some err, areResourcesCreated), Event EventTypeWarning ''ProvisioningFailed'' w1)
      | (Inr result, w1) \<Rightarrow>
          syncBuilders owner rest
            (areResourcesCreated \<or> result = OperationResultCreated) w1)"

text \<open>
  The body shared by the Storage and the Database \<open>handleResourcesSync\<close>, which
  differ in the owner and its builders only.
\<close>

definition resourcesSync :: "ResourceRef \<Rightarrow> ResourceBuilder list \<Rightarrow> World \<Rightarrow> outcome \<times> World" where
  "resourcesSync owner builders w =
     (case syncBuilders owner builders False (Event EventTypeNormal ''Provisioning'' w) of
        ((Some err, created), w1) \<Rightarrow> (NoRequeue err, w1)
      | ((None, created), w1) \<Rightarrow>
          (if created then (RequeueImmediately, Event EventTypeNormal ''Provisioning'' w1)
           else (Ok, Event EventTypeNormal ''Provisioning'' w1)))"

section \<open>Storage reconciler\<close>

definition StorageInitializedCondition :: string where
  "StorageInitializedCondition = ''StorageInitialized''"

text \<open>\<open>resources.NewCluster\<close> and \<open>SetStatusOnFirstReconcile\<close> of the builder.\<close>

definition NewCluster :: "Deps \<Rightarrow> Storage \<Rightarrow> Storage" where
  "NewCluster D ydbCr = ydbCr\<lparr>s_Spec := SetStorageClusterSpecDefaults D (s_Spec ydbCr)\<rparr>"

definition SetStatusOnFirstReconcile :: "Storage \<Rightarrow> Storage" where
  "SetStatusOnFirstReconcile b =
     (if Conditions (s_Status b) = None
      then b\<lparr>s_Status := (s_Status b)\<lparr>Conditions := Some []\<rparr>\<rparr>
      else b)"

definition storageOwner :: "Storage \<Rightarrow> ResourceRef" where
  "storageOwner storage =
     \<lparr>k_Kind = ''Storage'', k_Namespace = s_Namespace storage, k_Name = s_Name storage\<rparr>"

definition setState :: "Storage \<Rightarrow> World \<Rightarrow> outcome \<times> World" where
  "setState storage w =
     (case GetStorage (s_Namespace storage, s_Name storage) w of
        (Inl err, w1) \<Rightarrow> (NoRequeue err, Event EventTypeWarning ''ControllerError'' w1)
      | (Inr storageCr, w1) \<Rightarrow>
          (case StatusUpdateStorage
                  (storageCr\<lparr>s_Status := (s_Status storageCr)
                     \<lparr>State := State (s_Status storage),
                      Conditions := Conditions (s_Status storage)\<rparr>\<rparr>) w1 of
             (Some err, w2) \<Rightarrow> (NoRequeue err, Event EventTypeWarning ''ControllerError'' w2)
           | (None, w2) \<Rightarrow> (Ok, w2)))"

definition defineBoxCmd :: "string list" where
  "defineBoxCmd = [''/opt/kikimr/bin/kikimr'', ''admin'', ''bs'', ''config'', ''invoke'',
                   ''--proto-file'', ''/opt/kikimr/cfg/DefineBox.txt'']"

definition configureRootCmd :: "string list" where
  "configureRootCmd = [''/opt/kikimr/bin/kikimr'', ''admin'', ''console'', ''execute'',
                       ''--domain=Root'', ''--retry=10'', ''/opt/kikimr/cfg/ConfigureRoot.txt'']"

definition storageInitialized :: Condition where
  "storageInitialized =
     \<lparr>c_Type = StorageInitializedCondition, c_Status = ''True'',
      c_Reason = ''StorageInitialized'', c_Message = ''Storage initialized successfully''\<rparr>"

definition runDefineBoxScript :: "Storage \<Rightarrow> World \<Rightarrow> outcome \<times> Storage \<times> World" where
  "runDefineBoxScript storage w =
     (if IsStatusConditionTrue (Conditions (s_Status storage)) StorageInitializedCondition
      then (Ok, storage, w)
      else
        (let podName = s_Name storage @ ''-0'' in
         case ExecInPod (s_Namespace storage) podName ''ydb-storage'' defineBoxCmd w of
           (Some err, w1) \<Rightarrow> (RequeueAfterC (30 * Second) (Some err), storage, w1)
         | (None, w1) \<Rightarrow>
             (case ExecInPod (s_Namespace storage) podName ''ydb-storage'' configureRootCmd w1 of
                (Some err, w2) \<Rightarrow> (RequeueAfterC (30 * Second) (Some err), storage, w2)
              | (None, w2) \<Rightarrow>
                  (let storage1 = storage\<lparr>s_Status := (s_Status storage)
                         \<lparr>Conditions := SetStatusCondition (Conditions (s_Status storage))
                                           storageInitialized\<rparr>\<rparr>
                   in case setState storage1 w2 of
                        ((res, Some err), w3) \<Rightarrow> (NoRequeue err, storage1, w3)
                      | ((res, None), w3) \<Rightarrow> (RequeueImmediately, storage1, w3)))))"

definition storageStatefulSetKey :: "Storage \<Rightarrow> ResourceRef" where
  "storageStatefulSetKey storage =
     \<lparr>k_Kind = ''StatefulSet'', k_Namespace = s_Namespace storage, k_Name = s_Name storage\<rparr>"

definition waitForStatefulSetToScale :: "Deps \<Rightarrow> Storage \<Rightarrow> World \<Rightarrow> outcome \<times> Storage \<times> World" where
  "waitForStatefulSetToScale D storage w =
     (case GetObject (storageStatefulSetKey storage) w of
        (Inl err, w1) \<Rightarrow>
          (if IsNotFound err then (Ok, storage, w1)
           else (NoRequeue err, storage, Event EventTypeNormal ''Syncing'' w1))
      | (Inr found, w1) \<Rightarrow>
          (case ListPods (s_Namespace storage) (storagePodLabels D (s_Name storage)) w1 of
             (Inl err, w2) \<Rightarrow> (NoRequeue err, storage, Event EventTypeNormal ''Syncing'' w2)
           | (Inr podList, w2) \<Rightarrow>
               (let runningPods = int (length (filter (\<lambda>e. p_Phase e = ''Running'') podList)) in
                if runningPods \<noteq> sint (s_Nodes (s_Spec storage))
                then
                  (let storage1 = storage\<lparr>s_Status := (s_Status storage)\<lparr>State := ''Provisioning''\<rparr>\<rparr>
                   in case setState storage1 w2 of
                        ((res, Some err), w3) \<Rightarrow> (NoRequeue err, storage1, w3)
                      | ((res, None), w3) \<Rightarrow>
                          (RequeueAfterC (10 * Second) None, storage1,
                           Event EventTypeNormal ''Provisioning'' w3))
                else if State (s_Status storage) \<noteq> ''Ready''
                        \<and> IsStatusConditionTrue (Conditions (s_Status storage))
                              StorageInitializedCondition
                then
                  (let storage1 = storage\<lparr>s_Status := (s_Status storage)\<lparr>State := ''Ready''\<rparr>\<rparr>
                   in case setState storage1 w2 of
                        ((res, Some err), w3) \<Rightarrow> (NoRequeue err, storage1, w3)
                      | ((res, None), w3) \<Rightarrow>
                          (Ok, storage1, Event EventTypeNormal ''ResourcesReady'' w3))
                else (Ok, storage, w2))))"

definition waitForHealthCheck :: "Storage \<Rightarrow> World \<Rightarrow> outcome \<times> Storage \<times> World" where
  "waitForHealthCheck storage w =
     (case CheckBootstrapHealth storage w of
        (Some err, w1) \<Rightarrow>
          (RequeueAfterC (30 * Second) (Some err), storage,
           Event EventTypeNormal ''HealthcheckInProgress'' w1)
      | (None, w1) \<Rightarrow> (Ok, storage, Event EventTypeNormal ''HealthcheckOK'' w1))"

definition handleResourcesSync :: "Deps \<Rightarrow> Storage \<Rightarrow> World \<Rightarrow> outcome \<times> Storage \<times> World" where
  "handleResourcesSync D storage w =
     (case resourcesSync (storageOwner storage) (storageBuilders D storage) w of
        (out, w1) \<Rightarrow> (out, storage, w1))"

definition Sync :: "Deps \<Rightarrow> Storage \<Rightarrow> World \<Rightarrow> outcome \<times> World" where
  "Sync D cr w =
     (let storage = SetStatusOnFirstReconcile (NewCluster D cr) in
      case waitForStatefulSetToScale D storage w of
        (out1, storage1, w1) \<Rightarrow>
          if stops out1 then (out1, w1)
          else (case handleResourcesSync D storage1 w1 of
            (out2, storage2, w2) \<Rightarrow>
              if stops out2 then (out2, w2)
              else (case waitForHealthCheck storage2 w2 of
                (out3, storage3, w3) \<Rightarrow>
                  if stops out3 then (out3, w3)
                  else (case runDefineBoxScript storage3 w3 of
                    (out4, storage4, w4) \<Rightarrow>
                      if stops out4 then (out4, w4) else (Ok, w4)))))"

section \<open>Database reconciler\<close>

definition Provisioning :: string where
  "Provisioning = ''Provisioning''"

definition Initializing :: string where
  "Initializing = ''Initializing''"

definition Ready :: string where
  "Ready = ''Ready''"

definition DefaultRequeueDelay :: Duration where
  "DefaultRequeueDelay = 10 * Second"

definition TenantCreationRequeueDelay :: Duration where
  "TenantCreationRequeueDelay = 30 * Second"

definition StorageAwaitRequeueDelay :: Duration where
  "StorageAwaitRequeueDelay = 60 * Second"

definition ConditionTenantInitialized :: string where
  "ConditionTenantInitialized = ''TenantInitialized''"

text \<open>
  Modelled from the spec: \<open>resources.NewDatabase\<close> and the Database builder's
  \<open>SetStatusOnFirstReconcile\<close> are not among the sources. They follow their Storage
  counterparts above: a copy of the resource with the spec defaults filled in (the
  storage reference's empty namespace becomes the Database's own), and the status seed
  that makes the condition sequence non-nil.
\<close>

definition NewDatabase :: "Deps \<Rightarrow> Database \<Rightarrow> Database" where
  "NewDatabase D ydbCr = ydbCr\<lparr>d_Spec := SetDatabaseSpecDefaults D ydbCr (d_Spec ydbCr)\<rparr>"

definition database_SetStatusOnFirstReconcile :: "Database \<Rightarrow> Database" where
  "database_SetStatusOnFirstReconcile b =
     (if Conditions (d_Status b) = None
      then b\<lparr>d_Status := (d_Status b)\<lparr>Conditions := Some []\<rparr>\<rparr>
      else b)"

definition databaseOwner :: "Database \<Rightarrow> ResourceRef" where
  "databaseOwner database =
     \<lparr>k_Kind = ''Database'', k_Namespace = d_Namespace database, k_Name = d_Name database\<rparr>"

definition database_setState :: "Database \<Rightarrow> World \<Rightarrow> outcome \<times> World" where
  "database_setState database w =
     (case GetDatabase (d_Namespace database, d_Name database) w of
        (Inl err, w1) \<Rightarrow> (NoRequeue err, Event EventTypeWarning ''ControllerError'' w1)
      | (Inr databaseCr, w1) \<Rightarrow>
          (case StatusUpdateDatabase
                  (databaseCr\<lparr>d_Status := (d_Status databaseCr)
                     \<lparr>State := State (d_Status database),
                      Conditions := Conditions (d_Status database)\<rparr>\<rparr>) w1 of
             (Some err, w2) \<Rightarrow> (NoRequeue err, Event EventTypeWarning ''ControllerError'' w2)
           | (None, w2) \<Rightarrow> (Ok, w2)))"

definition waitForClusterResource :: "Database \<Rightarrow> World \<Rightarrow> outcome \<times> Database \<times> World" where
  "waitForClusterResource database w =
     (case GetStorage (ref_Namespace (StorageClusterRef (d_Spec database)),
                       ref_Name (StorageClusterRef (d_Spec database))) w of
        (Inl err, w1) \<Rightarrow>
          (RequeueAfterC StorageAwaitRequeueDelay (Some err), database,
           Event EventTypeWarning ''Pending'' w1)
      | (Inr found, w1) \<Rightarrow>
          (if State (s_Status found) \<noteq> ''Ready''
           then (RequeueAfterC StorageAwaitRequeueDelay None, database,
                 Event EventTypeWarning ''Pending'' w1)
           else (Ok, database, w1)))"

definition databaseStatefulSetKey :: "Database \<Rightarrow> ResourceRef" where
  "databaseStatefulSetKey database =
     \<lparr>k_Kind = ''StatefulSet'', k_Namespace = d_Namespace database, k_Name = d_Name database\<rparr>"

definition database_waitForStatefulSetToScale :: "Database \<Rightarrow> World \<Rightarrow> outcome \<times> Database \<times> World" where
  "database_waitForStatefulSetToScale database w =
     (case GetObject (databaseStatefulSetKey database) w of
        (Inl err, w1) \<Rightarrow>
          (if IsNotFound err then (Ok, database, w1)
           else (NoRequeue err, database, Event EventTypeNormal ''Syncing'' w1))
      | (Inr found, w1) \<Rightarrow>
          (if o_Replicas found \<noteq> d_Nodes (d_Spec database)
           then
             (let database1 = database\<lparr>d_Status := (d_Status database)\<lparr>State := Provisioning\<rparr>\<rparr>
              in case database_setState database1 w1 of
                   ((res, Some err), w2) \<Rightarrow> (NoRequeue err, database1, w2)
                 | ((res, None), w2) \<Rightarrow>
                     (RequeueAfterC DefaultRequeueDelay None, database1,
                      Event EventTypeNormal ''Provisioning'' w2))
           else if State (d_Status database) \<noteq> Ready
                   \<and> IsStatusConditionTrue (Conditions (d_Status database))
                         ConditionTenantInitialized
           then
             (let database1 = database\<lparr>d_Status := (d_Status database)\<lparr>State := Ready\<rparr>\<rparr>
              in case database_setState database1 w1 of
                   ((res, Some err), w2) \<Rightarrow> (NoRequeue err, database1, w2)
                 | ((res, None), w2) \<Rightarrow>
                     (Ok, database1, Event EventTypeNormal ''ResourcesReady'' w2))
           else (Ok, database, w1)))"

definition database_handleResourcesSync :: "Deps \<Rightarrow> Database \<Rightarrow> World \<Rightarrow> outcome \<times> Database \<times> World" where
  "database_handleResourcesSync D database w =
     (case resourcesSync (databaseOwner database) (databaseBuilders D database) w of
        (out, w1) \<Rightarrow> (out, database, w1))"

definition tenantInitialized :: Condition where
  "tenantInitialized =
     \<lparr>c_Type = ConditionTenantInitialized, c_Status = ''True'',
      c_Reason = ''TenantInitialized'', c_Message = ''Tenant creation is complete''\<rparr>"

definition handleTenantCreation :: "Database \<Rightarrow> World \<Rightarrow> outcome \<times> Database \<times> World" where
  "handleTenantCreation database w =
     (let database1 = database\<lparr>d_Status := (d_Status database)\<lparr>State := Initializing\<rparr>\<rparr> in
      case database_setState database1 w of
        ((res, Some err), w1) \<Rightarrow> (NoRequeue err, database1, w1)
      | ((res, None), w1) \<Rightarrow>
          (case TenantCreate database1 w1 of
             (Some err, w2) \<Rightarrow>
               (RequeueAfterC TenantCreationRequeueDelay (Some err), database1,
                Event EventTypeWarning ''InitializingFailed'' w2)
           | (None, w2) \<Rightarrow>
               (let database2 = database1\<lparr>d_Status := (d_Status database1)
                      \<lparr>Conditions := SetStatusCondition (Conditions (d_Status database1))
                                        tenantInitialized\<rparr>\<rparr>
                in case database_setState database2 (Event EventTypeNormal ''Initialized'' w2) of
                     ((res2, Some err), w3) \<Rightarrow> (NoRequeue err, database2, w3)
                   | ((res2, None), w3) \<Rightarrow> (RequeueImmediately, database2, w3))))"

definition database_Sync :: "Deps \<Rightarrow> Database \<Rightarrow> World \<Rightarrow> outcome \<times> World" where
  "database_Sync D ydbCr w =
     (let database = database_SetStatusOnFirstReconcile (NewDatabase D ydbCr);
          w0 = snd (database_setState database w)
      in case waitForClusterResource database w0 of
        (out1, database1, w1) \<Rightarrow>
          if stops out1 then (out1, w1)
          else (case database_waitForStatefulSetToScale database1 w1 of
            (out2, database2, w2) \<Rightarrow>
              if stops out2 then (out2, w2)
              else (case database_handleResourcesSync D database2 w2 of
                (out3, database3, w3) \<Rightarrow>
                  if stops out3 then (out3, w3)
                  else if \<not> IsStatusConditionTrue (Conditions (d_Status database3))
                                ConditionTenantInitialized
                  then (case handleTenantCreation database3 w3 of
                    (out4, database4, w4) \<Rightarrow>
                      if stops out4 then (out4, w4) else (Ok, w4))
                  else (Ok, w3))))"

section \<open>Fault-free stretches of the store\<close>

text \<open>
  \<open>faultFree w\<close>: no failure is planned for the store calls to come. \<open>tick w\<close> is
  the world after one such call has taken its entry of the plan.
\<close>

definition faultFree :: "World \<Rightarrow> bool" where
  "faultFree w = list_all (\<lambda>f. f = None) (apiFaults w)"

definition tick :: "World \<Rightarrow> World" where
  "tick w = w\<lparr>apiFaults := tl (apiFaults w)\<rparr>"

text \<open>
  The store files a resource under its own namespace and name: \<open>wellKeyed w\<close>.
\<close>

definition wellKeyed :: "World \<Rightarrow> bool" where
  "wellKeyed w =
     ((\<forall>key cr. storageCRs w key = Some cr \<longrightarrow> key = (s_Namespace cr, s_Name cr))
      \<and> (\<forall>key cr. databaseCRs w key = Some cr \<longrightarrow> key = (d_Namespace cr, d_Name cr)))"

text \<open>
  What the Storage wait-for-scale phase counts: the pods of the cluster's namespace
  that carry its labels and are in phase \<open>Running\<close>.
\<close>

definition runningPodCount :: "Deps \<Rightarrow> Storage \<Rightarrow> World \<Rightarrow> int" where
  "runningPodCount D storage w =
     int (length (filter (\<lambda>e. p_Phase e = ''Running'')
            (filter (\<lambda>p. p_Namespace p = s_Namespace storage
                          \<and> matchesLabels (storagePodLabels D (s_Name storage)) p) (pods w))))"

definition storedStorageState :: "Storage \<Rightarrow> World \<Rightarrow> string option" where
  "storedStorageState storage w =
     map_option (\<lambda>cr. State (s_Status cr)) (storageCRs w (s_Namespace storage, s_Name storage))"

text \<open>The two remote commands of the bootstrap phase, as \<open>ExecInPod\<close> logs them.\<close>

definition defineBoxCall :: "Storage \<Rightarrow> ExecCall" where
  "defineBoxCall storage =
     \<lparr>e_Namespace = s_Namespace storage, e_Pod = s_Name storage @ ''-0'',
      e_Container = ''ydb-storage'', e_Cmd = defineBoxCmd\<rparr>"

definition configureRootCall :: "Storage \<Rightarrow> ExecCall" where
  "configureRootCall storage =
     \<lparr>e_Namespace = s_Namespace storage, e_Pod = s_Name storage @ ''-0'',
      e_Container = ''ydb-storage'', e_Cmd = configureRootCmd\<rparr>"

section \<open>The Database wait-for-scale phase as the spec words it\<close>

text \<open>
  The spec describes the Database wait-for-scale phase as the Storage pattern, keyed on
  the Database's own workload object and its \<open>Nodes\<close>: fetch the workload object
  (not found: continue), count the members in a running phase that carry the label
  set, requeue after 10 seconds with State \<open>Provisioning\<close> persisted when the count
  differs from \<open>Nodes\<close>, persist State \<open>Ready\<close> when the count matches,
  \<open>TenantInitialized\<close> is true and State is not \<open>Ready\<close>. This definition follows
  those words; \<open>database_waitForStatefulSetToScale\<close> above follows the code.
\<close>

definition spec_database_waitForStatefulSetToScale ::
    "(string \<times> string) list \<Rightarrow> Database \<Rightarrow> World \<Rightarrow> outcome \<times> Database \<times> World" where
  "spec_database_waitForStatefulSetToScale selector database w =
     (case GetObject (databaseStatefulSetKey database) w of
        (Inl err, w1) \<Rightarrow>
          (if IsNotFound err then (Ok, database, w1)
           else (NoRequeue err, database, Event EventTypeNormal ''Syncing'' w1))
      | (Inr found, w1) \<Rightarrow>
          (case ListPods (d_Namespace database) selector w1 of
             (Inl err, w2) \<Rightarrow> (NoRequeue err, database, Event EventTypeNormal ''Syncing'' w2)
           | (Inr podList, w2) \<Rightarrow>
               (let runningPods = int (length (filter (\<lambda>e. p_Phase e = ''Running'') podList)) in
                if runningPods \<noteq> sint (d_Nodes (d_Spec database))
                then
                  (let database1 = database\<lparr>d_Status := (d_Status database)\<lparr>State := Provisioning\<rparr>\<rparr>
                   in case database_setState database1 w2 of
                        ((res, Some err), w3) \<Rightarrow> (NoRequeue err, database1, w3)
                      | ((res, None), w3) \<Rightarrow>
                          (RequeueAfterC DefaultRequeueDelay None, database1,
                           Event EventTypeNormal ''Provisioning'' w3))
                else if State (d_Status database) \<noteq> Ready
                        \<and> IsStatusConditionTrue (Conditions (d_Status database))
                              ConditionTenantInitialized
                then
                  (let database1 = database\<lparr>d_Status := (d_Status database)\<lparr>State := Ready\<rparr>\<rparr>
                   in case database_setState database1 w2 of
                        ((res, Some err), w3) \<Rightarrow> (NoRequeue err, database1, w3)
                      | ((res, None), w3) \<Rightarrow>
                          (Ok, database1, Event EventTypeNormal ''ResourcesReady'' w3))
                else (Ok, database, w2))))"

section \<open>Observations of the store\<close>

definition storedDatabaseState :: "string \<times> string \<Rightarrow> World \<Rightarrow> string option" where
  "storedDatabaseState key w = map_option (\<lambda>cr. State (d_Status cr)) (databaseCRs w key)"

definition storedTenantInitialized :: "string \<times> string \<Rightarrow> World \<Rightarrow> bool" where
  "storedTenantInitialized key w =
     (case databaseCRs w key of
        None \<Rightarrow> False
      | Some cr \<Rightarrow> IsStatusConditionTrue (Conditions (d_Status cr)) ConditionTenantInitialized)"

text \<open>The key of the Storage resource a Database refers to, after the defaults.\<close>

definition referencedStorageKey :: "Deps \<Rightarrow> Database \<Rightarrow> string \<times> string" where
  "referencedStorageKey D ydbCr =
     (ref_Namespace (StorageClusterRef (d_Spec (NewDatabase D ydbCr))),
      ref_Name (StorageClusterRef (d_Spec (NewDatabase D ydbCr))))"

section \<open>Notions for the idempotence of resource sync\<close>

text \<open>
  The key a builder's child is stored under, and the value \<open>mutate\<close> computes for the
  closure of \<open>handleResourcesSync\<close> (it does not depend on the world).
\<close>

definition childKey :: "ResourceRef \<Rightarrow> ResourceBuilder \<Rightarrow> ResourceRef" where
  "childKey owner builder = o_Key (Placeholder builder owner)"

definition mutated :: "ResourceBuilder \<Rightarrow> ResourceRef \<Rightarrow> ResourceRef \<Rightarrow> KObject \<Rightarrow> error + KObject" where
  "mutated builder owner key rr =
     (case Build builder rr of
        Inl err \<Rightarrow> Inl err
      | Inr rr1 \<Rightarrow>
          (case SetControllerReference owner rr1 of
             Inl err \<Rightarrow> Inl err
           | Inr rr2 \<Rightarrow> (if o_Key rr2 \<noteq> key then Inl KeyMutated else Inr rr2)))"

text \<open>
  The builders' \<open>Build\<close> methods are not among the sources. \<open>buildSettles owner b\<close>
  is the assumption on them under which a second pass can leave a child alone: building
  again from a child that \<open>Build\<close> has produced, once it carries the owner
  reference, gives that same child.
\<close>

definition buildSettles :: "ResourceRef \<Rightarrow> ResourceBuilder \<Rightarrow> bool" where
  "buildSettles owner builder =
     (\<forall>x y. Build builder x = Inr y \<longrightarrow>
        Build builder (y\<lparr>o_Owner := Some owner\<rparr>) = Inr (y\<lparr>o_Owner := Some owner\<rparr>))"

section \<open>Successive reconciliations of a Database\<close>

text \<open>
  Modelled from the spec: the controller's \<open>Reconcile\<close> entry point and the dispatcher
  are not among the sources. The spec gives the control flow: an external trigger
  invokes \<open>Sync\<close> with the current resource. A resource that is gone is left alone.
\<close>

definition database_Reconcile :: "Deps \<Rightarrow> string \<times> string \<Rightarrow> World \<Rightarrow> outcome \<times> World" where
  "database_Reconcile D key w =
     (case databaseCRs w key of
        None \<Rightarrow> (Ok, w)
      | Some cr \<Rightarrow> database_Sync D cr w)"

text \<open>
  A history of worlds, latest first. Between two worlds lies either one reconciliation
  of the Database under \<open>key\<close>, or a change made by the environment (pods come up, the
  workload object reports replicas, collaborators change their answers, other
  resources are edited), which leaves the Database resource under \<open>key\<close> and the log
  of tenant creations alone.
\<close>

inductive history :: "Deps \<Rightarrow> string \<times> string \<Rightarrow> World list \<Rightarrow> bool"
  for D :: Deps and key :: "string \<times> string" where
  start: "wellKeyed w \<Longrightarrow> history D key [w]"
| reconcile: "history D key (w # ws) \<Longrightarrow>
              history D key (snd (database_Reconcile D key w) # w # ws)"
| environment: "history D key (w # ws) \<Longrightarrow> wellKeyed w' \<Longrightarrow>
                databaseCRs w' key = databaseCRs w key \<Longrightarrow> tenantLog w' = tenantLog w \<Longrightarrow>
                history D key (w' # w # ws)"

text \<open>The stored status of the Database under \<open>key\<close>, if there is one, satisfies \<open>P\<close>.\<close>

definition storedStatusIs :: "(CRStatus \<Rightarrow> bool) \<Rightarrow> string \<times> string \<Rightarrow> World \<Rightarrow> bool" where
  "storedStatusIs P key w = (\<forall>cr. databaseCRs w key = Some cr \<longrightarrow> P (d_Status cr))"

text \<open>
  \<open>reachesBootstrap D cr w\<close>: in \<open>Sync D cr w\<close> the three phases before the bootstrap
  phase all continue.
\<close>

definition reachesBootstrap :: "Deps \<Rightarrow> Storage \<Rightarrow> World \<Rightarrow> bool" where
  "reachesBootstrap D cr w =
     (let storage = SetStatusOnFirstReconcile (NewCluster D cr) in
      case waitForStatefulSetToScale D storage w of
        (out1, storage1, w1) \<Rightarrow>
          \<not> stops out1
          \<and> (case handleResourcesSync D storage1 w1 of
                (out2, storage2, w2) \<Rightarrow>
                  \<not> stops out2
                  \<and> (case waitForHealthCheck storage2 w2 of
                        (out3, storage3, w3) \<Rightarrow> \<not> stops out3)))"

section \<open>Concrete resources for the worked instances\<close>

text \<open>
  Builders of the kind the Storage reconciler owns: each writes a fixed body into a
  child named after the owner (with a suffix for the three services). The list follows
  \<open>GetResourceBuilders\<close>: the three services, the config data, the workload
  definition (no monitoring endpoint is configured).
\<close>

definition fixedBodyBuilder :: "string \<Rightarrow> string \<Rightarrow> ResourceBuilder" where
  "fixedBodyBuilder kind body =
     \<lparr>Placeholder = (\<lambda>owner. \<lparr>o_Key = \<lparr>k_Kind = kind, k_Namespace = k_Namespace owner,
                                          k_Name = k_Name owner\<rparr>,
                                 o_Owner = None, o_Body = '''', o_Replicas = 0\<rparr>),
      Build = (\<lambda>rr. Inr (rr\<lparr>o_Body := body\<rparr>))\<rparr>"

definition serviceBuilder :: "string \<Rightarrow> ResourceBuilder" where
  "serviceBuilder port =
     \<lparr>Placeholder = (\<lambda>owner. \<lparr>o_Key = \<lparr>k_Kind = ''Service'', k_Namespace = k_Namespace owner,
                                          k_Name = k_Name owner @ ''-'' @ port\<rparr>,
                                 o_Owner = None, o_Body = '''', o_Replicas = 0\<rparr>),
      Build = (\<lambda>rr. Inr (rr\<lparr>o_Body := port\<rparr>))\<rparr>"

definition exampleStorageBuilders :: "ResourceBuilder list" where
  "exampleStorageBuilders =
     [serviceBuilder ''grpc'', serviceBuilder ''interconnect'', serviceBuilder ''status'',
      fixedBodyBuilder ''ConfigMap'' ''config'', fixedBodyBuilder ''StatefulSet'' ''workload'']"

definition exampleDeps :: Deps where
  "exampleDeps =
     \<lparr>Sprintf = (\<lambda>format args. case args of [a, b] \<Rightarrow> a @ '':'' @ b | _ \<Rightarrow> format),
      ImagePathFormat = ''%s:%s'',
      RegistryPath = ''registry/ydb'',
      DefaultTag = ''22.4.44'',
      SetStorageClusterSpecDefaults = (\<lambda>spec. spec),
      storagePodLabels = (\<lambda>name. [(''instance'', name), (''component'', ''storage-node'')]),
      storageBuilders = (\<lambda>storage. exampleStorageBuilders),
      databaseBuilders = (\<lambda>database. [])\<rparr>"

definition bareDatabase :: Database where
  "bareDatabase =
     \<lparr>d_Name = ''db1'', d_Namespace = ''prod'',
      d_Spec = \<lparr>StorageClusterRef = \<lparr>ref_Name = ''store1'', ref_Namespace = ''''\<rparr>,
                Image = \<lparr>img_Name = '''', img_PullPolicyName = None\<rparr>,
                YDBVersion = '''', d_Nodes = 3\<rparr>,
      d_Status = \<lparr>State = '''', Conditions = None\<rparr>\<rparr>"

definition filledDatabase :: Database where
  "filledDatabase =
     \<lparr>d_Name = ''db2'', d_Namespace = ''prod'',
      d_Spec = \<lparr>StorageClusterRef = \<lparr>ref_Name = ''store1'', ref_Namespace = ''infra''\<rparr>,
                Image = \<lparr>img_Name = ''mirror/ydb:1'', img_PullPolicyName = Some PullAlways\<rparr>,
                YDBVersion = ''23.1'', d_Nodes = 3\<rparr>,
      d_Status = \<lparr>State = '''', Conditions = None\<rparr>\<rparr>"

definition emptyWorld :: World where
  "emptyWorld =
     \<lparr>storageCRs = Map.empty, databaseCRs = Map.empty, objects = Map.empty, pods = [],
      apiFaults = [], execOutcomes = [], healthOutcomes = [], tenantOutcomes = [],
      execLog = [], tenantLog = [], createLog = [], events = []\<rparr>"

definition exampleStorage :: Storage where
  "exampleStorage =
     \<lparr>s_Name = ''store1'', s_Namespace = ''infra'', s_Spec = \<lparr>s_Nodes = 3\<rparr>,
      s_Status = \<lparr>State = '''', Conditions = None\<rparr>\<rparr>"

definition initializedStorage :: Storage where
  "initializedStorage =
     exampleStorage\<lparr>s_Status := \<lparr>State = ''Provisioning'',
                                   Conditions = Some [storageInitialized]\<rparr>\<rparr>"

definition exampleStatefulSet :: KObject where
  "exampleStatefulSet =
     \<lparr>o_Key = \<lparr>k_Kind = ''StatefulSet'', k_Namespace = ''infra'', k_Name = ''store1''\<rparr>,
      o_Owner = None, o_Body = ''workload'', o_Replicas = 3\<rparr>"

definition storagePod :: "string \<Rightarrow> Pod" where
  "storagePod phase =
     \<lparr>p_Namespace = ''infra'',
      p_Labels = [(''instance'', ''store1''), (''component'', ''storage-node'')],
      p_Phase = phase\<rparr>"

text \<open>A store holding the Storage resource and its workload object.\<close>

definition storageWorld :: "Storage \<Rightarrow> Pod list \<Rightarrow> World" where
  "storageWorld cr ps =
     emptyWorld\<lparr>storageCRs := [(s_Namespace cr, s_Name cr) \<mapsto> cr],
                objects := [o_Key exampleStatefulSet \<mapsto> exampleStatefulSet],
                pods := ps\<rparr>"

text \<open>A store holding a Database resource and the Storage resource it refers to.\<close>

definition databaseWorld :: "Database \<Rightarrow> Storage \<Rightarrow> World" where
  "databaseWorld db st =
     emptyWorld\<lparr>databaseCRs := [(d_Namespace db, d_Name db) \<mapsto> db],
                storageCRs := [(s_Namespace st, s_Name st) \<mapsto> st]\<rparr>"

definition outage :: error where
  "outage = Failure ''i/o timeout''"

definition databasePod :: "string \<Rightarrow> Pod" where
  "databasePod phase =
     \<lparr>p_Namespace = ''prod'',
      p_Labels = [(''instance'', ''db1''), (''component'', ''dynamic-node'')],
      p_Phase = phase\<rparr>"

definition databaseSelector :: "(string \<times> string) list" where
  "databaseSelector = [(''instance'', ''db1''), (''component'', ''dynamic-node'')]"

definition databaseStatefulSet :: KObject where
  "databaseStatefulSet =
     \<lparr>o_Key = \<lparr>k_Kind = ''StatefulSet'', k_Namespace = ''prod'', k_Name = ''db1''\<rparr>,
      o_Owner = None, o_Body = ''workload'', o_Replicas = 3\<rparr>"

text \<open>
  A Database whose workload object reports three replicas while its three pods are
  still pending.
\<close>

definition pendingPodsWorld :: World where
  "pendingPodsWorld =
     (databaseWorld bareDatabase exampleStorage)
       \<lparr>objects := [o_Key databaseStatefulSet \<mapsto> databaseStatefulSet],
        pods := [databasePod ''Pending'', databasePod ''Pending'', databasePod ''Pending'']\<rparr>"

text \<open>The two builders of the worked instance of resource sync.\<close>

definition builderDeps :: Deps where
  "builderDeps =
     exampleDeps\<lparr>storageBuilders :=
       (\<lambda>storage. [fixedBodyBuilder ''ConfigMap'' ''config'',
                    fixedBodyBuilder ''StatefulSet'' ''workload''])\<rparr>"

text \<open>
  A Database whose Storage is ready, reconciled once (tenant created), then its workload
  object reports three replicas, then reconciled again.
\<close>

definition readyStorage :: Storage where
  "readyStorage =
     \<lparr>s_Name = ''store1'', s_Namespace = ''prod'', s_Spec = \<lparr>s_Nodes = 3\<rparr>,
      s_Status = \<lparr>State = ''Ready'', Conditions = Some [storageInitialized]\<rparr>\<rparr>"

definition tenantWorld0 :: World where
  "tenantWorld0 = databaseWorld bareDatabase readyStorage"

definition tenantWorld1 :: World where
  "tenantWorld1 = snd (database_Reconcile exampleDeps (''prod'', ''db1'') tenantWorld0)"

definition tenantWorld2 :: World where
  "tenantWorld2 = tenantWorld1\<lparr>objects := [o_Key databaseStatefulSet \<mapsto> databaseStatefulSet]\<rparr>"

definition tenantWorld3 :: World where
  "tenantWorld3 = snd (database_Reconcile exampleDeps (''prod'', ''db1'') tenantWorld2)"

text \<open>
  A Storage cluster after a first pass has created its five children and its three
  pods have come up; the bootstrap phase entered there with the status update (the
  second store call of the persist) about to fail; and the world that failed persist
  leaves.
\<close>

definition settledWorld :: World where
  "settledWorld =
     (snd (Sync exampleDeps exampleStorage
             (emptyWorld\<lparr>storageCRs := [(''infra'', ''store1'') \<mapsto> exampleStorage]\<rparr>)))
       \<lparr>pods := [storagePod ''Running'', storagePod ''Running'', storagePod ''Running'']\<rparr>"

definition failingPersistWorld :: World where
  "failingPersistWorld = settledWorld\<lparr>apiFaults := [None, Some (Failure ''conflict'')]\<rparr>"

definition afterFailedPersist :: World where
  "afterFailedPersist =
     snd (snd (runDefineBoxScript
                 (SetStatusOnFirstReconcile (NewCluster exampleDeps exampleStorage))
                 failingPersistWorld))"

text \<open>
  The same failure met by a whole \<open>Sync\<close>: its ninth store call (two of wait-for-scale,
  five of resource sync, the fetch of the persist, then the status update) fails.
\<close>

definition failingSyncWorld :: World where
  "failingSyncWorld =
     settledWorld\<lparr>apiFaults := [None, None, None, None, None, None, None, None,
                                  Some (Failure ''conflict'')]\<rparr>"

definition afterFailedSync :: World where
  "afterFailedSync = snd (Sync exampleDeps exampleStorage failingSyncWorld)"

section \<open>Properties of the defaults\<close>

lemma SetDatabaseSpecDefaults_explicit:
  "SetDatabaseSpecDefaults D ydbCr ydbSpec =
     ydbSpec\<lparr>StorageClusterRef := (StorageClusterRef ydbSpec)\<lparr>ref_Namespace :=
                (if ref_Namespace (StorageClusterRef ydbSpec) = '''' then d_Namespace ydbCr
                 else ref_Namespace (StorageClusterRef ydbSpec))\<rparr>,
             Image := (Image ydbSpec)\<lparr>
               img_Name :=
                (if img_Name (Image ydbSpec) = ''''
                 then Sprintf D (ImagePathFormat D)
                        [RegistryPath D,
                         if YDBVersion ydbSpec = '''' then DefaultTag D else YDBVersion ydbSpec]
                 else img_Name (Image ydbSpec)),
               img_PullPolicyName :=
                (if img_PullPolicyName (Image ydbSpec) = None then Some PullIfNotPresent
                 else img_PullPolicyName (Image ydbSpec))\<rparr>\<rparr>"
  by (cases "ref_Namespace (StorageClusterRef ydbSpec) = ''''";
      cases "img_Name (Image ydbSpec) = ''''";
      cases "YDBVersion ydbSpec = ''''";
      cases "img_PullPolicyName (Image ydbSpec) = None";
      simp add: SetDatabaseSpecDefaults_def Let_def)

lemma SetDatabaseSpecDefaults_twice:
  "SetDatabaseSpecDefaults D ydbCr (SetDatabaseSpecDefaults D ydbCr ydbSpec) =
     SetDatabaseSpecDefaults D ydbCr ydbSpec"
  by (cases "ref_Namespace (StorageClusterRef ydbSpec) = ''''";
      cases "img_Name (Image ydbSpec) = ''''";
      cases "YDBVersion ydbSpec = ''''";
      cases "img_PullPolicyName (Image ydbSpec) = None";
      simp add: SetDatabaseSpecDefaults_explicit)

lemma SetDatabaseSpecDefaults_namespace:
  "ref_Namespace (StorageClusterRef (SetDatabaseSpecDefaults D ydbCr ydbSpec)) =
     (if ref_Namespace (StorageClusterRef ydbSpec) = '''' then d_Namespace ydbCr
      else ref_Namespace (StorageClusterRef ydbSpec))"
  by (simp add: SetDatabaseSpecDefaults_explicit)

lemma SetDatabaseSpecDefaults_ref_Name:
  "ref_Name (StorageClusterRef (SetDatabaseSpecDefaults D ydbCr ydbSpec)) =
     ref_Name (StorageClusterRef ydbSpec)"
  by (simp add: SetDatabaseSpecDefaults_explicit)

lemma SetDatabaseSpecDefaults_img_Name:
  "img_Name (Image ydbSpec) \<noteq> '''' \<Longrightarrow>
     img_Name (Image (SetDatabaseSpecDefaults D ydbCr ydbSpec)) = img_Name (Image ydbSpec)"
  by (simp add: SetDatabaseSpecDefaults_explicit)

lemma SetDatabaseSpecDefaults_PullPolicyName:
  "img_PullPolicyName (Image ydbSpec) \<noteq> None \<Longrightarrow>
     img_PullPolicyName (Image (SetDatabaseSpecDefaults D ydbCr ydbSpec)) =
       img_PullPolicyName (Image ydbSpec)"
  by (simp add: SetDatabaseSpecDefaults_explicit)

lemma SetDatabaseSpecDefaults_rest:
  "YDBVersion (SetDatabaseSpecDefaults D ydbCr ydbSpec) = YDBVersion ydbSpec"
  "d_Nodes (SetDatabaseSpecDefaults D ydbCr ydbSpec) = d_Nodes ydbSpec"
  by (simp_all add: SetDatabaseSpecDefaults_explicit)

text \<open>
  C9. \<open>SetDatabaseSpecDefaults\<close> is idempotent and only fills absent fields: applied
  twice (for the same Database) it gives the spec it gives applied once; a non-empty
  \<open>StorageClusterRef.Namespace\<close>, a non-empty \<open>Image.Name\<close> and a non-nil
  \<open>Image.PullPolicyName\<close> are left as they are; an empty
  \<open>StorageClusterRef.Namespace\<close> becomes the Database's own namespace. The other
  fields (the reference's name, the version, the node count) are not touched.
\<close>

theorem SetDatabaseSpecDefaults_idempotent_fills_absent:
  "SetDatabaseSpecDefaults D ydbCr (SetDatabaseSpecDefaults D ydbCr ydbSpec) =
     SetDatabaseSpecDefaults D ydbCr ydbSpec
   \<and> (ref_Namespace (StorageClusterRef ydbSpec) \<noteq> '''' \<longrightarrow>
        ref_Namespace (StorageClusterRef (SetDatabaseSpecDefaults D ydbCr ydbSpec)) =
          ref_Namespace (StorageClusterRef ydbSpec))
   \<and> (img_Name (Image ydbSpec) \<noteq> '''' \<longrightarrow>
        img_Name (Image (SetDatabaseSpecDefaults D ydbCr ydbSpec)) = img_Name (Image ydbSpec))
   \<and> (img_PullPolicyName (Image ydbSpec) \<noteq> None \<longrightarrow>
        img_PullPolicyName (Image (SetDatabaseSpecDefaults D ydbCr ydbSpec)) =
          img_PullPolicyName (Image ydbSpec))
   \<and> (ref_Namespace (StorageClusterRef ydbSpec) = '''' \<longrightarrow>
        ref_Namespace (StorageClusterRef (SetDatabaseSpecDefaults D ydbCr ydbSpec)) =
          d_Namespace ydbCr)
   \<and> ref_Name (StorageClusterRef (SetDatabaseSpecDefaults D ydbCr ydbSpec)) =
        ref_Name (StorageClusterRef ydbSpec)
   \<and> YDBVersion (SetDatabaseSpecDefaults D ydbCr ydbSpec) = YDBVersion ydbSpec
   \<and> d_Nodes (SetDatabaseSpecDefaults D ydbCr ydbSpec) = d_Nodes ydbSpec"
  using SetDatabaseSpecDefaults_twice [of D ydbCr ydbSpec]
        SetDatabaseSpecDefaults_namespace [of D ydbCr ydbSpec]
        SetDatabaseSpecDefaults_ref_Name [of D ydbCr ydbSpec]
        SetDatabaseSpecDefaults_img_Name [of ydbSpec D ydbCr]
        SetDatabaseSpecDefaults_PullPolicyName [of ydbSpec D ydbCr]
        SetDatabaseSpecDefaults_rest [of D ydbCr ydbSpec]
  by presburger

theorem SetDatabaseSpecDefaults_idempotent_fills_absent_witness:
  "ref_Namespace (StorageClusterRef (d_Spec bareDatabase)) = ''''
   \<and> ref_Namespace (StorageClusterRef
        (SetDatabaseSpecDefaults exampleDeps bareDatabase (d_Spec bareDatabase))) = ''prod''
   \<and> ref_Namespace (StorageClusterRef (d_Spec filledDatabase)) \<noteq> ''''
   \<and> img_Name (Image (d_Spec filledDatabase)) \<noteq> ''''
   \<and> img_PullPolicyName (Image (d_Spec filledDatabase)) \<noteq> None
   \<and> ref_Namespace (StorageClusterRef
        (SetDatabaseSpecDefaults exampleDeps filledDatabase (d_Spec filledDatabase))) = ''infra''
   \<and> img_Name (Image
        (SetDatabaseSpecDefaults exampleDeps filledDatabase (d_Spec filledDatabase))) =
        ''mirror/ydb:1''
   \<and> img_PullPolicyName (Image
        (SetDatabaseSpecDefaults exampleDeps filledDatabase (d_Spec filledDatabase))) =
        Some PullAlways"
  using SetDatabaseSpecDefaults_idempotent_fills_absent
          [of exampleDeps bareDatabase "d_Spec bareDatabase"]
        SetDatabaseSpecDefaults_idempotent_fills_absent
          [of exampleDeps filledDatabase "d_Spec filledDatabase"]
  by (simp add: bareDatabase_def filledDatabase_def)

section \<open>Basic facts about the world and the store client\<close>

lemma Event_fields [simp]:
  "storageCRs (Event t r w) = storageCRs w"
  "databaseCRs (Event t r w) = databaseCRs w"
  "objects (Event t r w) = objects w"
  "pods (Event t r w) = pods w"
  "apiFaults (Event t r w) = apiFaults w"
  "execOutcomes (Event t r w) = execOutcomes w"
  "healthOutcomes (Event t r w) = healthOutcomes w"
  "tenantOutcomes (Event t r w) = tenantOutcomes w"
  "execLog (Event t r w) = execLog w"
  "tenantLog (Event t r w) = tenantLog w"
  "createLog (Event t r w) = createLog w"
  "events (Event t r w) = events w @ [(t, r)]"
  by (simp_all add: Event_def)

lemma tick_fields [simp]:
  "storageCRs (tick w) = storageCRs w"
  "databaseCRs (tick w) = databaseCRs w"
  "objects (tick w) = objects w"
  "pods (tick w) = pods w"
  "apiFaults (tick w) = tl (apiFaults w)"
  "execOutcomes (tick w) = execOutcomes w"
  "healthOutcomes (tick w) = healthOutcomes w"
  "tenantOutcomes (tick w) = tenantOutcomes w"
  "execLog (tick w) = execLog w"
  "tenantLog (tick w) = tenantLog w"
  "createLog (tick w) = createLog w"
  "events (tick w) = events w"
  by (simp_all add: tick_def)

lemma nextFault_tick: "snd (nextFault w) = tick w"
  by (cases "apiFaults w") (simp_all add: nextFault_def nextOutcome_def tick_def)

lemma nextFault_cases:
  "nextFault w = (f, w1) \<Longrightarrow> w1 = tick w"
  using nextFault_tick [of w] by simp

lemma faultFree_nextFault: "faultFree w \<Longrightarrow> nextFault w = (None, tick w)"
  by (cases "apiFaults w") (simp_all add: faultFree_def nextFault_def nextOutcome_def tick_def)

lemma faultFree_tick [simp]: "faultFree w \<Longrightarrow> faultFree (tick w)"
  by (cases "apiFaults w") (simp_all add: faultFree_def tick_def)

lemma faultFree_Event [simp]: "faultFree (Event t r w) = faultFree w"
  by (simp add: faultFree_def)

lemma GetObject_faultFree:
  "faultFree w \<Longrightarrow>
   GetObject key w = ((case objects w key of None \<Rightarrow> Inl NotFound | Some obj \<Rightarrow> Inr obj), tick w)"
  by (simp add: GetObject_def faultFree_nextFault split: option.split)

lemma GetStorage_faultFree:
  "faultFree w \<Longrightarrow>
   GetStorage key w = ((case storageCRs w key of None \<Rightarrow> Inl NotFound | Some cr \<Rightarrow> Inr cr), tick w)"
  by (simp add: GetStorage_def faultFree_nextFault split: option.split)

lemma ListPods_faultFree:
  "faultFree w \<Longrightarrow>
   ListPods namespace selector w =
     (Inr (filter (\<lambda>p. p_Namespace p = namespace \<and> matchesLabels selector p) (pods w)), tick w)"
  by (simp add: ListPods_def faultFree_nextFault)

lemma wellKeyed_storage:
  "wellKeyed w \<Longrightarrow> storageCRs w (ns, name) = Some cr \<Longrightarrow> s_Namespace cr = ns \<and> s_Name cr = name"
  by (auto simp: wellKeyed_def)

lemma wellKeyed_database:
  "wellKeyed w \<Longrightarrow> databaseCRs w (ns, name) = Some cr \<Longrightarrow> d_Namespace cr = ns \<and> d_Name cr = name"
  by (auto simp: wellKeyed_def)

lemma setState_faultFree:
  "faultFree w \<Longrightarrow> wellKeyed w \<Longrightarrow>
   storageCRs w (s_Namespace storage, s_Name storage) = Some cr \<Longrightarrow>
   setState storage w =
     (Ok, (tick (tick w))\<lparr>storageCRs := (storageCRs w)((s_Namespace storage, s_Name storage) \<mapsto>
            cr\<lparr>s_Status := (s_Status cr)\<lparr>State := State (s_Status storage),
                                           Conditions := Conditions (s_Status storage)\<rparr>\<rparr>)\<rparr>)"
  using wellKeyed_storage [of w "s_Namespace storage" "s_Name storage" cr]
  by (simp add: setState_def GetStorage_faultFree StatusUpdateStorage_def faultFree_nextFault)

section \<open>Storage: bootstrap is one-shot, health check is read-only\<close>

lemma IsStatusConditionPresentAndEqual_distinct:
  "distinct (map c_Type cs) \<Longrightarrow> c \<in> set cs \<Longrightarrow> c_Type c = t \<Longrightarrow> c_Status c = s \<Longrightarrow>
   IsStatusConditionPresentAndEqual cs t s"
  by (induction cs) (auto simp: rev_image_eqI)

text \<open>
  C1. For a Storage resource whose condition sequence (keyed by type) contains
  \<open>StorageInitialized\<close> with status \<open>True\<close>, the bootstrap phase invokes no remote
  command, returns continue (no requeue, no error) and leaves the resource, its status
  and the whole world as they were.
\<close>

theorem runDefineBoxScript_one_shot:
  assumes "distinct (map c_Type (slice (Conditions (s_Status storage))))"
    and "\<exists>c \<in> set (slice (Conditions (s_Status storage))).
            c_Type c = StorageInitializedCondition \<and> c_Status c = ''True''"
  shows "runDefineBoxScript storage w = (Ok, storage, w)
         \<and> execLog (snd (snd (runDefineBoxScript storage w))) = execLog w
         \<and> s_Status (fst (snd (runDefineBoxScript storage w))) = s_Status storage
         \<and> Ok = (\<lparr>Requeue = False, RequeueAfter = 0\<rparr>, None)"
proof -
  from assms have "IsStatusConditionTrue (Conditions (s_Status storage)) StorageInitializedCondition"
    unfolding IsStatusConditionTrue_def
    by (blast intro: IsStatusConditionPresentAndEqual_distinct)
  then have "runDefineBoxScript storage w = (Ok, storage, w)"
    by (simp add: runDefineBoxScript_def)
  then show ?thesis by (simp add: Ok_def)
qed

lemma CheckBootstrapHealth_frame:
  "storageCRs (snd (CheckBootstrapHealth storage w)) = storageCRs w"
  by (simp add: CheckBootstrapHealth_def)

text \<open>
  C7. The health-check phase never changes the State or the Conditions of the resource,
  in memory or in the store: a non-nil probe outcome gives exactly a 30-second requeue
  carrying that outcome, a nil outcome gives continue.
\<close>

theorem waitForHealthCheck_no_status_mutation:
  "s_Status (fst (snd (waitForHealthCheck storage w))) = s_Status storage
   \<and> fst (snd (waitForHealthCheck storage w)) = storage
   \<and> storageCRs (snd (snd (waitForHealthCheck storage w))) = storageCRs w
   \<and> (case fst (CheckBootstrapHealth storage w) of
        Some err \<Rightarrow>
          fst (waitForHealthCheck storage w) =
            (\<lparr>Requeue = True, RequeueAfter = 30 * 1000000000\<rparr>, Some err)
      | None \<Rightarrow>
          fst (waitForHealthCheck storage w) = (\<lparr>Requeue = False, RequeueAfter = 0\<rparr>, None))"
  by (cases "CheckBootstrapHealth storage w"; cases "fst (CheckBootstrapHealth storage w)")
     (use CheckBootstrapHealth_frame [of storage w] in
      \<open>auto simp: waitForHealthCheck_def RequeueAfterC_def Ok_def Second_def\<close>)

section \<open>Storage: wait-for-scale\<close>

lemma wellKeyed_tick [simp]: "wellKeyed (tick w) = wellKeyed w"
  by (simp add: wellKeyed_def)

lemma wellKeyed_Event [simp]: "wellKeyed (Event t r w) = wellKeyed w"
  by (simp add: wellKeyed_def)

lemma waitForStatefulSetToScale_underscaled:
  assumes "faultFree w" and "wellKeyed w"
    and "objects w (storageStatefulSetKey storage) = Some found"
    and "storageCRs w (s_Namespace storage, s_Name storage) = Some cr"
    and "runningPodCount D storage w \<noteq> sint (s_Nodes (s_Spec storage))"
  shows "fst (waitForStatefulSetToScale D storage w) = RequeueAfterC (10 * Second) None"
    and "State (s_Status (fst (snd (waitForStatefulSetToScale D storage w)))) = ''Provisioning''"
    and "storedStorageState storage (snd (snd (waitForStatefulSetToScale D storage w))) =
           Some ''Provisioning''"
  using assms
  by (simp_all add: waitForStatefulSetToScale_def GetObject_faultFree ListPods_faultFree
        setState_faultFree [where cr = cr] runningPodCount_def Let_def Ok_def storedStorageState_def)

lemma waitForStatefulSetToScale_ready:
  assumes "faultFree w" and "wellKeyed w"
    and "objects w (storageStatefulSetKey storage) = Some found"
    and "storageCRs w (s_Namespace storage, s_Name storage) = Some cr"
    and "runningPodCount D storage w = sint (s_Nodes (s_Spec storage))"
    and "IsStatusConditionTrue (Conditions (s_Status storage)) StorageInitializedCondition"
    and "State (s_Status storage) \<noteq> ''Ready''"
  shows "fst (waitForStatefulSetToScale D storage w) = Ok"
    and "State (s_Status (fst (snd (waitForStatefulSetToScale D storage w)))) = ''Ready''"
    and "storedStorageState storage (snd (snd (waitForStatefulSetToScale D storage w))) =
           Some ''Ready''"
  using assms
  by (simp_all add: waitForStatefulSetToScale_def GetObject_faultFree ListPods_faultFree
        setState_faultFree [where cr = cr] runningPodCount_def Let_def Ok_def storedStorageState_def)

text \<open>
  C2. Storage wait-for-scale, for a resource whose workload object exists, with the
  store answering its calls: when the number of running member pods differs from
  \<open>Spec.Nodes\<close> the phase sets State to \<open>Provisioning\<close>, persists it and requeues
  after 10 seconds; when the number equals \<open>Spec.Nodes\<close>, \<open>StorageInitialized\<close> is
  true and State is not \<open>Ready\<close>, it sets and persists State \<open>Ready\<close> and continues.
\<close>

theorem storage_waitForStatefulSetToScale_scale_check:
  assumes "faultFree w" and "wellKeyed w"
    and "objects w (storageStatefulSetKey storage) = Some found"
    and "storageCRs w (s_Namespace storage, s_Name storage) = Some cr"
  shows "(runningPodCount D storage w \<noteq> sint (s_Nodes (s_Spec storage)) \<longrightarrow>
            fst (waitForStatefulSetToScale D storage w) =
              (\<lparr>Requeue = True, RequeueAfter = 10 * 1000000000\<rparr>, None)
            \<and> State (s_Status (fst (snd (waitForStatefulSetToScale D storage w)))) = ''Provisioning''
            \<and> storedStorageState storage (snd (snd (waitForStatefulSetToScale D storage w))) =
                Some ''Provisioning'')
       \<and> (runningPodCount D storage w = sint (s_Nodes (s_Spec storage))
            \<and> IsStatusConditionTrue (Conditions (s_Status storage)) StorageInitializedCondition
            \<and> State (s_Status storage) \<noteq> ''Ready'' \<longrightarrow>
            fst (waitForStatefulSetToScale D storage w) =
              (\<lparr>Requeue = False, RequeueAfter = 0\<rparr>, None)
            \<and> State (s_Status (fst (snd (waitForStatefulSetToScale D storage w)))) = ''Ready''
            \<and> storedStorageState storage (snd (snd (waitForStatefulSetToScale D storage w))) =
                Some ''Ready'')"
  using waitForStatefulSetToScale_underscaled [OF assms]
        waitForStatefulSetToScale_ready [OF assms]
  by (simp add: RequeueAfterC_def Ok_def Second_def)

section \<open>Storage: what the bootstrap phase logs and what a failed persist leaves\<close>

lemma setState_failure_keeps_store:
  "setState storage w = ((res, Some err), w1) \<Longrightarrow> storageCRs w1 = storageCRs w"
  by (auto simp: setState_def GetStorage_def StatusUpdateStorage_def Ok_def NoRequeue_def
           dest!: nextFault_cases split: prod.splits sum.splits option.splits)

lemma setState_failure_outcome:
  "setState storage w = ((res, Some err), w1) \<Longrightarrow> res = \<lparr>Requeue = False, RequeueAfter = 0\<rparr>"
  by (auto simp: setState_def GetStorage_def StatusUpdateStorage_def Ok_def NoRequeue_def
           split: prod.splits sum.splits option.splits)

lemma ExecInPod_frame:
  "storageCRs (snd (ExecInPod ns pod c cmd w)) = storageCRs w"
  "execLog (snd (ExecInPod ns pod c cmd w)) =
     execLog w @ [\<lparr>e_Namespace = ns, e_Pod = pod, e_Container = c, e_Cmd = cmd\<rparr>]"
  by (simp_all add: ExecInPod_def)

lemma SetStatusOnFirstReconcile_IsTrue:
  "IsStatusConditionTrue (Conditions (s_Status (SetStatusOnFirstReconcile b))) t =
   IsStatusConditionTrue (Conditions (s_Status b)) t"
  by (simp add: SetStatusOnFirstReconcile_def IsStatusConditionTrue_def slice_def)

lemma NewCluster_fields:
  "s_Status (NewCluster D cr) = s_Status cr"
  "s_Name (NewCluster D cr) = s_Name cr"
  "s_Namespace (NewCluster D cr) = s_Namespace cr"
  by (simp_all add: NewCluster_def)

lemma SetStatusOnFirstReconcile_fields:
  "s_Name (SetStatusOnFirstReconcile b) = s_Name b"
  "s_Namespace (SetStatusOnFirstReconcile b) = s_Namespace b"
  "s_Spec (SetStatusOnFirstReconcile b) = s_Spec b"
  "State (s_Status (SetStatusOnFirstReconcile b)) = State (s_Status b)"
  by (simp_all add: SetStatusOnFirstReconcile_def)

lemma runDefineBoxScript_execLog:
  assumes "\<not> IsStatusConditionTrue (Conditions (s_Status storage)) StorageInitializedCondition"
  shows "take (Suc (length (execLog w))) (execLog (snd (snd (runDefineBoxScript storage w)))) =
           execLog w @ [defineBoxCall storage]"
    and "fst (nextOutcome (execOutcomes w)) = None \<Longrightarrow>
         execLog (snd (snd (runDefineBoxScript storage w))) =
           execLog w @ [defineBoxCall storage, configureRootCall storage]"
proof -
  have frame: "execLog w1 = execLog w0" if "setState s w0 = (out, w1)" for s w0 out w1
    using that
    by (auto simp: setState_def GetStorage_def StatusUpdateStorage_def
             dest!: nextFault_cases split: prod.splits sum.splits option.splits)
  show "take (Suc (length (execLog w))) (execLog (snd (snd (runDefineBoxScript storage w)))) =
           execLog w @ [defineBoxCall storage]"
    using assms
    by (auto simp: runDefineBoxScript_def Let_def ExecInPod_def defineBoxCall_def
                   configureRootCall_def dest!: frame split: prod.splits option.splits)
  show "execLog (snd (snd (runDefineBoxScript storage w))) =
           execLog w @ [defineBoxCall storage, configureRootCall storage]"
    if "fst (nextOutcome (execOutcomes w)) = None"
    using assms that
    by (auto simp: runDefineBoxScript_def Let_def ExecInPod_def defineBoxCall_def
                   configureRootCall_def dest!: frame split: prod.splits option.splits)
qed

section \<open>Worked instances for the Storage phases\<close>

theorem runDefineBoxScript_one_shot_witness:
  "distinct (map c_Type (slice (Conditions (s_Status initializedStorage))))
   \<and> (\<exists>c \<in> set (slice (Conditions (s_Status initializedStorage))).
          c_Type c = StorageInitializedCondition \<and> c_Status c = ''True'')
   \<and> runDefineBoxScript initializedStorage (storageWorld initializedStorage []) =
        (Ok, initializedStorage, storageWorld initializedStorage [])
   \<and> execLog (snd (snd (runDefineBoxScript initializedStorage
                           (storageWorld initializedStorage [])))) = []"
proof -
  have h1: "distinct (map c_Type (slice (Conditions (s_Status initializedStorage))))"
    by (simp add: initializedStorage_def slice_def)
  have h2: "\<exists>c \<in> set (slice (Conditions (s_Status initializedStorage))).
          c_Type c = StorageInitializedCondition \<and> c_Status c = ''True''"
    by (simp add: initializedStorage_def slice_def storageInitialized_def)
  show ?thesis
    using h1 h2 runDefineBoxScript_one_shot [OF h1 h2, of "storageWorld initializedStorage []"]
    by (simp add: storageWorld_def emptyWorld_def)
qed

lemma example_faultFree: "faultFree (storageWorld cr ps)"
  by (simp add: faultFree_def storageWorld_def emptyWorld_def)

lemma example_wellKeyed: "wellKeyed (storageWorld cr ps)"
  by (simp add: wellKeyed_def storageWorld_def emptyWorld_def)

theorem storage_waitForStatefulSetToScale_scale_check_witness:
  "faultFree (storageWorld exampleStorage [storagePod ''Running'', storagePod ''Pending''])
   \<and> runningPodCount exampleDeps exampleStorage
        (storageWorld exampleStorage [storagePod ''Running'', storagePod ''Pending'']) = 1
   \<and> sint (s_Nodes (s_Spec exampleStorage)) = 3
   \<and> fst (waitForStatefulSetToScale exampleDeps exampleStorage
        (storageWorld exampleStorage [storagePod ''Running'', storagePod ''Pending''])) =
        (\<lparr>Requeue = True, RequeueAfter = 10000000000\<rparr>, None)
   \<and> storedStorageState exampleStorage (snd (snd (waitForStatefulSetToScale exampleDeps exampleStorage
        (storageWorld exampleStorage [storagePod ''Running'', storagePod ''Pending''])))) =
        Some ''Provisioning''
   \<and> runningPodCount exampleDeps initializedStorage
        (storageWorld initializedStorage
           [storagePod ''Running'', storagePod ''Running'', storagePod ''Running'']) = 3
   \<and> fst (waitForStatefulSetToScale exampleDeps initializedStorage
        (storageWorld initializedStorage
           [storagePod ''Running'', storagePod ''Running'', storagePod ''Running''])) =
        (\<lparr>Requeue = False, RequeueAfter = 0\<rparr>, None)
   \<and> storedStorageState initializedStorage (snd (snd (waitForStatefulSetToScale exampleDeps
        initializedStorage
        (storageWorld initializedStorage
           [storagePod ''Running'', storagePod ''Running'', storagePod ''Running''])))) =
        Some ''Ready''"
proof -
  let ?w1 = "storageWorld exampleStorage [storagePod ''Running'', storagePod ''Pending'']"
  let ?w2 = "storageWorld initializedStorage
           [storagePod ''Running'', storagePod ''Running'', storagePod ''Running'']"
  have k1: "objects ?w1 (storageStatefulSetKey exampleStorage) = Some exampleStatefulSet"
    by (simp add: storageWorld_def emptyWorld_def storageStatefulSetKey_def exampleStorage_def
          exampleStatefulSet_def)
  have k2: "objects ?w2 (storageStatefulSetKey initializedStorage) = Some exampleStatefulSet"
    by (simp add: storageWorld_def emptyWorld_def storageStatefulSetKey_def exampleStorage_def
          initializedStorage_def exampleStatefulSet_def)
  have c1: "storageCRs ?w1 (s_Namespace exampleStorage, s_Name exampleStorage) = Some exampleStorage"
    by (simp add: storageWorld_def emptyWorld_def)
  have c2: "storageCRs ?w2 (s_Namespace initializedStorage, s_Name initializedStorage) =
              Some initializedStorage"
    by (simp add: storageWorld_def emptyWorld_def)
  have n1: "runningPodCount exampleDeps exampleStorage ?w1 = 1"
    by (simp add: runningPodCount_def storageWorld_def emptyWorld_def storagePod_def
          exampleStorage_def exampleDeps_def matchesLabels_def)
  have n2: "runningPodCount exampleDeps initializedStorage ?w2 = 3"
    by (simp add: runningPodCount_def storageWorld_def emptyWorld_def storagePod_def
          exampleStorage_def initializedStorage_def exampleDeps_def matchesLabels_def)
  have s: "sint (s_Nodes (s_Spec exampleStorage)) = 3" "sint (s_Nodes (s_Spec initializedStorage)) = 3"
    by (simp_all add: exampleStorage_def initializedStorage_def)
  have t: "IsStatusConditionTrue (Conditions (s_Status initializedStorage)) StorageInitializedCondition"
          "State (s_Status initializedStorage) \<noteq> ''Ready''"
    by (simp_all add: initializedStorage_def IsStatusConditionTrue_def slice_def
          storageInitialized_def)
  show ?thesis
    using storage_waitForStatefulSetToScale_scale_check
            [OF example_faultFree example_wellKeyed k1 c1, of exampleDeps]
          storage_waitForStatefulSetToScale_scale_check
            [OF example_faultFree example_wellKeyed k2 c2, of exampleDeps]
          n1 n2 s t example_faultFree [of exampleStorage]
    by simp
qed

section \<open>Requeue policy on infrastructure errors\<close>

text \<open>
  C8 as stated fails: a failed get, and a failed list, of the Storage wait-for-scale
  phase return the error without any requeue delay.
\<close>

theorem wait_for_scale_get_failure_untimed_counterexample:
  "fst (waitForStatefulSetToScale exampleDeps exampleStorage
          ((storageWorld exampleStorage [])\<lparr>apiFaults := [Some (Failure ''i/o timeout'')]\<rparr>)) =
     (\<lparr>Requeue = False, RequeueAfter = 0\<rparr>, Some (Failure ''i/o timeout''))
   \<and> fst (waitForStatefulSetToScale exampleDeps exampleStorage
          ((storageWorld exampleStorage [])\<lparr>apiFaults := [None, Some (Failure ''i/o timeout'')]\<rparr>)) =
     (\<lparr>Requeue = False, RequeueAfter = 0\<rparr>, Some (Failure ''i/o timeout''))"
  by (simp add: waitForStatefulSetToScale_def GetObject_def ListPods_def nextFault_def
        nextOutcome_def storageWorld_def emptyWorld_def IsNotFound_def NoRequeue_def
        storageStatefulSetKey_def exampleStorage_def exampleStatefulSet_def)

lemma storage_scale_get_failure:
  "GetObject (storageStatefulSetKey storage) w = (Inl err, w1) \<Longrightarrow> \<not> IsNotFound err \<Longrightarrow>
   waitForStatefulSetToScale D storage w = (NoRequeue err, storage, Event EventTypeNormal ''Syncing'' w1)"
  by (simp add: waitForStatefulSetToScale_def)

lemma storage_scale_list_failure:
  "GetObject (storageStatefulSetKey storage) w = (Inr found, w1) \<Longrightarrow>
   ListPods (s_Namespace storage) (storagePodLabels D (s_Name storage)) w1 = (Inl err, w2) \<Longrightarrow>
   waitForStatefulSetToScale D storage w = (NoRequeue err, storage, Event EventTypeNormal ''Syncing'' w2)"
  by (simp add: waitForStatefulSetToScale_def)

lemma database_scale_get_failure:
  "GetObject (databaseStatefulSetKey database) w = (Inl err, w1) \<Longrightarrow> \<not> IsNotFound err \<Longrightarrow>
   database_waitForStatefulSetToScale database w =
     (NoRequeue err, database, Event EventTypeNormal ''Syncing'' w1)"
  by (simp add: database_waitForStatefulSetToScale_def)

lemma bootstrap_first_command_failure:
  "\<not> IsStatusConditionTrue (Conditions (s_Status storage)) StorageInitializedCondition \<Longrightarrow>
   ExecInPod (s_Namespace storage) (s_Name storage @ ''-0'') ''ydb-storage'' defineBoxCmd w
     = (Some err, w1) \<Longrightarrow>
   runDefineBoxScript storage w = (RequeueAfterC (30 * Second) (Some err), storage, w1)"
  by (simp add: runDefineBoxScript_def)

lemma bootstrap_second_command_failure:
  "\<not> IsStatusConditionTrue (Conditions (s_Status storage)) StorageInitializedCondition \<Longrightarrow>
   ExecInPod (s_Namespace storage) (s_Name storage @ ''-0'') ''ydb-storage'' defineBoxCmd w
     = (None, w1) \<Longrightarrow>
   ExecInPod (s_Namespace storage) (s_Name storage @ ''-0'') ''ydb-storage'' configureRootCmd w1
     = (Some err, w2) \<Longrightarrow>
   runDefineBoxScript storage w = (RequeueAfterC (30 * Second) (Some err), storage, w2)"
  by (simp add: runDefineBoxScript_def)

lemma health_probe_failure:
  "CheckBootstrapHealth storage w = (Some err, w1) \<Longrightarrow>
   fst (waitForHealthCheck storage w) = RequeueAfterC (30 * Second) (Some err)"
  by (simp add: waitForHealthCheck_def)

lemma tenant_creation_failure:
  "database_setState (database\<lparr>d_Status := (d_Status database)\<lparr>State := Initializing\<rparr>\<rparr>) w
     = ((res, None), w1) \<Longrightarrow>
   TenantCreate (database\<lparr>d_Status := (d_Status database)\<lparr>State := Initializing\<rparr>\<rparr>) w1
     = (Some err, w2) \<Longrightarrow>
   handleTenantCreation database w =
     (RequeueAfterC TenantCreationRequeueDelay (Some err),
      database\<lparr>d_Status := (d_Status database)\<lparr>State := Initializing\<rparr>\<rparr>,
      Event EventTypeWarning ''InitializingFailed'' w2)"
  by (simp add: handleTenantCreation_def Let_def)

lemma dependency_fetch_failure:
  "GetStorage (ref_Namespace (StorageClusterRef (d_Spec database)),
               ref_Name (StorageClusterRef (d_Spec database))) w = (Inl err, w1) \<Longrightarrow>
   fst (waitForClusterResource database w) = RequeueAfterC StorageAwaitRequeueDelay (Some err)"
  by (simp add: waitForClusterResource_def)

text \<open>
  C8, amended. An object-store get or list failure during a wait-for-scale phase
  (Storage or Database) returns the error with no requeue delay, leaving the retry to
  the caller. A failed remote command, a negative health probe and a failed tenant
  creation requeue after 30 seconds, a failed fetch of the referenced Storage resource
  after 60 seconds, each carrying the error. Every one of these paths returns an
  outcome.
\<close>

theorem infrastructure_error_requeue_policy:
  "(GetObject (storageStatefulSetKey storage) w = (Inl err, w1) \<and> \<not> IsNotFound err \<longrightarrow>
      fst (waitForStatefulSetToScale D storage w) =
        (\<lparr>Requeue = False, RequeueAfter = 0\<rparr>, Some err))
   \<and> (GetObject (storageStatefulSetKey storage) w = (Inr found, w1)
        \<and> ListPods (s_Namespace storage) (storagePodLabels D (s_Name storage)) w1 = (Inl err, w2) \<longrightarrow>
      fst (waitForStatefulSetToScale D storage w) =
        (\<lparr>Requeue = False, RequeueAfter = 0\<rparr>, Some err))
   \<and> (GetObject (databaseStatefulSetKey database) w = (Inl err, w1) \<and> \<not> IsNotFound err \<longrightarrow>
      fst (database_waitForStatefulSetToScale database w) =
        (\<lparr>Requeue = False, RequeueAfter = 0\<rparr>, Some err))
   \<and> (\<not> IsStatusConditionTrue (Conditions (s_Status storage)) StorageInitializedCondition
        \<and> ExecInPod (s_Namespace storage) (s_Name storage @ ''-0'') ''ydb-storage'' defineBoxCmd w
            = (Some err, w1) \<longrightarrow>
      fst (runDefineBoxScript storage w) =
        (\<lparr>Requeue = True, RequeueAfter = 30 * 1000000000\<rparr>, Some err))
   \<and> (\<not> IsStatusConditionTrue (Conditions (s_Status storage)) StorageInitializedCondition
        \<and> ExecInPod (s_Namespace storage) (s_Name storage @ ''-0'') ''ydb-storage'' defineBoxCmd w
            = (None, w1)
        \<and> ExecInPod (s_Namespace storage) (s_Name storage @ ''-0'') ''ydb-storage'' configureRootCmd w1
            = (Some err, w2) \<longrightarrow>
      fst (runDefineBoxScript storage w) =
        (\<lparr>Requeue = True, RequeueAfter = 30 * 1000000000\<rparr>, Some err))
   \<and> (CheckBootstrapHealth storage w = (Some err, w1) \<longrightarrow>
      fst (waitForHealthCheck storage w) =
        (\<lparr>Requeue = True, RequeueAfter = 30 * 1000000000\<rparr>, Some err))
   \<and> (database_setState (database\<lparr>d_Status := (d_Status database)\<lparr>State := Initializing\<rparr>\<rparr>) w
            = ((res, None), w1)
        \<and> TenantCreate (database\<lparr>d_Status := (d_Status database)\<lparr>State := Initializing\<rparr>\<rparr>) w1
            = (Some err, w2) \<longrightarrow>
      fst (handleTenantCreation database w) =
        (\<lparr>Requeue = True, RequeueAfter = 30 * 1000000000\<rparr>, Some err))
   \<and> (GetStorage (ref_Namespace (StorageClusterRef (d_Spec database)),
                             ref_Name (StorageClusterRef (d_Spec database))) w = (Inl err, w1) \<longrightarrow>
      fst (waitForClusterResource database w) =
        (\<lparr>Requeue = True, RequeueAfter = 60 * 1000000000\<rparr>, Some err))"
  by (simp add: storage_scale_get_failure storage_scale_list_failure database_scale_get_failure
        bootstrap_first_command_failure bootstrap_second_command_failure health_probe_failure
        tenant_creation_failure dependency_fetch_failure
        NoRequeue_def RequeueAfterC_def Second_def TenantCreationRequeueDelay_def
        StorageAwaitRequeueDelay_def)

theorem infrastructure_error_requeue_policy_witness:
  "fst (waitForStatefulSetToScale exampleDeps exampleStorage
          ((storageWorld exampleStorage [])\<lparr>apiFaults := [Some outage]\<rparr>)) =
     (\<lparr>Requeue = False, RequeueAfter = 0\<rparr>, Some outage)
   \<and> fst (waitForStatefulSetToScale exampleDeps exampleStorage
          ((storageWorld exampleStorage [])\<lparr>apiFaults := [None, Some outage]\<rparr>)) =
     (\<lparr>Requeue = False, RequeueAfter = 0\<rparr>, Some outage)
   \<and> fst (runDefineBoxScript exampleStorage
          ((storageWorld exampleStorage [])\<lparr>execOutcomes := [None, Some outage]\<rparr>)) =
     (\<lparr>Requeue = True, RequeueAfter = 30000000000\<rparr>, Some outage)
   \<and> fst (waitForHealthCheck exampleStorage
          ((storageWorld exampleStorage [])\<lparr>healthOutcomes := [Some outage]\<rparr>)) =
     (\<lparr>Requeue = True, RequeueAfter = 30000000000\<rparr>, Some outage)
   \<and> fst (handleTenantCreation bareDatabase
          ((databaseWorld bareDatabase exampleStorage)\<lparr>tenantOutcomes := [Some outage]\<rparr>)) =
     (\<lparr>Requeue = True, RequeueAfter = 30000000000\<rparr>, Some outage)"
proof -
  let ?A = "(storageWorld exampleStorage [])\<lparr>apiFaults := [Some outage]\<rparr>"
  let ?B = "(storageWorld exampleStorage [])\<lparr>apiFaults := [None, Some outage]\<rparr>"
  let ?C = "(storageWorld exampleStorage [])\<lparr>execOutcomes := [None, Some outage]\<rparr>"
  let ?H = "(storageWorld exampleStorage [])\<lparr>healthOutcomes := [Some outage]\<rparr>"
  let ?T = "(databaseWorld bareDatabase exampleStorage)\<lparr>tenantOutcomes := [Some outage]\<rparr>"
  let ?d1 = "bareDatabase\<lparr>d_Status := (d_Status bareDatabase)\<lparr>State := Initializing\<rparr>\<rparr>"
  have a: "GetObject (storageStatefulSetKey exampleStorage) ?A = (Inl outage, snd (nextFault ?A))"
          "\<not> IsNotFound outage"
    by (simp_all add: GetObject_def nextFault_def nextOutcome_def storageWorld_def emptyWorld_def
          IsNotFound_def outage_def)
  have b: "GetObject (storageStatefulSetKey exampleStorage) ?B = (Inr exampleStatefulSet, tick ?B)"
          "ListPods (s_Namespace exampleStorage) (storagePodLabels exampleDeps (s_Name exampleStorage))
             (tick ?B) = (Inl outage, tick (tick ?B))"
    by (simp_all add: GetObject_def ListPods_def nextFault_def nextOutcome_def storageWorld_def
          emptyWorld_def tick_def storageStatefulSetKey_def exampleStorage_def exampleStatefulSet_def)
  have n: "\<not> IsStatusConditionTrue (Conditions (s_Status exampleStorage)) StorageInitializedCondition"
    by (simp add: exampleStorage_def IsStatusConditionTrue_def slice_def)
  let ?C1 = "snd (ExecInPod (s_Namespace exampleStorage) (s_Name exampleStorage @ ''-0'')
                    ''ydb-storage'' defineBoxCmd ?C)"
  let ?C2 = "snd (ExecInPod (s_Namespace exampleStorage) (s_Name exampleStorage @ ''-0'')
                    ''ydb-storage'' configureRootCmd ?C1)"
  have c: "ExecInPod (s_Namespace exampleStorage) (s_Name exampleStorage @ ''-0'') ''ydb-storage''
             defineBoxCmd ?C = (None, ?C1)"
          "ExecInPod (s_Namespace exampleStorage) (s_Name exampleStorage @ ''-0'') ''ydb-storage''
             configureRootCmd ?C1 = (Some outage, ?C2)"
    by (simp_all add: ExecInPod_def nextOutcome_def storageWorld_def emptyWorld_def exampleStorage_def)
  have h: "CheckBootstrapHealth exampleStorage ?H =
             (Some outage, snd (CheckBootstrapHealth exampleStorage ?H))"
    by (simp add: CheckBootstrapHealth_def nextOutcome_def storageWorld_def emptyWorld_def)
  have t: "database_setState ?d1 ?T = ((\<lparr>Requeue = False, RequeueAfter = 0\<rparr>, None),
             snd (database_setState ?d1 ?T))"
          "TenantCreate ?d1 (snd (database_setState ?d1 ?T)) =
             (Some outage, snd (TenantCreate ?d1 (snd (database_setState ?d1 ?T))))"
    by (simp_all add: database_setState_def GetDatabase_def StatusUpdateDatabase_def TenantCreate_def
          nextFault_def nextOutcome_def databaseWorld_def emptyWorld_def bareDatabase_def Ok_def)
  note P = infrastructure_error_requeue_policy
               [where storage = exampleStorage and D = exampleDeps and database = bareDatabase]
  have r1: "fst (waitForStatefulSetToScale exampleDeps exampleStorage ?A) =
              (\<lparr>Requeue = False, RequeueAfter = 0\<rparr>, Some outage)"
    using P [where w = ?A and err = outage and ?w1.0 = "snd (nextFault ?A)"] a by simp
  have r2: "fst (waitForStatefulSetToScale exampleDeps exampleStorage ?B) =
              (\<lparr>Requeue = False, RequeueAfter = 0\<rparr>, Some outage)"
    using P [where w = ?B and err = outage and ?w1.0 = "tick ?B" and ?w2.0 = "tick (tick ?B)"
               and found = exampleStatefulSet] b by simp
  have r3: "fst (runDefineBoxScript exampleStorage ?C) =
              (\<lparr>Requeue = True, RequeueAfter = 30 * 1000000000\<rparr>, Some outage)"
    using P [where w = ?C and err = outage and ?w1.0 = ?C1 and ?w2.0 = ?C2] n c by simp
  have r4: "fst (waitForHealthCheck exampleStorage ?H) =
              (\<lparr>Requeue = True, RequeueAfter = 30 * 1000000000\<rparr>, Some outage)"
    using P [where w = ?H and err = outage
               and ?w1.0 = "snd (CheckBootstrapHealth exampleStorage ?H)"] h by simp
  have r5: "fst (handleTenantCreation bareDatabase ?T) =
              (\<lparr>Requeue = True, RequeueAfter = 30 * 1000000000\<rparr>, Some outage)"
    using P [where w = ?T and err = outage and res = "\<lparr>Requeue = False, RequeueAfter = 0\<rparr>"
               and ?w1.0 = "snd (database_setState ?d1 ?T)"
               and ?w2.0 = "snd (TenantCreate ?d1 (snd (database_setState ?d1 ?T)))"] t by simp
  show ?thesis
    using r1 r2 r3 r4 r5 by simp
qed

section \<open>Database: wait-for-scale reads the replica count of the workload object\<close>

text \<open>
  C3. The Database wait-for-scale phase is claimed to follow the Storage pattern and
  count the members in a running phase. The code compares the workload object's
  \<open>Status.Replicas\<close> with \<open>Spec.Nodes\<close> and never lists pods: with three replicas
  reported, three nodes wanted and no pod running, the code continues and leaves State
  alone, where the phase as the spec words it persists \<open>Provisioning\<close> and requeues
  after 10 seconds.
\<close>

theorem database_waitForStatefulSetToScale_ignores_pod_phase:
  "o_Replicas databaseStatefulSet = d_Nodes (d_Spec bareDatabase)
   \<and> length (filter (\<lambda>e. p_Phase e = ''Running'') (pods pendingPodsWorld)) = 0
   \<and> fst (database_waitForStatefulSetToScale bareDatabase pendingPodsWorld) =
        (\<lparr>Requeue = False, RequeueAfter = 0\<rparr>, None)
   \<and> State (d_Status (fst (snd (database_waitForStatefulSetToScale bareDatabase pendingPodsWorld)))) = ''''
   \<and> fst (spec_database_waitForStatefulSetToScale databaseSelector bareDatabase pendingPodsWorld) =
        (\<lparr>Requeue = True, RequeueAfter = 10000000000\<rparr>, None)
   \<and> State (d_Status (fst (snd (spec_database_waitForStatefulSetToScale databaseSelector
        bareDatabase pendingPodsWorld)))) = ''Provisioning''"
  by (simp add: database_waitForStatefulSetToScale_def spec_database_waitForStatefulSetToScale_def
        GetObject_def ListPods_def database_setState_def GetDatabase_def StatusUpdateDatabase_def
        nextFault_def nextOutcome_def pendingPodsWorld_def databaseWorld_def emptyWorld_def
        bareDatabase_def databaseStatefulSet_def databasePod_def databaseSelector_def
        databaseStatefulSetKey_def matchesLabels_def Ok_def RequeueAfterC_def
        DefaultRequeueDelay_def Second_def Provisioning_def Ready_def IsStatusConditionTrue_def
        slice_def Event_def Let_def)

section \<open>Database: status writes and the dependency gate\<close>

lemma GetStorage_result:
  "GetStorage key w = (r, w1) \<Longrightarrow>
     w1 = tick w \<and> (\<forall>cr. r = Inr cr \<longrightarrow> storageCRs w key = Some cr)"
  by (auto simp: GetStorage_def dest!: nextFault_cases split: prod.splits option.splits)

lemma GetDatabase_result:
  "GetDatabase key w = (r, w1) \<Longrightarrow>
     w1 = tick w \<and> (\<forall>cr. r = Inr cr \<longrightarrow> databaseCRs w key = Some cr)"
  by (auto simp: GetDatabase_def dest!: nextFault_cases split: prod.splits option.splits)

lemma StatusUpdateDatabase_result:
  "StatusUpdateDatabase cr w = (r, w1) \<Longrightarrow>
     (r \<noteq> None \<and> w1 = tick w)
     \<or> (r = None \<and> (\<exists>old. databaseCRs w (d_Namespace cr, d_Name cr) = Some old
           \<and> w1 = (tick w)\<lparr>databaseCRs := (databaseCRs w)((d_Namespace cr, d_Name cr) \<mapsto>
                                 old\<lparr>d_Status := d_Status cr\<rparr>)\<rparr>))"
  by (auto simp: StatusUpdateDatabase_def dest!: nextFault_cases split: prod.splits option.splits)

lemma status_overwrite [simp]:
  "(s::CRStatus)\<lparr>State := State t, Conditions := Conditions t\<rparr> = t"
  by (cases s, cases t) simp

text \<open>What a status write of the Database reconciler can do to the world.\<close>

lemma database_setState_result:
  assumes "wellKeyed w" and "database_setState database w = (out, w1)"
  shows "(snd out \<noteq> None \<and> fst out = \<lparr>Requeue = False, RequeueAfter = 0\<rparr>
            \<and> (w1 = Event EventTypeWarning ''ControllerError'' (tick w)
                \<or> w1 = Event EventTypeWarning ''ControllerError'' (tick (tick w))))
       \<or> (out = Ok \<and> (\<exists>old. databaseCRs w (d_Namespace database, d_Name database) = Some old
            \<and> w1 = (tick (tick w))\<lparr>databaseCRs :=
                     (databaseCRs w)((d_Namespace database, d_Name database) \<mapsto>
                        old\<lparr>d_Status := d_Status database\<rparr>)\<rparr>))"
proof (cases "GetDatabase (d_Namespace database, d_Name database) w")
  case (Pair r wa)
  note get = GetDatabase_result [OF Pair]
  show ?thesis
  proof (cases r)
    case (Inl err)
    with Pair assms(2) get show ?thesis
      by (auto simp: database_setState_def NoRequeue_def)
  next
    case (Inr cr)
    with get have stored: "databaseCRs w (d_Namespace database, d_Name database) = Some cr"
      by simp
    from wellKeyed_database [OF assms(1) stored]
    have key: "d_Namespace cr = d_Namespace database" "d_Name cr = d_Name database"
      by simp_all
    let ?cr = "cr\<lparr>d_Status := (d_Status cr)\<lparr>State := State (d_Status database),
                                       Conditions := Conditions (d_Status database)\<rparr>\<rparr>"
    have st: "d_Status ?cr = d_Status database" by simp
    obtain r2 wb where upd: "StatusUpdateDatabase ?cr wa = (r2, wb)"
      by (cases "StatusUpdateDatabase ?cr wa")
    from StatusUpdateDatabase_result [OF upd] get Pair Inr assms(2) upd key stored
    show ?thesis
      by (auto simp: database_setState_def NoRequeue_def Ok_def)
  qed
qed

lemma database_builder_fields:
  "d_Name (database_SetStatusOnFirstReconcile (NewDatabase D cr)) = d_Name cr"
  "d_Namespace (database_SetStatusOnFirstReconcile (NewDatabase D cr)) = d_Namespace cr"
  "d_Spec (database_SetStatusOnFirstReconcile (NewDatabase D cr)) = d_Spec (NewDatabase D cr)"
  "State (d_Status (database_SetStatusOnFirstReconcile (NewDatabase D cr))) = State (d_Status cr)"
  by (simp_all add: database_SetStatusOnFirstReconcile_def NewDatabase_def)

lemma database_builder_IsTrue:
  "IsStatusConditionTrue
     (Conditions (d_Status (database_SetStatusOnFirstReconcile (NewDatabase D cr)))) t =
   IsStatusConditionTrue (Conditions (d_Status cr)) t"
  by (simp add: database_SetStatusOnFirstReconcile_def NewDatabase_def IsStatusConditionTrue_def
        slice_def)

lemma stops_RequeueAfterC: "0 < d \<Longrightarrow> stops (RequeueAfterC d e)"
  by (simp add: stops_def RequeueAfterC_def IsZero_def)

lemma waitForClusterResource_gate:
  assumes "\<forall>cr. storageCRs w (ref_Namespace (StorageClusterRef (d_Spec database)),
                               ref_Name (StorageClusterRef (d_Spec database))) = Some cr
                \<longrightarrow> State (s_Status cr) \<noteq> ''Ready''"
  shows "\<exists>e. waitForClusterResource database w =
           (RequeueAfterC StorageAwaitRequeueDelay e, database,
            Event EventTypeWarning ''Pending'' (tick w))"
proof (cases "GetStorage (ref_Namespace (StorageClusterRef (d_Spec database)),
                          ref_Name (StorageClusterRef (d_Spec database))) w")
  case (Pair r w1)
  from GetStorage_result [OF Pair] assms Pair show ?thesis
    by (cases r) (auto simp: waitForClusterResource_def)
qed

lemma database_setState_frame:
  assumes "database_setState database w = (out, w1)"
  shows "storageCRs w1 = storageCRs w" and "objects w1 = objects w"
    and "createLog w1 = createLog w" and "tenantLog w1 = tenantLog w"
    and "execLog w1 = execLog w" and "pods w1 = pods w"
    and "tenantOutcomes w1 = tenantOutcomes w"
  using assms
  by (auto simp: database_setState_def GetDatabase_def StatusUpdateDatabase_def
           dest!: nextFault_cases split: prod.splits sum.splits option.splits)

lemma database_setState_stored_state:
  assumes "wellKeyed w" and "database_setState database w = (out, w1)"
  shows "storedDatabaseState (d_Namespace database, d_Name database) w1 =
           storedDatabaseState (d_Namespace database, d_Name database) w
         \<or> storedDatabaseState (d_Namespace database, d_Name database) w1 =
           Some (State (d_Status database))"
  using database_setState_result [OF assms]
  by (auto simp: storedDatabaseState_def)

text \<open>
  C4. When the Storage resource a Database refers to is absent, cannot be fetched, or
  has a State other than \<open>Ready\<close>, \<open>Sync\<close> ends in the dependency-wait phase with
  a requeue after 60 seconds: its result is that phase's result, its last event is the
  \<open>Pending\<close> warning, no child object is created or changed, no tenant is created,
  and the stored State of the Database is what it was before or the State of the
  resource \<open>Sync\<close> was called with (which is the same when the caller passes the
  current resource); it is not advanced to \<open>Provisioning\<close>.
\<close>

theorem database_Sync_dependency_gate:
  assumes "wellKeyed w"
    and "\<forall>cr. storageCRs w (referencedStorageKey D ydbCr) = Some cr
              \<longrightarrow> State (s_Status cr) \<noteq> ''Ready''"
  shows "fst (fst (database_Sync D ydbCr w)) = \<lparr>Requeue = True, RequeueAfter = 60 * 1000000000\<rparr>
       \<and> database_Sync D ydbCr w =
           (fst (waitForClusterResource (database_SetStatusOnFirstReconcile (NewDatabase D ydbCr))
                   (snd (database_setState
                           (database_SetStatusOnFirstReconcile (NewDatabase D ydbCr)) w))),
            snd (snd (waitForClusterResource
                   (database_SetStatusOnFirstReconcile (NewDatabase D ydbCr))
                   (snd (database_setState
                           (database_SetStatusOnFirstReconcile (NewDatabase D ydbCr)) w)))))
       \<and> last (events (snd (database_Sync D ydbCr w))) = (EventTypeWarning, ''Pending'')
       \<and> objects (snd (database_Sync D ydbCr w)) = objects w
       \<and> createLog (snd (database_Sync D ydbCr w)) = createLog w
       \<and> tenantLog (snd (database_Sync D ydbCr w)) = tenantLog w
       \<and> storageCRs (snd (database_Sync D ydbCr w)) = storageCRs w
       \<and> (storedDatabaseState (d_Namespace ydbCr, d_Name ydbCr) (snd (database_Sync D ydbCr w)) =
             storedDatabaseState (d_Namespace ydbCr, d_Name ydbCr) w
          \<or> storedDatabaseState (d_Namespace ydbCr, d_Name ydbCr) (snd (database_Sync D ydbCr w)) =
             Some (State (d_Status ydbCr)))"
proof -
  let ?B = "database_SetStatusOnFirstReconcile (NewDatabase D ydbCr)"
  obtain out0 w0 where seed: "database_setState ?B w = (out0, w0)"
    by (cases "database_setState ?B w")
  note frame = database_setState_frame [OF seed]
  have "\<forall>cr. storageCRs w0 (ref_Namespace (StorageClusterRef (d_Spec ?B)),
                             ref_Name (StorageClusterRef (d_Spec ?B))) = Some cr
              \<longrightarrow> State (s_Status cr) \<noteq> ''Ready''"
    using assms(2) frame(1) by (simp add: referencedStorageKey_def database_builder_fields)
  from waitForClusterResource_gate [OF this]
  obtain e where gate: "waitForClusterResource ?B w0 =
      (RequeueAfterC StorageAwaitRequeueDelay e, ?B, Event EventTypeWarning ''Pending'' (tick w0))"
    by blast
  have stop: "stops (RequeueAfterC StorageAwaitRequeueDelay e)"
    by (rule stops_RequeueAfterC) (simp add: StorageAwaitRequeueDelay_def Second_def)
  have sync: "database_Sync D ydbCr w =
      (RequeueAfterC StorageAwaitRequeueDelay e, Event EventTypeWarning ''Pending'' (tick w0))"
    using seed gate stop by (simp add: database_Sync_def Let_def)
  have stored: "storedDatabaseState (d_Namespace ydbCr, d_Name ydbCr) w0 =
                  storedDatabaseState (d_Namespace ydbCr, d_Name ydbCr) w
                \<or> storedDatabaseState (d_Namespace ydbCr, d_Name ydbCr) w0 =
                  Some (State (d_Status ydbCr))"
    using database_setState_stored_state [OF assms(1) seed]
    by (simp add: database_builder_fields)
  have same: "storedDatabaseState k (Event t r (tick w0)) = storedDatabaseState k w0" for k t r
    by (simp add: storedDatabaseState_def)
  show ?thesis
    using sync seed gate frame stored same
    by (simp add: RequeueAfterC_def StorageAwaitRequeueDelay_def Second_def)
qed

section \<open>Resource sync is idempotent\<close>

lemma mutate_buildAndOwn:
  "\<exists>evs. mutate (buildAndOwn b owner) key rr w =
          (mutated b owner key rr, w\<lparr>events := events w @ evs\<rparr>)"
proof (cases "Build b rr")
  case (Inl err)
  then show ?thesis
    by (auto simp: mutate_def buildAndOwn_def mutated_def Event_def)
next
  case (Inr rr1)
  show ?thesis
  proof (cases "SetControllerReference owner rr1")
    case (Inl err)
    with Inr show ?thesis
      by (auto simp: mutate_def buildAndOwn_def mutated_def Event_def)
  next
    case inr2: (Inr rr2)
    with Inr show ?thesis
      by (auto simp: mutate_def buildAndOwn_def mutated_def intro: exI [of _ "[]"])
  qed
qed

lemma SetControllerReference_Inr:
  "SetControllerReference owner y = Inr z \<Longrightarrow>
     z = y\<lparr>o_Owner := Some owner\<rparr>
     \<and> \<not> (k_Namespace owner \<noteq> '''' \<and> k_Namespace owner \<noteq> k_Namespace (o_Key y))"
  by (auto simp: SetControllerReference_def split: if_splits option.splits)

lemma mutated_fixed:
  assumes "buildSettles owner b" and "mutated b owner key rr = Inr z"
  shows "mutated b owner key z = Inr z"
proof -
  from assms(2) obtain y where y: "Build b rr = Inr y"
    by (auto simp: mutated_def split: sum.splits)
  with assms(2) have scr: "SetControllerReference owner y = Inr z" and key: "o_Key z = key"
    by (auto simp: mutated_def split: sum.splits if_splits)
  from SetControllerReference_Inr [OF scr]
  have z: "z = y\<lparr>o_Owner := Some owner\<rparr>"
    and ns: "\<not> (k_Namespace owner \<noteq> '''' \<and> k_Namespace owner \<noteq> k_Namespace (o_Key y))"
    by simp_all
  from assms(1) y z have "Build b z = Inr z"
    by (simp add: buildSettles_def)
  moreover have "SetControllerReference owner z = Inr z"
    using z ns by (auto simp: SetControllerReference_def)
  ultimately show ?thesis
    using key by (simp add: mutated_def)
qed

lemma mutated_key: "mutated b owner key rr = Inr z \<Longrightarrow> o_Key z = key"
  by (auto simp: mutated_def split: sum.splits if_splits)

lemma faultFree_events [simp]: "faultFree (w\<lparr>events := evs\<rparr>) = faultFree w"
  by (simp add: faultFree_def)

lemma CreateObject_faultFree:
  "faultFree w \<Longrightarrow> objects w (o_Key obj) = None \<Longrightarrow>
   CreateObject obj w =
     (None, (tick w)\<lparr>objects := (objects w)(o_Key obj \<mapsto> obj),
                      createLog := createLog w @ [o_Key obj]\<rparr>)"
  by (simp add: CreateObject_def faultFree_nextFault)

lemma UpdateObject_faultFree:
  "faultFree w \<Longrightarrow> objects w (o_Key obj) = Some old \<Longrightarrow>
   UpdateObject obj w = (None, (tick w)\<lparr>objects := (objects w)(o_Key obj \<mapsto> obj)\<rparr>)"
  by (simp add: UpdateObject_def faultFree_nextFault)

lemma faultFree_objects_createLog [simp]:
  "faultFree (w\<lparr>objects := m, createLog := l\<rparr>) = faultFree w"
  "faultFree (w\<lparr>objects := m\<rparr>) = faultFree w"
  by (simp_all add: faultFree_def)

lemma CreateOrUpdate_faultFree:
  assumes ff: "faultFree w"
    and run: "CreateOrUpdate P (buildAndOwn b owner) w = (r, wa)"
  shows "faultFree wa"
    and "\<And>e. mutated b owner (o_Key P)
             (case objects w (o_Key P) of None \<Rightarrow> P | Some ex \<Rightarrow> ex) = Inl e \<Longrightarrow>
           r = Inl e \<and> objects wa = objects w \<and> createLog wa = createLog w"
    and "\<And>z. mutated b owner (o_Key P)
             (case objects w (o_Key P) of None \<Rightarrow> P | Some ex \<Rightarrow> ex) = Inr z \<Longrightarrow>
           objects wa = (objects w)(o_Key P \<mapsto> z)
           \<and> (objects w (o_Key P) = None \<longrightarrow>
                 r = Inr OperationResultCreated \<and> createLog wa = createLog w @ [o_Key P])
           \<and> (\<forall>ex. objects w (o_Key P) = Some ex \<longrightarrow>
                 createLog wa = createLog w
                 \<and> r = Inr (if ex = z then OperationResultNone else OperationResultUpdated))"
proof -
  let ?key = "o_Key P"
  let ?x = "case objects w ?key of None \<Rightarrow> P | Some ex \<Rightarrow> ex"
  obtain evs where mut: "mutate (buildAndOwn b owner) ?key ?x (tick w) =
      (mutated b owner ?key ?x, (tick w)\<lparr>events := events (tick w) @ evs\<rparr>)"
    using mutate_buildAndOwn [of b owner ?key ?x "tick w"] by blast
  let ?w2 = "(tick w)\<lparr>events := events (tick w) @ evs\<rparr>"
  have ff2: "faultFree ?w2" using ff by simp
  have all: "faultFree wa
     \<and> (\<forall>e. mutated b owner ?key ?x = Inl e \<longrightarrow>
           r = Inl e \<and> objects wa = objects w \<and> createLog wa = createLog w)
     \<and> (\<forall>z. mutated b owner ?key ?x = Inr z \<longrightarrow>
           objects wa = (objects w)(?key \<mapsto> z)
           \<and> (objects w ?key = None \<longrightarrow>
                 r = Inr OperationResultCreated \<and> createLog wa = createLog w @ [?key])
           \<and> (\<forall>ex. objects w ?key = Some ex \<longrightarrow>
                 createLog wa = createLog w
                 \<and> r = Inr (if ex = z then OperationResultNone else OperationResultUpdated)))"
  proof (cases "objects w ?key")
    case None
    then have x: "?x = P" by simp
    show ?thesis
    proof (cases "mutated b owner ?key P")
      case (Inl e)
      with run None mut x ff show ?thesis
        by (auto simp: CreateOrUpdate_def Let_def GetObject_faultFree IsNotFound_def)
    next
      case (Inr z)
      then have kz: "o_Key z = ?key" by (rule mutated_key)
      have "objects ?w2 (o_Key z) = None" using None kz by simp
      from CreateObject_faultFree [OF ff2 this] run None mut x ff Inr kz show ?thesis
        by (auto simp: CreateOrUpdate_def Let_def GetObject_faultFree IsNotFound_def)
    qed
  next
    case (Some ex)
    then have x: "?x = ex" by simp
    show ?thesis
    proof (cases "mutated b owner ?key ex")
      case (Inl e)
      with run Some mut x ff show ?thesis
        by (auto simp: CreateOrUpdate_def Let_def GetObject_faultFree)
    next
      case (Inr z)
      then have kz: "o_Key z = ?key" by (rule mutated_key)
      have "objects ?w2 (o_Key z) = Some ex" using Some kz by simp
      from UpdateObject_faultFree [OF ff2 this] run Some mut x ff Inr kz show ?thesis
        by (auto simp: CreateOrUpdate_def Let_def GetObject_faultFree fun_upd_idem)
    qed
  qed
  from all show "faultFree wa" by blast
  from all show "\<And>e. mutated b owner ?key ?x = Inl e \<Longrightarrow>
           r = Inl e \<and> objects wa = objects w \<and> createLog wa = createLog w" by blast
  from all show "\<And>z. mutated b owner ?key ?x = Inr z \<Longrightarrow>
           objects wa = (objects w)(?key \<mapsto> z)
           \<and> (objects w ?key = None \<longrightarrow>
                 r = Inr OperationResultCreated \<and> createLog wa = createLog w @ [?key])
           \<and> (\<forall>ex. objects w ?key = Some ex \<longrightarrow>
                 createLog wa = createLog w
                 \<and> r = Inr (if ex = z then OperationResultNone else OperationResultUpdated))"
    by blast
qed

lemma CreateOrUpdate_other_keys:
  assumes "faultFree w" and "CreateOrUpdate P (buildAndOwn b owner) w = (r, wa)"
    and "k \<noteq> o_Key P"
  shows "objects wa k = objects w k"
proof (cases "mutated b owner (o_Key P) (case objects w (o_Key P) of None \<Rightarrow> P | Some ex \<Rightarrow> ex)")
  case (Inl e)
  from CreateOrUpdate_faultFree(2) [OF assms(1,2) Inl] show ?thesis by simp
next
  case (Inr z)
  from CreateOrUpdate_faultFree(3) [OF assms(1,2) Inr] assms(3) show ?thesis by simp
qed

lemma syncBuilders_frame:
  assumes "faultFree w" and "syncBuilders owner bs flag w = (r, w1)"
  shows "faultFree w1 \<and> (\<forall>k. k \<notin> childKey owner ` set bs \<longrightarrow> objects w1 k = objects w k)"
  using assms
proof (induction bs arbitrary: w flag)
  case Nil
  then show ?case by simp
next
  case (Cons b rest)
  obtain r0 wa where cu: "CreateOrUpdate (Placeholder b owner) (buildAndOwn b owner) w = (r0, wa)"
    by (cases "CreateOrUpdate (Placeholder b owner) (buildAndOwn b owner) w")
  have ffa: "faultFree wa" by (rule CreateOrUpdate_faultFree(1) [OF Cons.prems(1) cu])
  have other: "objects wa k = objects w k" if "k \<noteq> childKey owner b" for k
    using CreateOrUpdate_other_keys [OF Cons.prems(1) cu] that by (simp add: childKey_def)
  show ?case
  proof (cases r0)
    case (Inl err)
    with cu Cons.prems(2) have "w1 = Event EventTypeWarning ''ProvisioningFailed'' wa" by simp
    with ffa other show ?thesis by simp
  next
    case (Inr res)
    with cu Cons.prems(2)
    have "syncBuilders owner rest (flag \<or> res = OperationResultCreated) wa = (r, w1)" by simp
    from Cons.IH [OF ffa this] other show ?thesis by simp
  qed
qed

text \<open>
  A second pass over the same builders, started in any fault-free world whose children
  are those the first pass left, ends as the first did, creates nothing and changes no
  child.
\<close>

lemma syncBuilders_rerun:
  assumes "\<forall>b \<in> set bs. buildSettles owner b"
    and "distinct (map (childKey owner) bs)"
    and "faultFree w" and "syncBuilders owner bs flag w = ((e, c), w1)"
    and "faultFree w2"
    and "\<forall>b \<in> set bs. objects w2 (childKey owner b) = objects w1 (childKey owner b)"
  shows "\<exists>w3. syncBuilders owner bs flag2 w2 = ((e, flag2), w3)
              \<and> objects w3 = objects w2 \<and> createLog w3 = createLog w2 \<and> faultFree w3"
  using assms
proof (induction bs arbitrary: w flag w2 flag2)
  case Nil
  then show ?case by simp
next
  case (Cons b rest)
  let ?P = "Placeholder b owner"
  let ?key = "o_Key ?P"
  have key: "childKey owner b = ?key" by (simp add: childKey_def)
  obtain r0 wa where cu: "CreateOrUpdate ?P (buildAndOwn b owner) w = (r0, wa)"
    by (cases "CreateOrUpdate ?P (buildAndOwn b owner) w")
  obtain r2 w2a where cu2: "CreateOrUpdate ?P (buildAndOwn b owner) w2 = (r2, w2a)"
    by (cases "CreateOrUpdate ?P (buildAndOwn b owner) w2")
  have ffa: "faultFree wa" by (rule CreateOrUpdate_faultFree(1) [OF Cons.prems(3) cu])
  have ff2a: "faultFree w2a" by (rule CreateOrUpdate_faultFree(1) [OF Cons.prems(5) cu2])
  have same: "objects w2 ?key = objects w1 ?key"
    using Cons.prems(6) key by simp
  let ?x = "case objects w ?key of None \<Rightarrow> ?P | Some ex \<Rightarrow> ex"
  show ?case
  proof (cases "mutated b owner ?key ?x")
    case (Inl e0)
    from CreateOrUpdate_faultFree(2) [OF Cons.prems(3) cu Inl]
    have r0: "r0 = Inl e0" and keep: "objects wa = objects w" by simp_all
    with cu Cons.prems(4)
    have e: "e = Some e0" and w1: "w1 = Event EventTypeWarning ''ProvisioningFailed'' wa"
      by simp_all
    have "objects w2 ?key = objects w ?key" using same w1 keep by simp
    then have "mutated b owner ?key (case objects w2 ?key of None \<Rightarrow> ?P | Some ex \<Rightarrow> ex) = Inl e0"
      using Inl by simp
    from CreateOrUpdate_faultFree(2) [OF Cons.prems(5) cu2 this] cu2 e ff2a
    show ?thesis by simp
  next
    case (Inr z)
    note first = CreateOrUpdate_faultFree(3) [OF Cons.prems(3) cu Inr]
    then have stored: "objects wa ?key = Some z" by simp
    from first obtain res where r0: "r0 = Inr res"
      by (cases "objects w ?key") auto
    with cu Cons.prems(4)
    have rest1: "syncBuilders owner rest (flag \<or> res = OperationResultCreated) wa = ((e, c), w1)"
      by simp
    have notin: "?key \<notin> childKey owner ` set rest"
      using Cons.prems(2) key by auto
    from syncBuilders_frame [OF ffa rest1] notin stored
    have "objects w1 ?key = Some z" by simp
    with same have at2: "objects w2 ?key = Some z" by simp
    have fixed: "mutated b owner ?key z = Inr z"
      using mutated_fixed [OF _ Inr] Cons.prems(1) by simp
    with at2 have "mutated b owner ?key (case objects w2 ?key of None \<Rightarrow> ?P | Some ex \<Rightarrow> ex) = Inr z"
      by simp
    from CreateOrUpdate_faultFree(3) [OF Cons.prems(5) cu2 this] at2
    have r2: "r2 = Inr OperationResultNone" and o2: "objects w2a = objects w2"
      and c2: "createLog w2a = createLog w2"
      by (simp_all add: fun_upd_idem)
    have "\<forall>b' \<in> set rest. objects w2a (childKey owner b') = objects w1 (childKey owner b')"
      using Cons.prems(6) o2 by simp
    from Cons.IH [OF _ _ ffa rest1 ff2a this, of flag2] Cons.prems(1,2)
    obtain w3 where "syncBuilders owner rest flag2 w2a = ((e, flag2), w3)"
      "objects w3 = objects w2a" "createLog w3 = createLog w2a" "faultFree w3"
      by auto
    with cu2 r2 o2 c2 show ?thesis by simp
  qed
qed

lemma CreateOrUpdate_createLog:
  assumes "CreateOrUpdate P (buildAndOwn b owner) w = (r, wa)"
  shows "(r = Inr OperationResultCreated \<and> (\<exists>k. createLog wa = createLog w @ [k]))
       \<or> (r \<noteq> Inr OperationResultCreated \<and> createLog wa = createLog w)"
proof -
  have get: "\<exists>g. GetObject (o_Key P) w = (g, tick w)"
    by (auto simp: GetObject_def dest!: nextFault_cases split: prod.splits option.splits)
  have mut: "\<exists>m evs. mutate (buildAndOwn b owner) (o_Key P) x w0 = (m, w0\<lparr>events := events w0 @ evs\<rparr>)"
    for x w0
    using mutate_buildAndOwn [of b owner "o_Key P" x w0] by blast
  have cre: "(c = None \<and> createLog w1 = createLog w0 @ [o_Key obj])
             \<or> (c \<noteq> None \<and> createLog w1 = createLog w0)"
    if "CreateObject obj w0 = (c, w1)" for obj w0 c w1
    using that
    by (auto simp: CreateObject_def dest!: nextFault_cases split: prod.splits option.splits)
  have upd: "createLog w1 = createLog w0" if "UpdateObject obj w0 = (c, w1)" for obj w0 c w1
    using that
    by (auto simp: UpdateObject_def dest!: nextFault_cases split: prod.splits option.splits)
  obtain g where g: "GetObject (o_Key P) w = (g, tick w)" using get by blast
  show ?thesis
  proof (cases g)
    case (Inl err)
    obtain m evs where m: "mutate (buildAndOwn b owner) (o_Key P) P (tick w) =
        (m, (tick w)\<lparr>events := events (tick w) @ evs\<rparr>)"
      using mut by blast
    show ?thesis
    proof (cases "IsNotFound err")
      case False
      with assms g Inl show ?thesis by (auto simp: CreateOrUpdate_def Let_def)
    next
      case True
      show ?thesis
      proof (cases m)
        case inl2: (Inl e2)
        with assms g Inl True m show ?thesis by (auto simp: CreateOrUpdate_def Let_def)
      next
        case (Inr obj2)
        obtain c w3 where c: "CreateObject obj2 ((tick w)\<lparr>events := events (tick w) @ evs\<rparr>) = (c, w3)"
          by (cases "CreateObject obj2 ((tick w)\<lparr>events := events (tick w) @ evs\<rparr>)")
        from cre [OF c] assms g Inl True m Inr c show ?thesis
          by (auto simp: CreateOrUpdate_def Let_def)
      qed
    qed
  next
    case (Inr existing)
    obtain m evs where m: "mutate (buildAndOwn b owner) (o_Key P) existing (tick w) =
        (m, (tick w)\<lparr>events := events (tick w) @ evs\<rparr>)"
      using mut by blast
    show ?thesis
    proof (cases m)
      case (Inl e2)
      with assms g Inr m show ?thesis by (auto simp: CreateOrUpdate_def Let_def)
    next
      case inr2: (Inr obj2)
      obtain c w3 where c: "UpdateObject obj2 ((tick w)\<lparr>events := events (tick w) @ evs\<rparr>) = (c, w3)"
        by (cases "UpdateObject obj2 ((tick w)\<lparr>events := events (tick w) @ evs\<rparr>)")
      from upd [OF c] assms g Inr m inr2 c show ?thesis
        by (auto simp: CreateOrUpdate_def Let_def split: if_splits option.splits)
    qed
  qed
qed

lemma syncBuilders_created:
  "syncBuilders owner bs flag w = ((None, c), w1) \<Longrightarrow>
     \<exists>cs. createLog w1 = createLog w @ cs \<and> (c \<longleftrightarrow> flag \<or> cs \<noteq> [])"
proof (induction bs arbitrary: w flag)
  case Nil
  then show ?case by simp
next
  case (Cons b rest)
  obtain r0 wa where cu: "CreateOrUpdate (Placeholder b owner) (buildAndOwn b owner) w = (r0, wa)"
    by (cases "CreateOrUpdate (Placeholder b owner) (buildAndOwn b owner) w")
  show ?case
  proof (cases r0)
    case (Inl err)
    with cu Cons.prems show ?thesis by simp
  next
    case (Inr res)
    with cu Cons.prems
    have rest: "syncBuilders owner rest (flag \<or> res = OperationResultCreated) wa = ((None, c), w1)"
      by simp
    from Cons.IH [OF rest] obtain cs where
      cs: "createLog w1 = createLog wa @ cs"
          "c \<longleftrightarrow> (flag \<or> res = OperationResultCreated) \<or> cs \<noteq> []"
      by blast
    from CreateOrUpdate_createLog [OF cu] Inr cs show ?thesis by auto
  qed
qed

lemma resourcesSync_outcome:
  assumes "resourcesSync owner bs w = (out, w1)" and "snd out = None"
  shows "(createLog w1 \<noteq> createLog w \<longrightarrow> out = RequeueImmediately)
       \<and> (createLog w1 = createLog w \<longrightarrow> out = Ok)"
proof -
  obtain e c wa where run:
    "syncBuilders owner bs False (Event EventTypeNormal ''Provisioning'' w) = ((e, c), wa)"
    by (cases "syncBuilders owner bs False (Event EventTypeNormal ''Provisioning'' w)") auto
  show ?thesis
  proof (cases e)
    case (Some err)
    with run assms show ?thesis by (auto simp: resourcesSync_def NoRequeue_def)
  next
    case None
    from syncBuilders_created [OF run [unfolded None]] obtain cs where
      "createLog wa = createLog w @ cs" "c \<longleftrightarrow> cs \<noteq> []" by auto
    with run None assms(1) show ?thesis
      by (auto simp: resourcesSync_def split: if_splits)
  qed
qed

lemma resourcesSync_twice:
  assumes "faultFree w"
    and "\<forall>b \<in> set bs. buildSettles owner b"
    and "distinct (map (childKey owner) bs)"
    and "resourcesSync owner bs w = (out1, w1)"
    and "resourcesSync owner bs w1 = (out2, w2)"
  shows "createLog w2 = createLog w1" and "objects w2 = objects w1"
    and "snd out2 = snd out1" and "snd out1 = None \<Longrightarrow> out2 = Ok"
proof -
  let ?wp = "Event EventTypeNormal ''Provisioning'' w"
  obtain e c wa where run: "syncBuilders owner bs False ?wp = ((e, c), wa)"
    by (cases "syncBuilders owner bs False ?wp") auto
  have ffa: "faultFree wa" using syncBuilders_frame [OF _ run] assms(1) by simp
  have w1: "objects w1 = objects wa \<and> faultFree w1 \<and> snd out1 = e"
    using assms(4) run ffa
    by (cases e) (auto simp: resourcesSync_def NoRequeue_def RequeueImmediately_def Ok_def
                       split: if_splits)
  let ?w1p = "Event EventTypeNormal ''Provisioning'' w1"
  have "\<exists>w3. syncBuilders owner bs False ?w1p = ((e, False), w3)
              \<and> objects w3 = objects ?w1p \<and> createLog w3 = createLog ?w1p \<and> faultFree w3"
    by (rule syncBuilders_rerun [OF assms(2,3) _ run]) (use assms(1) w1 in simp_all)
  then obtain w3 where again: "syncBuilders owner bs False ?w1p = ((e, False), w3)"
    and keep: "objects w3 = objects w1" "createLog w3 = createLog w1"
    by auto
  from again keep assms(5) w1
  have "createLog w2 = createLog w1 \<and> objects w2 = objects w1 \<and> snd out2 = snd out1
        \<and> (snd out1 = None \<longrightarrow> out2 = Ok)"
    by (cases e) (auto simp: resourcesSync_def NoRequeue_def Ok_def)
  then show "createLog w2 = createLog w1" and "objects w2 = objects w1"
    and "snd out2 = snd out1" and "snd out1 = None \<Longrightarrow> out2 = Ok"
    by simp_all
qed

text \<open>
  C6. Resource sync run twice in succession, with nothing else touching the store and
  the store answering its calls, creates nothing in the second run and leaves every
  child object as the first run left it; the second run ends as the first did, and
  continues when the first ended without error. A run that ends without error requeues
  immediately when it created a child and continues otherwise. The builders' \<open>Build\<close>
  methods are parameters, assumed to settle on their own output and to use distinct keys.
\<close>

theorem handleResourcesSync_idempotent:
  assumes "faultFree w"
    and "\<forall>b \<in> set (storageBuilders D storage). buildSettles (storageOwner storage) b"
    and "distinct (map (childKey (storageOwner storage)) (storageBuilders D storage))"
    and "handleResourcesSync D storage w = (out1, storage1, w1)"
    and "handleResourcesSync D storage1 w1 = (out2, storage2, w2)"
  shows "createLog w2 = createLog w1
       \<and> objects w2 = objects w1
       \<and> snd out2 = snd out1
       \<and> (snd out1 = None \<longrightarrow> out2 = (\<lparr>Requeue = False, RequeueAfter = 0\<rparr>, None))
       \<and> (snd out1 = None \<and> createLog w1 \<noteq> createLog w \<longrightarrow>
             out1 = (\<lparr>Requeue = True, RequeueAfter = 0\<rparr>, None))
       \<and> (snd out1 = None \<and> createLog w1 = createLog w \<longrightarrow>
             out1 = (\<lparr>Requeue = False, RequeueAfter = 0\<rparr>, None))"
proof -
  from assms(4) have first: "resourcesSync (storageOwner storage) (storageBuilders D storage) w
      = (out1, w1)" and s1: "storage1 = storage"
    by (auto simp: handleResourcesSync_def split: prod.splits)
  from assms(5) s1 have second:
    "resourcesSync (storageOwner storage) (storageBuilders D storage) w1 = (out2, w2)"
    by (auto simp: handleResourcesSync_def split: prod.splits)
  note twice = resourcesSync_twice [OF assms(1,2,3) first second]
  show ?thesis
    using twice resourcesSync_outcome [OF first]
    by (auto simp: Ok_def RequeueImmediately_def)
qed

lemma database_handleResourcesSync_idempotent:
  assumes "faultFree w"
    and "\<forall>b \<in> set (databaseBuilders D database). buildSettles (databaseOwner database) b"
    and "distinct (map (childKey (databaseOwner database)) (databaseBuilders D database))"
    and "database_handleResourcesSync D database w = (out1, database1, w1)"
    and "database_handleResourcesSync D database1 w1 = (out2, database2, w2)"
  shows "createLog w2 = createLog w1 \<and> objects w2 = objects w1 \<and> snd out2 = snd out1
       \<and> (snd out1 = None \<longrightarrow> out2 = Ok)"
proof -
  from assms(4) have first: "resourcesSync (databaseOwner database) (databaseBuilders D database) w
      = (out1, w1)" and s1: "database1 = database"
    by (auto simp: database_handleResourcesSync_def split: prod.splits)
  from assms(5) s1 have second:
    "resourcesSync (databaseOwner database) (databaseBuilders D database) w1 = (out2, w2)"
    by (auto simp: database_handleResourcesSync_def split: prod.splits)
  from resourcesSync_twice [OF assms(1,2,3) first second] show ?thesis by simp
qed

section \<open>Worked instances for the dependency gate and resource sync\<close>

theorem database_Sync_dependency_gate_witness:
  "wellKeyed (databaseWorld filledDatabase exampleStorage)
   \<and> storageCRs (databaseWorld filledDatabase exampleStorage)
        (referencedStorageKey exampleDeps filledDatabase) = Some exampleStorage
   \<and> State (s_Status exampleStorage) \<noteq> ''Ready''
   \<and> fst (fst (database_Sync exampleDeps filledDatabase (databaseWorld filledDatabase exampleStorage))) =
        \<lparr>Requeue = True, RequeueAfter = 60000000000\<rparr>
   \<and> tenantLog (snd (database_Sync exampleDeps filledDatabase
        (databaseWorld filledDatabase exampleStorage))) = []
   \<and> storedDatabaseState (''prod'', ''db2'')
        (snd (database_Sync exampleDeps filledDatabase (databaseWorld filledDatabase exampleStorage))) =
        Some ''''"
proof -
  let ?w = "databaseWorld filledDatabase exampleStorage"
  have wk: "wellKeyed ?w"
    by (simp add: wellKeyed_def databaseWorld_def emptyWorld_def)
  have key: "referencedStorageKey exampleDeps filledDatabase = (''infra'', ''store1'')"
    by (simp add: referencedStorageKey_def NewDatabase_def SetDatabaseSpecDefaults_explicit
          filledDatabase_def)
  have st: "storageCRs ?w (referencedStorageKey exampleDeps filledDatabase) = Some exampleStorage"
    unfolding key by (simp add: databaseWorld_def emptyWorld_def exampleStorage_def)
  have nr: "State (s_Status exampleStorage) \<noteq> ''Ready''"
    by (simp add: exampleStorage_def)
  have hyp: "\<forall>cr. storageCRs ?w (referencedStorageKey exampleDeps filledDatabase) = Some cr
              \<longrightarrow> State (s_Status cr) \<noteq> ''Ready''"
    using st nr by simp
  have before: "storedDatabaseState (d_Namespace filledDatabase, d_Name filledDatabase) ?w = Some ''''"
    "State (d_Status filledDatabase) = ''''" "tenantLog ?w = []"
    "d_Namespace filledDatabase = ''prod''" "d_Name filledDatabase = ''db2''"
    by (simp_all add: storedDatabaseState_def databaseWorld_def emptyWorld_def filledDatabase_def)
  note gate = database_Sync_dependency_gate [OF wk hyp]
  note c2 = conjunct2
  have r1: "fst (fst (database_Sync exampleDeps filledDatabase ?w)) =
              \<lparr>Requeue = True, RequeueAfter = 60 * 1000000000\<rparr>"
    by (rule gate [THEN conjunct1])
  have r2: "tenantLog (snd (database_Sync exampleDeps filledDatabase ?w)) = tenantLog ?w"
    by (rule gate [THEN c2, THEN c2, THEN c2, THEN c2, THEN c2, THEN conjunct1])
  have r3: "storedDatabaseState (d_Namespace filledDatabase, d_Name filledDatabase)
              (snd (database_Sync exampleDeps filledDatabase ?w)) =
              storedDatabaseState (d_Namespace filledDatabase, d_Name filledDatabase) ?w
            \<or> storedDatabaseState (d_Namespace filledDatabase, d_Name filledDatabase)
              (snd (database_Sync exampleDeps filledDatabase ?w)) =
              Some (State (d_Status filledDatabase))"
    by (rule gate [THEN c2, THEN c2, THEN c2, THEN c2, THEN c2, THEN c2, THEN c2])
  show ?thesis
    using r1 r2 r3 wk st nr before by auto
qed

lemma fixedBodyBuilder_settles: "buildSettles owner (fixedBodyBuilder kind body)"
  by (auto simp: buildSettles_def fixedBodyBuilder_def)

theorem handleResourcesSync_idempotent_witness:
  "faultFree emptyWorld
   \<and> fst (handleResourcesSync builderDeps exampleStorage emptyWorld) =
        (\<lparr>Requeue = True, RequeueAfter = 0\<rparr>, None)
   \<and> length (createLog (snd (snd (handleResourcesSync builderDeps exampleStorage emptyWorld)))) = 2
   \<and> fst (handleResourcesSync builderDeps exampleStorage
            (snd (snd (handleResourcesSync builderDeps exampleStorage emptyWorld)))) =
        (\<lparr>Requeue = False, RequeueAfter = 0\<rparr>, None)
   \<and> createLog (snd (snd (handleResourcesSync builderDeps exampleStorage
            (snd (snd (handleResourcesSync builderDeps exampleStorage emptyWorld)))))) =
        createLog (snd (snd (handleResourcesSync builderDeps exampleStorage emptyWorld)))
   \<and> objects (snd (snd (handleResourcesSync builderDeps exampleStorage
            (snd (snd (handleResourcesSync builderDeps exampleStorage emptyWorld)))))) =
        objects (snd (snd (handleResourcesSync builderDeps exampleStorage emptyWorld)))"
proof -
  let ?first = "handleResourcesSync builderDeps exampleStorage emptyWorld"
  let ?second = "handleResourcesSync builderDeps (fst (snd ?first)) (snd (snd ?first))"
  have ff: "faultFree emptyWorld"
    by (simp add: faultFree_def emptyWorld_def)
  have settle: "\<forall>b \<in> set (storageBuilders builderDeps exampleStorage).
                  buildSettles (storageOwner exampleStorage) b"
    by (simp add: builderDeps_def fixedBodyBuilder_settles)
  have keys: "distinct (map (childKey (storageOwner exampleStorage))
                 (storageBuilders builderDeps exampleStorage))"
    by (simp add: builderDeps_def childKey_def fixedBodyBuilder_def)
  have first: "?first = (fst ?first, fst (snd ?first), snd (snd ?first))" by simp
  have second: "?second = (fst ?second, fst (snd ?second), snd (snd ?second))" by simp
  have same: "fst (snd ?first) = exampleStorage"
    by (simp add: handleResourcesSync_def split: prod.splits)
  have created: "createLog (snd (snd ?first)) =
      [\<lparr>k_Kind = ''ConfigMap'', k_Namespace = ''infra'', k_Name = ''store1''\<rparr>,
       \<lparr>k_Kind = ''StatefulSet'', k_Namespace = ''infra'', k_Name = ''store1''\<rparr>]"
    by (simp add: handleResourcesSync_def resourcesSync_def CreateOrUpdate_def GetObject_def
          CreateObject_def mutate_def buildAndOwn_def SetControllerReference_def nextFault_def
          nextOutcome_def IsNotFound_def Event_def builderDeps_def exampleDeps_def
          fixedBodyBuilder_def storageOwner_def exampleStorage_def emptyWorld_def Let_def)
  have noerr: "snd (fst ?first) = None"
    by (simp add: handleResourcesSync_def resourcesSync_def CreateOrUpdate_def GetObject_def
          CreateObject_def mutate_def buildAndOwn_def SetControllerReference_def nextFault_def
          nextOutcome_def IsNotFound_def Event_def builderDeps_def exampleDeps_def
          fixedBodyBuilder_def storageOwner_def exampleStorage_def emptyWorld_def Let_def
          RequeueImmediately_def)
  have grew: "createLog (snd (snd ?first)) \<noteq> createLog emptyWorld"
    using created by (simp add: emptyWorld_def)
  show ?thesis
    using handleResourcesSync_idempotent [OF ff settle keys first second] ff created noerr grew same
    by simp
qed

section \<open>Database: what the phases can write to the stored status\<close>

lemma wellKeyed_cong:
  "databaseCRs w1 = databaseCRs w \<Longrightarrow> storageCRs w1 = storageCRs w \<Longrightarrow>
   wellKeyed w1 = wellKeyed w"
  by (simp add: wellKeyed_def)

lemma storedStatusIs_cong:
  "databaseCRs w1 key = databaseCRs w key \<Longrightarrow> storedStatusIs P key w1 = storedStatusIs P key w"
  by (simp add: storedStatusIs_def)

lemma database_setState_sat:
  assumes "wellKeyed w" and "database_setState database w = (out, w1)"
    and "P (d_Status database)"
    and "storedStatusIs P (d_Namespace database, d_Name database) w"
  shows "storedStatusIs P (d_Namespace database, d_Name database) w1" and "wellKeyed w1"
    and "(databaseCRs w1 (d_Namespace database, d_Name database) = None) =
         (databaseCRs w (d_Namespace database, d_Name database) = None)"
proof -
  let ?key = "(d_Namespace database, d_Name database)"
  from database_setState_result [OF assms(1,2)]
  consider (failed) "databaseCRs w1 = databaseCRs w" "storageCRs w1 = storageCRs w"
    | (written) old where "databaseCRs w ?key = Some old"
        "databaseCRs w1 = (databaseCRs w)(?key \<mapsto> old\<lparr>d_Status := d_Status database\<rparr>)"
        "storageCRs w1 = storageCRs w"
    by auto
  then have "storedStatusIs P ?key w1 \<and> wellKeyed w1
             \<and> (databaseCRs w1 ?key = None) = (databaseCRs w ?key = None)"
  proof cases
    case failed
    with assms(1,4) show ?thesis
      by (simp add: storedStatusIs_def wellKeyed_def)
  next
    case written
    from wellKeyed_database [OF assms(1) written(1)]
    have "d_Namespace old = d_Namespace database" "d_Name old = d_Name database" by simp_all
    with written assms(1,3) show ?thesis
      by (auto simp: storedStatusIs_def wellKeyed_def)
  qed
  then show "storedStatusIs P ?key w1" and "wellKeyed w1"
    and "(databaseCRs w1 ?key = None) = (databaseCRs w ?key = None)" by simp_all
qed

lemma waitForClusterResource_frame:
  assumes "waitForClusterResource database w = (out, database1, w1)"
  shows "database1 = database" and "databaseCRs w1 = databaseCRs w"
    and "storageCRs w1 = storageCRs w" and "tenantLog w1 = tenantLog w"
  using assms
  by (auto simp: waitForClusterResource_def GetStorage_def
           dest!: nextFault_cases split: prod.splits sum.splits option.splits if_splits)

lemma GetObject_tick: "\<exists>g. GetObject key w = (g, tick w)"
  by (auto simp: GetObject_def dest!: nextFault_cases split: prod.splits option.splits)

lemma CreateOrUpdate_frame:
  assumes "CreateOrUpdate P (buildAndOwn b owner) w = (r, wa)"
  shows "databaseCRs wa = databaseCRs w \<and> storageCRs wa = storageCRs w
         \<and> tenantLog wa = tenantLog w \<and> execLog wa = execLog w
         \<and> execOutcomes wa = execOutcomes w"
proof -
  have mut: "\<exists>m evs. mutate (buildAndOwn b owner) (o_Key P) x w0 = (m, w0\<lparr>events := events w0 @ evs\<rparr>)"
    for x w0
    using mutate_buildAndOwn [of b owner "o_Key P" x w0] by blast
  have cre: "databaseCRs w1 = databaseCRs w0 \<and> storageCRs w1 = storageCRs w0
             \<and> tenantLog w1 = tenantLog w0 \<and> execLog w1 = execLog w0
             \<and> execOutcomes w1 = execOutcomes w0"
    if "CreateObject obj w0 = (c, w1)" for obj w0 c w1
    using that
    by (auto simp: CreateObject_def dest!: nextFault_cases split: prod.splits option.splits)
  have upd: "databaseCRs w1 = databaseCRs w0 \<and> storageCRs w1 = storageCRs w0
             \<and> tenantLog w1 = tenantLog w0 \<and> execLog w1 = execLog w0
             \<and> execOutcomes w1 = execOutcomes w0"
    if "UpdateObject obj w0 = (c, w1)" for obj w0 c w1
    using that
    by (auto simp: UpdateObject_def dest!: nextFault_cases split: prod.splits option.splits)
  obtain g where g: "GetObject (o_Key P) w = (g, tick w)" using GetObject_tick by blast
  show ?thesis
  proof (cases g)
    case (Inl err)
    obtain m evs where m: "mutate (buildAndOwn b owner) (o_Key P) P (tick w) =
        (m, (tick w)\<lparr>events := events (tick w) @ evs\<rparr>)"
      using mut by blast
    show ?thesis
    proof (cases m)
      case inl2: (Inl e2)
      with assms g Inl m show ?thesis
        by (auto simp: CreateOrUpdate_def Let_def split: if_splits)
    next
      case (Inr obj2)
      obtain c w3 where c: "CreateObject obj2 ((tick w)\<lparr>events := events (tick w) @ evs\<rparr>) = (c, w3)"
        by (cases "CreateObject obj2 ((tick w)\<lparr>events := events (tick w) @ evs\<rparr>)")
      from cre [OF c] assms g Inl m Inr c show ?thesis
        by (auto simp: CreateOrUpdate_def Let_def split: if_splits option.splits)
    qed
  next
    case (Inr existing)
    obtain m evs where m: "mutate (buildAndOwn b owner) (o_Key P) existing (tick w) =
        (m, (tick w)\<lparr>events := events (tick w) @ evs\<rparr>)"
      using mut by blast
    show ?thesis
    proof (cases m)
      case (Inl e2)
      with assms g Inr m show ?thesis by (auto simp: CreateOrUpdate_def Let_def)
    next
      case inr2: (Inr obj2)
      obtain c w3 where c: "UpdateObject obj2 ((tick w)\<lparr>events := events (tick w) @ evs\<rparr>) = (c, w3)"
        by (cases "UpdateObject obj2 ((tick w)\<lparr>events := events (tick w) @ evs\<rparr>)")
      from upd [OF c] assms g Inr m inr2 c show ?thesis
        by (auto simp: CreateOrUpdate_def Let_def split: if_splits option.splits)
    qed
  qed
qed

lemma syncBuilders_resources_frame:
  "syncBuilders owner bs flag w = (r, w1) \<Longrightarrow>
     databaseCRs w1 = databaseCRs w \<and> storageCRs w1 = storageCRs w
     \<and> tenantLog w1 = tenantLog w \<and> execLog w1 = execLog w
     \<and> execOutcomes w1 = execOutcomes w"
proof (induction bs arbitrary: w flag)
  case Nil
  then show ?case by simp
next
  case (Cons b rest)
  obtain r0 wa where cu: "CreateOrUpdate (Placeholder b owner) (buildAndOwn b owner) w = (r0, wa)"
    by (cases "CreateOrUpdate (Placeholder b owner) (buildAndOwn b owner) w")
  note fr = CreateOrUpdate_frame [OF cu]
  show ?case
  proof (cases r0)
    case (Inl err)
    with cu Cons.prems fr show ?thesis by auto
  next
    case (Inr res)
    with cu Cons.prems
    have "syncBuilders owner rest (flag \<or> res = OperationResultCreated) wa = (r, w1)" by simp
    from Cons.IH [OF this] fr show ?thesis by simp
  qed
qed

lemma resourcesSync_frame:
  assumes "resourcesSync owner bs w = (out, w1)"
  shows "databaseCRs w1 = databaseCRs w" and "storageCRs w1 = storageCRs w"
    and "tenantLog w1 = tenantLog w" and "execLog w1 = execLog w"
    and "execOutcomes w1 = execOutcomes w"
proof -
  obtain e c wa where run:
    "syncBuilders owner bs False (Event EventTypeNormal ''Provisioning'' w) = ((e, c), wa)"
    by (cases "syncBuilders owner bs False (Event EventTypeNormal ''Provisioning'' w)") auto
  from syncBuilders_resources_frame [OF run] run assms
  have "databaseCRs w1 = databaseCRs w \<and> storageCRs w1 = storageCRs w
        \<and> tenantLog w1 = tenantLog w \<and> execLog w1 = execLog w
        \<and> execOutcomes w1 = execOutcomes w"
    by (cases e) (auto simp: resourcesSync_def split: if_splits)
  then show "databaseCRs w1 = databaseCRs w" and "storageCRs w1 = storageCRs w"
    and "tenantLog w1 = tenantLog w" and "execLog w1 = execLog w"
    and "execOutcomes w1 = execOutcomes w"
    by simp_all
qed

lemma storedStatusIs_tick [simp]: "storedStatusIs P key (tick w) = storedStatusIs P key w"
  by (simp add: storedStatusIs_def)

lemma storedStatusIs_Event [simp]: "storedStatusIs P key (Event t r w) = storedStatusIs P key w"
  by (simp add: storedStatusIs_def)

lemma database_waitForStatefulSetToScale_sat:
  assumes wk: "wellKeyed w"
    and run: "database_waitForStatefulSetToScale database w = (out, database1, w1)"
    and P1: "P ((d_Status database)\<lparr>State := Provisioning\<rparr>)"
    and P2: "State (d_Status database) \<noteq> Ready \<Longrightarrow>
             IsStatusConditionTrue (Conditions (d_Status database)) ConditionTenantInitialized \<Longrightarrow>
             P ((d_Status database)\<lparr>State := Ready\<rparr>)"
    and sat: "storedStatusIs P (d_Namespace database, d_Name database) w"
  shows "storedStatusIs P (d_Namespace database, d_Name database) w1 \<and> wellKeyed w1
       \<and> (databaseCRs w1 (d_Namespace database, d_Name database) = None) =
           (databaseCRs w (d_Namespace database, d_Name database) = None)
       \<and> tenantLog w1 = tenantLog w
       \<and> Conditions (d_Status database1) = Conditions (d_Status database)
       \<and> d_Name database1 = d_Name database \<and> d_Namespace database1 = d_Namespace database"
proof -
  let ?key = "(d_Namespace database, d_Name database)"
  obtain g where g: "GetObject (databaseStatefulSetKey database) w = (g, tick w)"
    using GetObject_tick by blast
  show ?thesis
  proof (cases g)
    case (Inl err)
    with run g wk sat show ?thesis
      by (auto simp: database_waitForStatefulSetToScale_def split: if_splits)
  next
    case (Inr found)
    let ?dp = "database\<lparr>d_Status := (d_Status database)\<lparr>State := Provisioning\<rparr>\<rparr>"
    let ?dr = "database\<lparr>d_Status := (d_Status database)\<lparr>State := Ready\<rparr>\<rparr>"
    have wkt: "wellKeyed (tick w)" and satt: "storedStatusIs P ?key (tick w)"
      using wk sat by simp_all
    show ?thesis
    proof (cases "o_Replicas found \<noteq> d_Nodes (d_Spec database)")
      case True
      obtain o2 w2 where st: "database_setState ?dp (tick w) = (o2, w2)"
        by (cases "database_setState ?dp (tick w)")
      have "storedStatusIs P (d_Namespace ?dp, d_Name ?dp) w2" and "wellKeyed w2"
        and "(databaseCRs w2 (d_Namespace ?dp, d_Name ?dp) = None) =
             (databaseCRs (tick w) (d_Namespace ?dp, d_Name ?dp) = None)"
        using database_setState_sat [OF wkt st, of P] P1 satt by simp_all
      moreover have "tenantLog w2 = tenantLog w"
        using database_setState_frame(4) [OF st] by simp
      ultimately show ?thesis
        using run g Inr True st
        by (cases o2; cases "snd o2")
           (auto simp: database_waitForStatefulSetToScale_def Let_def)
    next
      case False
      show ?thesis
      proof (cases "State (d_Status database) \<noteq> Ready
                    \<and> IsStatusConditionTrue (Conditions (d_Status database))
                          ConditionTenantInitialized")
        case True
        obtain o2 w2 where st: "database_setState ?dr (tick w) = (o2, w2)"
          by (cases "database_setState ?dr (tick w)")
        have "storedStatusIs P (d_Namespace ?dr, d_Name ?dr) w2" and "wellKeyed w2"
          and "(databaseCRs w2 (d_Namespace ?dr, d_Name ?dr) = None) =
               (databaseCRs (tick w) (d_Namespace ?dr, d_Name ?dr) = None)"
          using database_setState_sat [OF wkt st, of P] P2 True satt by simp_all
        moreover have "tenantLog w2 = tenantLog w"
          using database_setState_frame(4) [OF st] by simp
        ultimately show ?thesis
          using run g Inr False True st
          by (cases o2; cases "snd o2")
             (auto simp: database_waitForStatefulSetToScale_def Let_def)
      next
        case F2: False
        with run g Inr False wk sat show ?thesis
          by (auto simp: database_waitForStatefulSetToScale_def Let_def)
      qed
    qed
  qed
qed

lemma TenantCreate_frame:
  "databaseCRs (snd (TenantCreate d w)) = databaseCRs w"
  "storageCRs (snd (TenantCreate d w)) = storageCRs w"
  by (simp_all add: TenantCreate_def)

lemma handleTenantCreation_sat:
  assumes wk: "wellKeyed w"
    and run: "handleTenantCreation database w = (out, database1, w1)"
    and P1: "P ((d_Status database)\<lparr>State := Initializing\<rparr>)"
    and P2: "P ((d_Status database)\<lparr>State := Initializing,
                Conditions := SetStatusCondition (Conditions (d_Status database)) tenantInitialized\<rparr>)"
    and sat: "storedStatusIs P (d_Namespace database, d_Name database) w"
  shows "storedStatusIs P (d_Namespace database, d_Name database) w1 \<and> wellKeyed w1
       \<and> (databaseCRs w1 (d_Namespace database, d_Name database) = None) =
           (databaseCRs w (d_Namespace database, d_Name database) = None)"
proof -
  let ?key = "(d_Namespace database, d_Name database)"
  let ?d1 = "database\<lparr>d_Status := (d_Status database)\<lparr>State := Initializing\<rparr>\<rparr>"
  let ?d2 = "?d1\<lparr>d_Status := (d_Status ?d1)
               \<lparr>Conditions := SetStatusCondition (Conditions (d_Status ?d1)) tenantInitialized\<rparr>\<rparr>"
  obtain o1 wa where st1: "database_setState ?d1 w = (o1, wa)"
    by (cases "database_setState ?d1 w")
  have sata: "storedStatusIs P (d_Namespace ?d1, d_Name ?d1) wa" and wka: "wellKeyed wa"
    and exa: "(databaseCRs wa (d_Namespace ?d1, d_Name ?d1) = None) =
              (databaseCRs w (d_Namespace ?d1, d_Name ?d1) = None)"
    using database_setState_sat [OF wk st1, of P] P1 sat by simp_all
  show ?thesis
  proof (cases "snd o1")
    case (Some err)
    with run st1 sata wka exa show ?thesis
      by (cases o1) (auto simp: handleTenantCreation_def Let_def)
  next
    case None
    obtain t wb where tc: "TenantCreate ?d1 wa = (t, wb)"
      by (cases "TenantCreate ?d1 wa")
    have frb: "databaseCRs wb = databaseCRs wa" "storageCRs wb = storageCRs wa"
      using TenantCreate_frame [of ?d1 wa] tc by simp_all
    have satb: "storedStatusIs P ?key wb" and wkb: "wellKeyed wb"
      and exb: "(databaseCRs wb ?key = None) = (databaseCRs w ?key = None)"
      using sata wka exa frb by (simp_all add: storedStatusIs_def wellKeyed_def)
    show ?thesis
    proof (cases t)
      case (Some err)
      with run st1 None tc satb wkb exb show ?thesis
        by (cases o1) (auto simp: handleTenantCreation_def Let_def)
    next
      case tnone: None
      let ?wc = "Event EventTypeNormal ''Initialized'' wb"
      obtain o3 wd where st2: "database_setState ?d2 ?wc = (o3, wd)"
        by (cases "database_setState ?d2 ?wc")
      have wkc: "wellKeyed ?wc" using wkb by simp
      have "storedStatusIs P (d_Namespace ?d2, d_Name ?d2) wd" and "wellKeyed wd"
        and "(databaseCRs wd (d_Namespace ?d2, d_Name ?d2) = None) =
             (databaseCRs ?wc (d_Namespace ?d2, d_Name ?d2) = None)"
        using database_setState_sat [OF wkc st2, of P] P2 satb by simp_all
      then show ?thesis
        using run st1 None tc tnone st2 exb
        by (cases o1; cases o3; cases "snd o3")
           (auto simp: handleTenantCreation_def Let_def)
    qed
  qed
qed

lemma state_update_explicit:
  "(s::CRStatus)\<lparr>State := a\<rparr> = \<lparr>State = a, Conditions = Conditions s\<rparr>"
  "(s::CRStatus)\<lparr>State := a, Conditions := c\<rparr> = \<lparr>State = a, Conditions = c\<rparr>"
  by (cases s, simp)+

lemma database_handleResourcesSync_frame:
  assumes "database_handleResourcesSync D database w = (out, database1, w1)"
  shows "database1 = database" and "databaseCRs w1 = databaseCRs w"
    and "storageCRs w1 = storageCRs w" and "tenantLog w1 = tenantLog w"
proof -
  from assms obtain "resourcesSync (databaseOwner database) (databaseBuilders D database) w = (out, w1)"
    and "database1 = database"
    by (auto simp: database_handleResourcesSync_def split: prod.splits)
  from resourcesSync_frame [OF this(1)] this(2)
  show "database1 = database" and "databaseCRs w1 = databaseCRs w"
    and "storageCRs w1 = storageCRs w" and "tenantLog w1 = tenantLog w"
    by simp_all
qed

text \<open>
  One \<open>Sync\<close> of a Database keeps any property of the stored status that holds of every
  status the phases can write, and creates no tenant when \<open>TenantInitialized\<close> is
  already true.
\<close>

lemma database_Sync_sat:
  fixes D ydbCr
  defines "B \<equiv> database_SetStatusOnFirstReconcile (NewDatabase D ydbCr)"
  defines "ti \<equiv> IsStatusConditionTrue (Conditions (d_Status B)) ConditionTenantInitialized"
  assumes wk: "wellKeyed w"
    and sat: "storedStatusIs P (d_Namespace ydbCr, d_Name ydbCr) w"
    and P0: "P (d_Status B)"
    and P1: "P \<lparr>State = Provisioning, Conditions = Conditions (d_Status B)\<rparr>"
    and P2: "State (d_Status B) \<noteq> Ready \<Longrightarrow> ti \<Longrightarrow>
               P \<lparr>State = Ready, Conditions = Conditions (d_Status B)\<rparr>"
    and P3: "\<not> ti \<Longrightarrow> P \<lparr>State = Initializing, Conditions = Conditions (d_Status B)\<rparr>"
    and P4: "\<not> ti \<Longrightarrow> P \<lparr>State = Initializing,
               Conditions = SetStatusCondition (Conditions (d_Status B)) tenantInitialized\<rparr>"
  shows "storedStatusIs P (d_Namespace ydbCr, d_Name ydbCr) (snd (database_Sync D ydbCr w))
       \<and> wellKeyed (snd (database_Sync D ydbCr w))
       \<and> (databaseCRs (snd (database_Sync D ydbCr w)) (d_Namespace ydbCr, d_Name ydbCr) = None) =
           (databaseCRs w (d_Namespace ydbCr, d_Name ydbCr) = None)
       \<and> (ti \<longrightarrow> tenantLog (snd (database_Sync D ydbCr w)) = tenantLog w)"
proof -
  let ?key = "(d_Namespace ydbCr, d_Name ydbCr)"
  have Bkey: "d_Namespace B = d_Namespace ydbCr" "d_Name B = d_Name ydbCr"
    by (simp_all add: B_def database_builder_fields)
  obtain o0 w0 where seed: "database_setState B w = (o0, w0)"
    by (cases "database_setState B w")
  have sat0: "storedStatusIs P ?key w0" and wk0: "wellKeyed w0"
    and ex0: "(databaseCRs w0 ?key = None) = (databaseCRs w ?key = None)"
    using database_setState_sat [OF wk seed, of P] P0 sat Bkey by simp_all
  have tl0: "tenantLog w0 = tenantLog w"
    using database_setState_frame(4) [OF seed] .
  obtain o1 d1 w1 where wfc: "waitForClusterResource B w0 = (o1, d1, w1)"
    by (cases "waitForClusterResource B w0") auto
  note f1 = waitForClusterResource_frame [OF wfc]
  have sat1: "storedStatusIs P ?key w1" and wk1: "wellKeyed w1" and tl1: "tenantLog w1 = tenantLog w"
    and ex1: "(databaseCRs w1 ?key = None) = (databaseCRs w ?key = None)"
    using sat0 wk0 tl0 ex0 f1 by (simp_all add: storedStatusIs_def wellKeyed_def)
  obtain o2 d2 w2 where wfs: "database_waitForStatefulSetToScale B w1 = (o2, d2, w2)"
    by (cases "database_waitForStatefulSetToScale B w1") auto
  have s2: "storedStatusIs P (d_Namespace B, d_Name B) w2 \<and> wellKeyed w2
       \<and> (databaseCRs w2 (d_Namespace B, d_Name B) = None) =
           (databaseCRs w1 (d_Namespace B, d_Name B) = None)
       \<and> tenantLog w2 = tenantLog w1
       \<and> Conditions (d_Status d2) = Conditions (d_Status B)
       \<and> d_Name d2 = d_Name B \<and> d_Namespace d2 = d_Namespace B"
    by (rule database_waitForStatefulSetToScale_sat [OF wk1 wfs])
       (use P1 P2 sat1 Bkey in \<open>simp_all add: state_update_explicit ti_def\<close>)
  obtain o3 d3 w3 where hrs: "database_handleResourcesSync D d2 w2 = (o3, d3, w3)"
    by (cases "database_handleResourcesSync D d2 w2") auto
  note f3 = database_handleResourcesSync_frame [OF hrs]
  have sat3: "storedStatusIs P ?key w3" and wk3: "wellKeyed w3" and tl3: "tenantLog w3 = tenantLog w"
    and ex3: "(databaseCRs w3 ?key = None) = (databaseCRs w ?key = None)"
    using s2 f3 tl1 ex1 Bkey by (simp_all add: storedStatusIs_def wellKeyed_def)
  have ti3: "IsStatusConditionTrue (Conditions (d_Status d3)) ConditionTenantInitialized = ti"
    using s2 f3 by (simp add: ti_def)
  obtain o4 d4 w4 where htc: "handleTenantCreation d3 w3 = (o4, d4, w4)"
    by (cases "handleTenantCreation d3 w3") auto
  have s4: "storedStatusIs P ?key w4 \<and> wellKeyed w4
            \<and> (databaseCRs w4 ?key = None) = (databaseCRs w ?key = None)" if "\<not> ti"
  proof -
    have "storedStatusIs P (d_Namespace d3, d_Name d3) w4 \<and> wellKeyed w4
          \<and> (databaseCRs w4 (d_Namespace d3, d_Name d3) = None) =
              (databaseCRs w3 (d_Namespace d3, d_Name d3) = None)"
      by (rule handleTenantCreation_sat [OF wk3 htc])
         (use P3 P4 that sat3 s2 f3 Bkey in \<open>simp_all add: state_update_explicit\<close>)
    then show ?thesis using s2 f3 ex3 Bkey by simp
  qed
  have sync: "database_Sync D ydbCr w =
      (if stops o1 then (o1, w1)
       else if stops o2 then (o2, w2)
       else if stops o3 then (o3, w3)
       else if \<not> ti then (if stops o4 then (o4, w4) else (Ok, w4))
       else (Ok, w3))"
    using seed wfc f1(1) wfs hrs htc ti3
    by (simp add: database_Sync_def Let_def B_def [symmetric])
  show ?thesis
    unfolding sync
    using sat1 wk1 tl1 ex1 s2 sat3 wk3 tl3 ex3 s4 Bkey by auto
qed

section \<open>Database: one reconciliation, and histories of reconciliations\<close>

lemma IsPresentAndEqual_append_new:
  "FindStatusCondition cs (c_Type n) = None \<Longrightarrow>
   IsStatusConditionPresentAndEqual (cs @ [n]) (c_Type n) s = (c_Status n = s)"
  by (induction cs) (auto split: if_splits)

lemma IsPresentAndEqual_overwritten:
  "FindStatusCondition cs t = Some i \<Longrightarrow>
   IsStatusConditionPresentAndEqual
     (cs[i := (cs ! i)\<lparr>c_Status := s, c_Reason := r, c_Message := m\<rparr>]) t s"
proof (induction cs arbitrary: i)
  case Nil
  then show ?case by simp
next
  case (Cons c cs)
  then show ?case
    by (cases "c_Type c = t") (auto split: if_splits)
qed

lemma SetStatusCondition_IsTrue:
  "c_Status n = ''True'' \<Longrightarrow> IsStatusConditionTrue (SetStatusCondition conds n) (c_Type n)"
  by (cases "FindStatusCondition (slice conds) (c_Type n)")
     (simp_all add: SetStatusCondition_def IsStatusConditionTrue_def Let_def slice_def
        IsPresentAndEqual_append_new IsPresentAndEqual_overwritten)

lemma tenantInitialized_IsTrue:
  "IsStatusConditionTrue (SetStatusCondition conds tenantInitialized) ConditionTenantInitialized"
  using SetStatusCondition_IsTrue [of tenantInitialized conds]
  by (simp add: tenantInitialized_def)

lemma state_names_differ:
  "Provisioning \<noteq> Ready" "Initializing \<noteq> Ready" "Provisioning \<noteq> Initializing"
  by (simp_all add: Provisioning_def Initializing_def Ready_def)

text \<open>What one reconciliation does to the stored status of the Database.\<close>

lemma database_Reconcile_step:
  fixes D key w
  assumes wk: "wellKeyed w"
  defines "w' \<equiv> snd (database_Reconcile D key w)"
  shows "wellKeyed w'"
    and "storedTenantInitialized key w \<Longrightarrow>
           storedTenantInitialized key w' \<and> tenantLog w' = tenantLog w"
    and "\<not> storedTenantInitialized key w \<Longrightarrow> storedTenantInitialized key w' \<Longrightarrow>
           storedDatabaseState key w' = Some Initializing"
    and "\<not> storedTenantInitialized key w \<Longrightarrow> storedDatabaseState key w' = Some Ready \<Longrightarrow>
           storedDatabaseState key w = Some Ready"
proof -
  show "wellKeyed w'"
  proof (cases "databaseCRs w key")
    case None
    with wk show ?thesis by (simp add: w'_def database_Reconcile_def)
  next
    case (Some cr)
    have "storedStatusIs (\<lambda>st. True) (d_Namespace cr, d_Name cr) w"
      by (simp add: storedStatusIs_def)
    from database_Sync_sat [OF wk this, of D] Some show ?thesis
      by (simp add: w'_def database_Reconcile_def)
  qed
next
  assume ti: "storedTenantInitialized key w"
  then obtain cr where cr: "databaseCRs w key = Some cr"
    and tcr: "IsStatusConditionTrue (Conditions (d_Status cr)) ConditionTenantInitialized"
    by (auto simp: storedTenantInitialized_def split: option.splits)
  from wellKeyed_database [OF wk, of "fst key" "snd key" cr] cr
  have key: "key = (d_Namespace cr, d_Name cr)" by (cases key) simp
  let ?P = "\<lambda>st. IsStatusConditionTrue (Conditions st) ConditionTenantInitialized"
  have sat: "storedStatusIs ?P (d_Namespace cr, d_Name cr) w"
    using cr tcr key by (simp add: storedStatusIs_def)
  have "storedStatusIs ?P key (snd (database_Sync D cr w))
        \<and> (databaseCRs (snd (database_Sync D cr w)) key = None) = (databaseCRs w key = None)
        \<and> tenantLog (snd (database_Sync D cr w)) = tenantLog w"
    using database_Sync_sat [OF wk sat, of D] tcr key
    by (simp add: database_builder_IsTrue)
  with cr show "storedTenantInitialized key w' \<and> tenantLog w' = tenantLog w"
    by (auto simp: w'_def database_Reconcile_def storedTenantInitialized_def storedStatusIs_def
             split: option.splits)
next
  assume nti: "\<not> storedTenantInitialized key w" and ti': "storedTenantInitialized key w'"
  show "storedDatabaseState key w' = Some Initializing"
  proof (cases "databaseCRs w key")
    case None
    with nti ti' show ?thesis by (simp add: w'_def database_Reconcile_def)
  next
    case (Some cr)
    from wellKeyed_database [OF wk, of "fst key" "snd key" cr] Some
    have key: "key = (d_Namespace cr, d_Name cr)" by (cases key) simp
    from nti Some
    have ncr: "\<not> IsStatusConditionTrue (Conditions (d_Status cr)) ConditionTenantInitialized"
      by (simp add: storedTenantInitialized_def)
    let ?P = "\<lambda>st. IsStatusConditionTrue (Conditions st) ConditionTenantInitialized
                     \<longrightarrow> State st = Initializing"
    have sat: "storedStatusIs ?P (d_Namespace cr, d_Name cr) w"
      using Some ncr key by (simp add: storedStatusIs_def)
    have "storedStatusIs ?P key (snd (database_Sync D cr w))"
      using database_Sync_sat [OF wk sat, of D] ncr key
      by (simp add: database_builder_IsTrue)
    with Some ti' show ?thesis
      by (auto simp: w'_def database_Reconcile_def storedTenantInitialized_def storedStatusIs_def
                     storedDatabaseState_def split: option.splits)
  qed
next
  assume nti: "\<not> storedTenantInitialized key w" and r': "storedDatabaseState key w' = Some Ready"
  show "storedDatabaseState key w = Some Ready"
  proof (cases "databaseCRs w key")
    case None
    with r' show ?thesis by (simp add: w'_def database_Reconcile_def)
  next
    case (Some cr)
    from wellKeyed_database [OF wk, of "fst key" "snd key" cr] Some
    have key: "key = (d_Namespace cr, d_Name cr)" by (cases key) simp
    from nti Some
    have ncr: "\<not> IsStatusConditionTrue (Conditions (d_Status cr)) ConditionTenantInitialized"
      by (simp add: storedTenantInitialized_def)
    let ?P = "\<lambda>st. State st = Ready \<longrightarrow> State (d_Status cr) = Ready"
    have sat: "storedStatusIs ?P (d_Namespace cr, d_Name cr) w"
      using Some key by (simp add: storedStatusIs_def)
    have "storedStatusIs ?P key (snd (database_Sync D cr w))"
      using database_Sync_sat [OF wk sat, of D] ncr key
      by (simp add: database_builder_IsTrue database_builder_fields state_names_differ)
    with Some r' show ?thesis
      by (auto simp: w'_def database_Reconcile_def storedStatusIs_def storedDatabaseState_def
               split: option.splits)
  qed
qed

lemma history_nonempty: "history D key ws \<Longrightarrow> ws \<noteq> []"
  by (induction rule: history.induct) simp_all

lemma history_wellKeyed: "history D key ws \<Longrightarrow> wellKeyed (hd ws)"
  by (induction rule: history.induct) (simp_all add: database_Reconcile_step(1))

lemma history_tail: "history D key (w # ws) \<Longrightarrow> ws \<noteq> [] \<Longrightarrow> history D key ws"
  by (cases rule: history.cases) auto

lemma history_drop: "history D key ws \<Longrightarrow> i < length ws \<Longrightarrow> history D key (drop i ws)"
proof (induction i arbitrary: ws)
  case 0
  then show ?case by simp
next
  case (Suc i)
  from Suc.prems obtain w rest where ws: "ws = w # rest"
    by (cases ws) auto
  with Suc.prems have "rest \<noteq> []" by auto
  with Suc.prems ws have "history D key rest" by (auto dest: history_tail)
  from Suc.IH [OF this] Suc.prems ws show ?case by simp
qed

text \<open>Two neighbouring worlds of a history, the later one first.\<close>

lemma history_neighbours:
  assumes "history D key (w' # w # ws)"
  shows "storedTenantInitialized key w \<Longrightarrow>
           storedTenantInitialized key w' \<and> tenantLog w' = tenantLog w"
    and "\<not> storedTenantInitialized key w \<Longrightarrow> storedTenantInitialized key w' \<Longrightarrow>
           storedDatabaseState key w' = Some Initializing"
    and "\<not> storedTenantInitialized key w \<Longrightarrow> storedDatabaseState key w' = Some Ready \<Longrightarrow>
           storedDatabaseState key w = Some Ready"
proof -
  have prev: "history D key (w # ws)" using assms by (auto dest: history_tail)
  then have wk: "wellKeyed w" using history_wellKeyed by fastforce
  from assms have step: "w' = snd (database_Reconcile D key w)
      \<or> (databaseCRs w' key = databaseCRs w key \<and> tenantLog w' = tenantLog w)"
    by (cases rule: history.cases) auto
  note rec = database_Reconcile_step [OF wk, where D = D and key = key]
  have same: "storedTenantInitialized key w' = storedTenantInitialized key w"
             "storedDatabaseState key w' = storedDatabaseState key w"
    if "databaseCRs w' key = databaseCRs w key"
    using that by (simp_all add: storedTenantInitialized_def storedDatabaseState_def)
  show "storedTenantInitialized key w \<Longrightarrow>
           storedTenantInitialized key w' \<and> tenantLog w' = tenantLog w"
    using step rec(2) same by auto
  show "\<not> storedTenantInitialized key w \<Longrightarrow> storedTenantInitialized key w' \<Longrightarrow>
           storedDatabaseState key w' = Some Initializing"
    using step rec(3) same by auto
  show "\<not> storedTenantInitialized key w \<Longrightarrow> storedDatabaseState key w' = Some Ready \<Longrightarrow>
           storedDatabaseState key w = Some Ready"
    using step rec(4) same by auto
qed

lemma history_initialized_stays:
  "history D key ws \<Longrightarrow> w \<in> set ws \<Longrightarrow> storedTenantInitialized key w \<Longrightarrow>
   storedTenantInitialized key (hd ws)"
proof (induction ws arbitrary: w)
  case Nil
  then show ?case by simp
next
  case (Cons w' rest)
  show ?case
  proof (cases "w = w'")
    case True
    with Cons.prems show ?thesis by simp
  next
    case False
    with Cons.prems have mem: "w \<in> set rest" by simp
    then obtain v vs where rest: "rest = v # vs" by (cases rest) auto
    with Cons.prems have h: "history D key rest" by (auto dest: history_tail)
    from Cons.IH [OF h mem Cons.prems(3)] rest have "storedTenantInitialized key v" by simp
    from history_neighbours(1) [OF Cons.prems(1) [unfolded rest] this] show ?thesis by simp
  qed
qed

lemma history_initializing_first:
  "history D key ws \<Longrightarrow> \<not> storedTenantInitialized key (last ws) \<Longrightarrow>
   storedDatabaseState key (last ws) \<noteq> Some Ready \<Longrightarrow>
   (storedTenantInitialized key (hd ws) \<longrightarrow>
      (\<exists>w \<in> set ws. storedDatabaseState key w = Some Initializing))
   \<and> (\<not> storedTenantInitialized key (hd ws) \<longrightarrow> storedDatabaseState key (hd ws) \<noteq> Some Ready)"
proof (induction ws)
  case Nil
  then show ?case by (auto dest: history_nonempty)
next
  case (Cons w' rest)
  show ?case
  proof (cases rest)
    case Nil
    with Cons.prems show ?thesis by simp
  next
    case (Cons v vs)
    with Cons.prems have h: "history D key rest" by (auto dest: history_tail)
    from Cons.prems Cons have "\<not> storedTenantInitialized key (last rest)"
      "storedDatabaseState key (last rest) \<noteq> Some Ready" by simp_all
    from Cons.IH [OF h this] Cons
    have ih: "storedTenantInitialized key v \<longrightarrow>
                (\<exists>w \<in> set rest. storedDatabaseState key w = Some Initializing)"
             "\<not> storedTenantInitialized key v \<longrightarrow> storedDatabaseState key v \<noteq> Some Ready"
      by simp_all
    note nb = history_neighbours [OF Cons.prems(1) [unfolded Cons]]
    show ?thesis
    proof (cases "storedTenantInitialized key v")
      case True
      with ih(1) nb(1) show ?thesis by auto
    next
      case False
      with ih(2) nb(2,3) show ?thesis by auto
    qed
  qed
qed

lemma history_positions:
  assumes "history D key ws"
  shows "i \<le> j \<Longrightarrow> j < length ws \<Longrightarrow> storedTenantInitialized key (ws ! j) \<Longrightarrow>
           storedTenantInitialized key (ws ! i)"
    and "Suc i < length ws \<Longrightarrow> storedTenantInitialized key (ws ! Suc i) \<Longrightarrow>
           tenantLog (ws ! i) = tenantLog (ws ! Suc i)"
    and "\<not> storedTenantInitialized key (last ws) \<Longrightarrow>
         storedDatabaseState key (last ws) \<noteq> Some Ready \<Longrightarrow>
         i < length ws \<Longrightarrow> storedDatabaseState key (ws ! i) = Some Ready \<Longrightarrow>
           \<exists>j. i < j \<and> j < length ws \<and> storedDatabaseState key (ws ! j) = Some Initializing"
proof -
  show "storedTenantInitialized key (ws ! i)"
    if "i \<le> j" "j < length ws" "storedTenantInitialized key (ws ! j)"
  proof -
    have h: "history D key (drop i ws)" using history_drop [OF assms] that by simp
    have "ws ! j \<in> set (drop i ws)"
      using that by (auto simp: in_set_conv_nth intro!: exI [of _ "j - i"])
    from history_initialized_stays [OF h this that(3)] that show ?thesis
      by (simp add: hd_drop_conv_nth)
  qed
  show "tenantLog (ws ! i) = tenantLog (ws ! Suc i)"
    if "Suc i < length ws" "storedTenantInitialized key (ws ! Suc i)"
  proof -
    have "drop i ws = ws ! i # ws ! Suc i # drop (Suc (Suc i)) ws"
      using that(1) by (simp add: Cons_nth_drop_Suc)
    with history_drop [OF assms, of i] that(1)
    have "history D key (ws ! i # ws ! Suc i # drop (Suc (Suc i)) ws)" by simp
    from history_neighbours(1) [OF this that(2)] show ?thesis by simp
  qed
  show "\<exists>j. i < j \<and> j < length ws \<and> storedDatabaseState key (ws ! j) = Some Initializing"
    if "\<not> storedTenantInitialized key (last ws)" "storedDatabaseState key (last ws) \<noteq> Some Ready"
       "i < length ws" "storedDatabaseState key (ws ! i) = Some Ready"
  proof -
    have h: "history D key (drop i ws)" using history_drop [OF assms that(3)] .
    have l: "last (drop i ws) = last ws" using that(3) by simp
    have hd: "hd (drop i ws) = ws ! i" using that(3) by (simp add: hd_drop_conv_nth)
    from history_initializing_first [OF h] that(1,2,4) l hd
    obtain w where "w \<in> set (drop i ws)" "storedDatabaseState key w = Some Initializing"
      by auto
    then obtain k where k: "k < length ws - i" "w = ws ! (i + k)"
      by (auto simp: in_set_conv_nth)
    have "k \<noteq> 0"
    proof
      assume "k = 0"
      with k that(4) \<open>storedDatabaseState key w = Some Initializing\<close>
      have "Initializing = Ready" by simp
      then show False by (simp add: state_names_differ)
    qed
    with k \<open>storedDatabaseState key w = Some Initializing\<close> show ?thesis
      by (intro exI [of _ "i + k"]) auto
  qed
qed

section \<open>Database: tenant creation\<close>

lemma GetDatabase_faultFree:
  "faultFree w \<Longrightarrow>
   GetDatabase key w = ((case databaseCRs w key of None \<Rightarrow> Inl NotFound | Some cr \<Rightarrow> Inr cr), tick w)"
  by (simp add: GetDatabase_def faultFree_nextFault split: option.split)

lemma database_setState_faultFree:
  "faultFree w \<Longrightarrow> wellKeyed w \<Longrightarrow>
   databaseCRs w (d_Namespace database, d_Name database) = Some cr \<Longrightarrow>
   database_setState database w =
     (Ok, (tick (tick w))\<lparr>databaseCRs := (databaseCRs w)((d_Namespace database, d_Name database) \<mapsto>
            cr\<lparr>d_Status := d_Status database\<rparr>)\<rparr>)"
  using wellKeyed_database [of w "d_Namespace database" "d_Name database" cr]
  by (simp add: database_setState_def GetDatabase_faultFree StatusUpdateDatabase_def
        faultFree_nextFault)

lemma faultFree_cong: "apiFaults w1 = apiFaults w \<Longrightarrow> faultFree w1 = faultFree w"
  by (simp add: faultFree_def)

text \<open>The world after the first status write and the tenant-creation call.\<close>

lemma handleTenantCreation_first_steps:
  assumes "faultFree w" and "wellKeyed w"
    and "databaseCRs w (d_Namespace database, d_Name database) = Some cr"
  shows "\<exists>wa wb. database_setState
                    (database\<lparr>d_Status := (d_Status database)\<lparr>State := Initializing\<rparr>\<rparr>) w = (Ok, wa)
           \<and> TenantCreate (database\<lparr>d_Status := (d_Status database)\<lparr>State := Initializing\<rparr>\<rparr>) wa
               = (fst (nextOutcome (tenantOutcomes w)), wb)
           \<and> faultFree wb \<and> wellKeyed wb
           \<and> databaseCRs wb = (databaseCRs w)((d_Namespace database, d_Name database) \<mapsto>
                 cr\<lparr>d_Status := \<lparr>State = Initializing, Conditions = Conditions (d_Status database)\<rparr>\<rparr>)
           \<and> tenantLog wb = tenantLog w @ [d_Name database]"
proof -
  let ?key = "(d_Namespace database, d_Name database)"
  let ?d1 = "database\<lparr>d_Status := (d_Status database)\<lparr>State := Initializing\<rparr>\<rparr>"
  let ?wa = "(tick (tick w))\<lparr>databaseCRs := (databaseCRs w)(?key \<mapsto> cr\<lparr>d_Status := d_Status ?d1\<rparr>)\<rparr>"
  let ?wb = "snd (TenantCreate ?d1 ?wa)"
  have st1: "database_setState ?d1 w = (Ok, ?wa)"
    using database_setState_faultFree [of w ?d1 cr] assms by simp
  have tc: "TenantCreate ?d1 ?wa = (fst (nextOutcome (tenantOutcomes w)), ?wb)"
    by (simp add: TenantCreate_def)
  have keycr: "d_Namespace cr = d_Namespace database" "d_Name cr = d_Name database"
    using wellKeyed_database [OF assms(2,3)] by simp_all
  have "apiFaults ?wb = apiFaults (tick (tick w))"
    by (simp add: TenantCreate_def)
  then have ff: "faultFree ?wb"
    using faultFree_cong [of ?wb "tick (tick w)"] assms(1) by simp
  have db: "databaseCRs ?wb = (databaseCRs w)(?key \<mapsto>
              cr\<lparr>d_Status := \<lparr>State = Initializing, Conditions = Conditions (d_Status database)\<rparr>\<rparr>)"
    by (simp add: TenantCreate_def state_update_explicit)
  have sc: "storageCRs ?wb = storageCRs w"
    by (simp add: TenantCreate_def)
  have wk: "wellKeyed ?wb"
    using assms(2) keycr unfolding wellKeyed_def db sc by auto
  have tl: "tenantLog ?wb = tenantLog w @ [d_Name database]"
    by (simp add: TenantCreate_def)
  from st1 tc ff wk db tl show ?thesis by blast
qed

lemma handleTenantCreation_failure:
  assumes "faultFree w" and "wellKeyed w"
    and "databaseCRs w (d_Namespace database, d_Name database) = Some cr"
    and "fst (nextOutcome (tenantOutcomes w)) = Some err"
  shows "fst (handleTenantCreation database w) =
           RequeueAfterC TenantCreationRequeueDelay (Some err)"
    and "d_Status (fst (snd (handleTenantCreation database w))) =
           \<lparr>State = Initializing, Conditions = Conditions (d_Status database)\<rparr>"
    and "databaseCRs (snd (snd (handleTenantCreation database w)))
           (d_Namespace database, d_Name database) =
           Some (cr\<lparr>d_Status := \<lparr>State = Initializing,
                                   Conditions = Conditions (d_Status database)\<rparr>\<rparr>)"
proof -
  let ?d1 = "database\<lparr>d_Status := (d_Status database)\<lparr>State := Initializing\<rparr>\<rparr>"
  from handleTenantCreation_first_steps [OF assms(1,2,3)] assms(4)
  obtain wa wb where st1: "database_setState ?d1 w = (Ok, wa)"
    and tc: "TenantCreate ?d1 wa = (Some err, wb)"
    and db: "databaseCRs wb = (databaseCRs w)((d_Namespace database, d_Name database) \<mapsto>
                 cr\<lparr>d_Status := \<lparr>State = Initializing, Conditions = Conditions (d_Status database)\<rparr>\<rparr>)"
    by auto
  have run: "handleTenantCreation database w =
      (RequeueAfterC TenantCreationRequeueDelay (Some err), ?d1,
       Event EventTypeWarning ''InitializingFailed'' wb)"
    using st1 tc by (simp add: handleTenantCreation_def Let_def Ok_def)
  show "fst (handleTenantCreation database w) =
           RequeueAfterC TenantCreationRequeueDelay (Some err)"
    unfolding run by simp
  show "d_Status (fst (snd (handleTenantCreation database w))) =
           \<lparr>State = Initializing, Conditions = Conditions (d_Status database)\<rparr>"
    unfolding run by (simp add: state_update_explicit)
  show "databaseCRs (snd (snd (handleTenantCreation database w)))
           (d_Namespace database, d_Name database) =
           Some (cr\<lparr>d_Status := \<lparr>State = Initializing,
                                   Conditions = Conditions (d_Status database)\<rparr>\<rparr>)"
    unfolding run using db by simp
qed

lemma handleTenantCreation_success:
  assumes "faultFree w" and "wellKeyed w"
    and "databaseCRs w (d_Namespace database, d_Name database) = Some cr"
    and "fst (nextOutcome (tenantOutcomes w)) = None"
  shows "fst (handleTenantCreation database w) = RequeueImmediately"
    and "databaseCRs (snd (snd (handleTenantCreation database w)))
           (d_Namespace database, d_Name database) =
           Some (cr\<lparr>d_Status := \<lparr>State = Initializing,
                    Conditions = SetStatusCondition (Conditions (d_Status database))
                                   tenantInitialized\<rparr>\<rparr>)"
    and "tenantLog (snd (snd (handleTenantCreation database w))) = tenantLog w @ [d_Name database]"
proof -
  let ?key = "(d_Namespace database, d_Name database)"
  let ?d1 = "database\<lparr>d_Status := (d_Status database)\<lparr>State := Initializing\<rparr>\<rparr>"
  let ?d2 = "?d1\<lparr>d_Status := (d_Status ?d1)
               \<lparr>Conditions := SetStatusCondition (Conditions (d_Status ?d1)) tenantInitialized\<rparr>\<rparr>"
  let ?c1 = "cr\<lparr>d_Status := \<lparr>State = Initializing, Conditions = Conditions (d_Status database)\<rparr>\<rparr>"
  from handleTenantCreation_first_steps [OF assms(1,2,3)] assms(4)
  obtain wa wb where st1: "database_setState ?d1 w = (Ok, wa)"
    and tc: "TenantCreate ?d1 wa = (None, wb)"
    and ff: "faultFree wb" and wk: "wellKeyed wb"
    and db: "databaseCRs wb = (databaseCRs w)(?key \<mapsto> ?c1)"
    and tl: "tenantLog wb = tenantLog w @ [d_Name database]"
    by auto
  let ?wc = "Event EventTypeNormal ''Initialized'' wb"
  have ffc: "faultFree ?wc" and wkc: "wellKeyed ?wc" using ff wk by simp_all
  have atc: "databaseCRs ?wc (d_Namespace ?d2, d_Name ?d2) = Some ?c1"
    using db by simp
  note st2 = database_setState_faultFree [OF ffc wkc atc]
  have run: "handleTenantCreation database w =
      (RequeueImmediately, ?d2, snd (database_setState ?d2 ?wc))"
    using st1 tc st2 by (simp add: handleTenantCreation_def Let_def Ok_def)
  show "fst (handleTenantCreation database w) = RequeueImmediately"
    unfolding run by simp
  show "databaseCRs (snd (snd (handleTenantCreation database w))) ?key =
           Some (cr\<lparr>d_Status := \<lparr>State = Initializing,
                    Conditions = SetStatusCondition (Conditions (d_Status database))
                                   tenantInitialized\<rparr>\<rparr>)"
    unfolding run st2 by (simp add: state_update_explicit)
  show "tenantLog (snd (snd (handleTenantCreation database w))) = tenantLog w @ [d_Name database]"
    unfolding run st2 using tl by simp
qed

lemma database_Sync_gate:
  assumes "wellKeyed w"
    and "IsStatusConditionTrue (Conditions (d_Status ydbCr)) ConditionTenantInitialized"
  shows "tenantLog (snd (database_Sync D ydbCr w)) = tenantLog w"
proof -
  have "storedStatusIs (\<lambda>st. True) (d_Namespace ydbCr, d_Name ydbCr) w"
    by (simp add: storedStatusIs_def)
  from database_Sync_sat [OF assms(1) this, of D] assms(2) show ?thesis
    by (simp add: database_builder_IsTrue)
qed

text \<open>
  C5. Tenant creation is one-shot. \<open>Sync\<close> called with \<open>TenantInitialized\<close> true
  creates no tenant. With the store answering its calls, the tenant-creation phase
  first sets State to \<open>Initializing\<close> and persists it; when the tenant-creation call
  fails it requeues after 30 seconds with the error, State \<open>Initializing\<close> in memory
  and in the store and the conditions as they were; when the call succeeds it sets
  \<open>TenantInitialized\<close> to true, persists it and requeues immediately. Along any
  history of reconciliations and changes of the environment (latest world first): once
  the stored condition is true it stays true, so it is set at most once; after that no
  tenant creation is logged; and a stored State \<open>Ready\<close> is preceded by a stored State
  \<open>Initializing\<close> when the history starts uninitialized and not ready.
\<close>

theorem tenant_creation_one_shot:
  assumes "history D key ws"
    and "wellKeyed w" and "faultFree w"
    and "databaseCRs w (d_Namespace database, d_Name database) = Some cr"
  shows "(IsStatusConditionTrue (Conditions (d_Status ydbCr)) ConditionTenantInitialized \<longrightarrow>
            tenantLog (snd (database_Sync D ydbCr w)) = tenantLog w)
       \<and> (fst (nextOutcome (tenantOutcomes w)) = Some err \<longrightarrow>
            fst (handleTenantCreation database w) =
              (\<lparr>Requeue = True, RequeueAfter = 30 * 1000000000\<rparr>, Some err)
            \<and> d_Status (fst (snd (handleTenantCreation database w))) =
                \<lparr>State = Initializing, Conditions = Conditions (d_Status database)\<rparr>
            \<and> map_option d_Status (databaseCRs (snd (snd (handleTenantCreation database w)))
                                     (d_Namespace database, d_Name database)) =
                Some \<lparr>State = Initializing, Conditions = Conditions (d_Status database)\<rparr>)
       \<and> (fst (nextOutcome (tenantOutcomes w)) = None \<longrightarrow>
            fst (handleTenantCreation database w) = (\<lparr>Requeue = True, RequeueAfter = 0\<rparr>, None)
            \<and> storedDatabaseState (d_Namespace database, d_Name database)
                 (snd (snd (handleTenantCreation database w))) = Some Initializing
            \<and> storedTenantInitialized (d_Namespace database, d_Name database)
                 (snd (snd (handleTenantCreation database w)))
            \<and> tenantLog (snd (snd (handleTenantCreation database w))) =
                 tenantLog w @ [d_Name database])
       \<and> (\<forall>i j. i \<le> j \<and> j < length ws \<and> storedTenantInitialized key (ws ! j) \<longrightarrow>
                  storedTenantInitialized key (ws ! i))
       \<and> (\<forall>i. Suc i < length ws \<and> storedTenantInitialized key (ws ! Suc i) \<longrightarrow>
                tenantLog (ws ! i) = tenantLog (ws ! Suc i))
       \<and> (\<not> storedTenantInitialized key (last ws)
            \<and> storedDatabaseState key (last ws) \<noteq> Some Ready \<longrightarrow>
            (\<forall>i < length ws. storedDatabaseState key (ws ! i) = Some Ready \<longrightarrow>
               (\<exists>j. i < j \<and> j < length ws
                     \<and> storedDatabaseState key (ws ! j) = Some Initializing)))"
proof -
  note fail = handleTenantCreation_failure [OF assms(3,2,4)]
  note succ = handleTenantCreation_success [OF assms(3,2,4)]
  note pos = history_positions [OF assms(1)]
  have gate: "IsStatusConditionTrue (Conditions (d_Status ydbCr)) ConditionTenantInitialized \<longrightarrow>
            tenantLog (snd (database_Sync D ydbCr w)) = tenantLog w"
    using database_Sync_gate [OF assms(2)] by blast
  have f: "fst (nextOutcome (tenantOutcomes w)) = Some err \<longrightarrow>
            fst (handleTenantCreation database w) =
              (\<lparr>Requeue = True, RequeueAfter = 30 * 1000000000\<rparr>, Some err)
            \<and> d_Status (fst (snd (handleTenantCreation database w))) =
                \<lparr>State = Initializing, Conditions = Conditions (d_Status database)\<rparr>
            \<and> map_option d_Status (databaseCRs (snd (snd (handleTenantCreation database w)))
                                     (d_Namespace database, d_Name database)) =
                Some \<lparr>State = Initializing, Conditions = Conditions (d_Status database)\<rparr>"
    using fail by (simp add: RequeueAfterC_def TenantCreationRequeueDelay_def Second_def)
  have s: "fst (nextOutcome (tenantOutcomes w)) = None \<longrightarrow>
            fst (handleTenantCreation database w) = (\<lparr>Requeue = True, RequeueAfter = 0\<rparr>, None)
            \<and> storedDatabaseState (d_Namespace database, d_Name database)
                 (snd (snd (handleTenantCreation database w))) = Some Initializing
            \<and> storedTenantInitialized (d_Namespace database, d_Name database)
                 (snd (snd (handleTenantCreation database w)))
            \<and> tenantLog (snd (snd (handleTenantCreation database w))) =
                 tenantLog w @ [d_Name database]"
    using succ
    by (simp add: RequeueImmediately_def storedDatabaseState_def storedTenantInitialized_def
          tenantInitialized_IsTrue)
  have a: "\<forall>i j. i \<le> j \<and> j < length ws \<and> storedTenantInitialized key (ws ! j) \<longrightarrow>
                  storedTenantInitialized key (ws ! i)"
    using pos(1) by blast
  have b: "\<forall>i. Suc i < length ws \<and> storedTenantInitialized key (ws ! Suc i) \<longrightarrow>
                tenantLog (ws ! i) = tenantLog (ws ! Suc i)"
    using pos(2) by blast
  have c: "\<not> storedTenantInitialized key (last ws)
            \<and> storedDatabaseState key (last ws) \<noteq> Some Ready \<longrightarrow>
            (\<forall>i < length ws. storedDatabaseState key (ws ! i) = Some Ready \<longrightarrow>
               (\<exists>j. i < j \<and> j < length ws
                     \<and> storedDatabaseState key (ws ! j) = Some Initializing))"
    using pos(3) by blast
  from gate f s a b c show ?thesis by blast
qed

lemma tenantWorld1_value:
  "storedDatabaseState (''prod'', ''db1'') tenantWorld1 = Some ''Initializing''"
  "storedTenantInitialized (''prod'', ''db1'') tenantWorld1"
  "tenantLog tenantWorld1 = [''db1'']"
  by (simp_all add: tenantWorld1_def tenantWorld0_def database_Reconcile_def database_Sync_def
        databaseWorld_def emptyWorld_def bareDatabase_def readyStorage_def exampleDeps_def
        NewDatabase_def SetDatabaseSpecDefaults_explicit database_SetStatusOnFirstReconcile_def
        database_setState_def GetDatabase_def StatusUpdateDatabase_def nextFault_def
        nextOutcome_def waitForClusterResource_def GetStorage_def
        database_waitForStatefulSetToScale_def GetObject_def databaseStatefulSetKey_def
        database_handleResourcesSync_def resourcesSync_def handleTenantCreation_def
        TenantCreate_def SetStatusCondition_def tenantInitialized_def
        ConditionTenantInitialized_def IsStatusConditionTrue_def slice_def
        stops_def IsZero_def Ok_def NoRequeue_def RequeueImmediately_def RequeueAfterC_def
        IsNotFound_def Event_def Let_def Initializing_def
        storedDatabaseState_def storedTenantInitialized_def)

section \<open>Worked instance: a Database reaching Ready\<close>

lemma tenantWorld3_value:
  "storedDatabaseState (''prod'', ''db1'') tenantWorld3 = Some ''Ready''"
  "tenantLog tenantWorld3 = [''db1'']"
  by (simp_all add: tenantWorld3_def tenantWorld2_def tenantWorld1_def tenantWorld0_def
        database_Reconcile_def database_Sync_def
        databaseWorld_def emptyWorld_def bareDatabase_def readyStorage_def exampleDeps_def
        databaseStatefulSet_def
        NewDatabase_def SetDatabaseSpecDefaults_explicit database_SetStatusOnFirstReconcile_def
        database_setState_def GetDatabase_def StatusUpdateDatabase_def nextFault_def
        nextOutcome_def waitForClusterResource_def GetStorage_def
        database_waitForStatefulSetToScale_def GetObject_def databaseStatefulSetKey_def
        database_handleResourcesSync_def resourcesSync_def handleTenantCreation_def
        TenantCreate_def SetStatusCondition_def tenantInitialized_def
        ConditionTenantInitialized_def IsStatusConditionTrue_def slice_def
        stops_def IsZero_def Ok_def NoRequeue_def RequeueImmediately_def RequeueAfterC_def
        IsNotFound_def Event_def Let_def Initializing_def Ready_def Provisioning_def
        storedDatabaseState_def storedTenantInitialized_def)

lemma tenantWorld0_facts:
  "wellKeyed tenantWorld0" "faultFree tenantWorld0"
  "databaseCRs tenantWorld0 (d_Namespace bareDatabase, d_Name bareDatabase) = Some bareDatabase"
  "\<not> storedTenantInitialized (''prod'', ''db1'') tenantWorld0"
  "storedDatabaseState (''prod'', ''db1'') tenantWorld0 = Some ''''"
  by (simp_all add: tenantWorld0_def databaseWorld_def emptyWorld_def wellKeyed_def faultFree_def
        bareDatabase_def readyStorage_def storedTenantInitialized_def storedDatabaseState_def
        IsStatusConditionTrue_def slice_def)

lemma example_history:
  "history exampleDeps (''prod'', ''db1'') [tenantWorld3, tenantWorld2, tenantWorld1, tenantWorld0]"
proof -
  have h0: "history exampleDeps (''prod'', ''db1'') [tenantWorld0]"
    by (rule history.start) (rule tenantWorld0_facts)
  have h1: "history exampleDeps (''prod'', ''db1'') [tenantWorld1, tenantWorld0]"
    unfolding tenantWorld1_def by (rule history.reconcile [OF h0])
  have wk1: "wellKeyed tenantWorld1"
    using history_wellKeyed [OF h1] by simp
  have h2: "history exampleDeps (''prod'', ''db1'') [tenantWorld2, tenantWorld1, tenantWorld0]"
    by (rule history.environment [OF h1])
       (use wk1 in \<open>simp_all add: tenantWorld2_def wellKeyed_def\<close>)
  show ?thesis
    unfolding tenantWorld3_def by (rule history.reconcile [OF h2])
qed

theorem tenant_creation_one_shot_witness:
  "history exampleDeps (''prod'', ''db1'') [tenantWorld3, tenantWorld2, tenantWorld1, tenantWorld0]
   \<and> storedDatabaseState (''prod'', ''db1'') tenantWorld3 = Some ''Ready''
   \<and> (\<exists>j. 0 < j \<and> j < 4
          \<and> storedDatabaseState (''prod'', ''db1'')
               ([tenantWorld3, tenantWorld2, tenantWorld1, tenantWorld0] ! j) = Some ''Initializing'')
   \<and> tenantLog tenantWorld3 = tenantLog tenantWorld2
   \<and> fst (handleTenantCreation bareDatabase (tenantWorld0\<lparr>tenantOutcomes := [Some outage]\<rparr>)) =
        (\<lparr>Requeue = True, RequeueAfter = 30000000000\<rparr>, Some outage)
   \<and> fst (handleTenantCreation bareDatabase tenantWorld0) =
        (\<lparr>Requeue = True, RequeueAfter = 0\<rparr>, None)
   \<and> storedTenantInitialized (''prod'', ''db1'')
        (snd (snd (handleTenantCreation bareDatabase tenantWorld0)))"
proof -
  let ?ws = "[tenantWorld3, tenantWorld2, tenantWorld1, tenantWorld0]"
  let ?key = "(''prod'', ''db1'')"
  let ?wf = "tenantWorld0\<lparr>tenantOutcomes := [Some outage]\<rparr>"
  have wkf: "wellKeyed ?wf"
    using wellKeyed_cong [of ?wf tenantWorld0] tenantWorld0_facts(1) by simp
  have fff: "faultFree ?wf"
    using faultFree_cong [of ?wf tenantWorld0] tenantWorld0_facts(2) by simp
  have dbf: "databaseCRs ?wf (d_Namespace bareDatabase, d_Name bareDatabase) = Some bareDatabase"
    using tenantWorld0_facts(3) by simp
  have outf: "fst (nextOutcome (tenantOutcomes ?wf)) = Some outage"
    by (simp add: nextOutcome_def)
  have outs: "fst (nextOutcome (tenantOutcomes tenantWorld0)) = None"
    by (simp add: nextOutcome_def tenantWorld0_def databaseWorld_def emptyWorld_def)
  note c2 = conjunct2
  note failing = tenant_creation_one_shot [OF example_history wkf fff dbf,
      where err = outage and ydbCr = bareDatabase]
  note succeeding = tenant_creation_one_shot [OF example_history tenantWorld0_facts(1,2,3),
      where err = outage and ydbCr = bareDatabase]
  have r1: "fst (handleTenantCreation bareDatabase ?wf) =
              (\<lparr>Requeue = True, RequeueAfter = 30 * 1000000000\<rparr>, Some outage)"
    by (rule failing [THEN c2, THEN conjunct1, THEN mp, OF outf, THEN conjunct1])
  note ok = succeeding [THEN c2, THEN c2, THEN conjunct1, THEN mp, OF outs]
  have r2: "fst (handleTenantCreation bareDatabase tenantWorld0) =
              (\<lparr>Requeue = True, RequeueAfter = 0\<rparr>, None)"
       "storedTenantInitialized (d_Namespace bareDatabase, d_Name bareDatabase)
          (snd (snd (handleTenantCreation bareDatabase tenantWorld0)))"
    by (rule ok [THEN conjunct1], rule ok [THEN c2, THEN c2, THEN conjunct1])
  have start: "\<not> storedTenantInitialized ?key (last ?ws)
               \<and> storedDatabaseState ?key (last ?ws) \<noteq> Some Ready"
    using tenantWorld0_facts(4,5) by (simp add: Ready_def)
  have ready: "storedDatabaseState ?key (?ws ! 0) = Some Ready"
    using tenantWorld3_value(1) by (simp add: Ready_def)
  note before = succeeding [THEN c2, THEN c2, THEN c2, THEN c2, THEN c2, THEN mp, OF start,
                            rule_format, of 0, OF _ ready]
  have "\<exists>j. 0 < j \<and> j < length ?ws \<and> storedDatabaseState ?key (?ws ! j) = Some Initializing"
    by (rule before) simp
  then have r3: "\<exists>j. 0 < j \<and> j < 4 \<and> storedDatabaseState ?key (?ws ! j) = Some ''Initializing''"
    by (simp add: Initializing_def eval_nat_numeral)
  have ti2: "Suc 0 < length ?ws \<and> storedTenantInitialized ?key (?ws ! Suc 0)"
    using tenantWorld1_value(2) by (simp add: tenantWorld2_def storedTenantInitialized_def)
  have r4: "tenantLog (?ws ! 0) = tenantLog (?ws ! Suc 0)"
    by (rule succeeding [THEN c2, THEN c2, THEN c2, THEN c2, THEN conjunct1, rule_format, OF ti2])
  have names: "d_Namespace bareDatabase = ''prod''" "d_Name bareDatabase = ''db1''"
    by (simp_all add: bareDatabase_def)
  show ?thesis
    using example_history tenantWorld3_value(1) r1 r2 r3 r4 unfolding names
    by simp

qed

section \<open>Storage: a failed persist after the bootstrap commands, and the next pass\<close>

lemma setState_exec_frame:
  "setState storage w = (out, w1) \<Longrightarrow>
     execLog w1 = execLog w \<and> execOutcomes w1 = execOutcomes w"
  by (auto simp: setState_def GetStorage_def StatusUpdateStorage_def
           dest!: nextFault_cases split: prod.splits sum.splits option.splits)

lemma ListPods_tick: "\<exists>l. ListPods namespace selector w = (l, tick w)"
  by (auto simp: ListPods_def dest!: nextFault_cases split: prod.splits option.splits)

lemma storage_waitForStatefulSetToScale_frame:
  assumes "waitForStatefulSetToScale D storage w = (out, storage1, w1)"
  shows "execLog w1 = execLog w \<and> execOutcomes w1 = execOutcomes w
       \<and> Conditions (s_Status storage1) = Conditions (s_Status storage)
       \<and> s_Name storage1 = s_Name storage \<and> s_Namespace storage1 = s_Namespace storage"
proof -
  obtain g where g: "GetObject (storageStatefulSetKey storage) w = (g, tick w)"
    using GetObject_tick by blast
  obtain l where l: "ListPods (s_Namespace storage) (storagePodLabels D (s_Name storage)) (tick w)
      = (l, tick (tick w))"
    using ListPods_tick by blast
  let ?sp = "storage\<lparr>s_Status := (s_Status storage)\<lparr>State := ''Provisioning''\<rparr>\<rparr>"
  let ?sr = "storage\<lparr>s_Status := (s_Status storage)\<lparr>State := ''Ready''\<rparr>\<rparr>"
  obtain op wp where sp: "setState ?sp (tick (tick w)) = (op, wp)"
    by (cases "setState ?sp (tick (tick w))")
  obtain or wr where sr: "setState ?sr (tick (tick w)) = (or, wr)"
    by (cases "setState ?sr (tick (tick w))")
  note fp = setState_exec_frame [OF sp]
  note fr = setState_exec_frame [OF sr]
  show ?thesis
  proof (cases g)
    case (Inl err)
    with assms g show ?thesis
      by (auto simp: waitForStatefulSetToScale_def split: if_splits)
  next
    case (Inr found)
    show ?thesis
    proof (cases l)
      case (Inl err)
      with assms g Inr l show ?thesis
        by (auto simp: waitForStatefulSetToScale_def)
    next
      case inr2: (Inr podList)
      with assms g Inr l sp sr fp fr show ?thesis
        by (cases op; cases "snd op"; cases or; cases "snd or")
           (auto simp: waitForStatefulSetToScale_def Let_def split: if_splits)
    qed
  qed
qed

lemma handleResourcesSync_frame:
  assumes "handleResourcesSync D storage w = (out, storage1, w1)"
  shows "storage1 = storage" and "execLog w1 = execLog w" and "execOutcomes w1 = execOutcomes w"
proof -
  from assms obtain "resourcesSync (storageOwner storage) (storageBuilders D storage) w = (out, w1)"
    and "storage1 = storage"
    by (auto simp: handleResourcesSync_def split: prod.splits)
  from resourcesSync_frame [OF this(1)] this(2)
  show "storage1 = storage" and "execLog w1 = execLog w" and "execOutcomes w1 = execOutcomes w"
    by simp_all
qed

lemma waitForHealthCheck_frame:
  assumes "waitForHealthCheck storage w = (out, storage1, w1)"
  shows "storage1 = storage" and "execLog w1 = execLog w" and "execOutcomes w1 = execOutcomes w"
  using assms
  by (auto simp: waitForHealthCheck_def CheckBootstrapHealth_def split: option.splits)

text \<open>
  A \<open>Sync\<close> whose first three phases continue runs the bootstrap phase on a builder
  that has the conditions of the resource it was called with.
\<close>

lemma Sync_runs_bootstrap:
  assumes "reachesBootstrap D cr w"
    and "\<not> IsStatusConditionTrue (Conditions (s_Status cr)) StorageInitializedCondition"
    and "fst (nextOutcome (execOutcomes w)) = None"
  shows "execLog (snd (Sync D cr w)) = execLog w @ [defineBoxCall cr, configureRootCall cr]"
proof -
  let ?b = "SetStatusOnFirstReconcile (NewCluster D cr)"
  obtain o1 s1 w1 where p1: "waitForStatefulSetToScale D ?b w = (o1, s1, w1)"
    by (cases "waitForStatefulSetToScale D ?b w") auto
  obtain o2 s2 w2 where p2: "handleResourcesSync D s1 w1 = (o2, s2, w2)"
    by (cases "handleResourcesSync D s1 w1") auto
  obtain o3 s3 w3 where p3: "waitForHealthCheck s2 w2 = (o3, s3, w3)"
    by (cases "waitForHealthCheck s2 w2") auto
  obtain o4 s4 w4 where p4: "runDefineBoxScript s3 w3 = (o4, s4, w4)"
    by (cases "runDefineBoxScript s3 w3") auto
  from assms(1) p1 p2 p3 have go: "\<not> stops o1" "\<not> stops o2" "\<not> stops o3"
    by (simp_all add: reachesBootstrap_def Let_def)
  note f1 = storage_waitForStatefulSetToScale_frame [OF p1]
  note f2 = handleResourcesSync_frame [OF p2]
  note f3 = waitForHealthCheck_frame [OF p3]
  have builder: "Conditions (s_Status s3) = Conditions (s_Status ?b)"
    "s_Name s3 = s_Name cr" "s_Namespace s3 = s_Namespace cr"
    using f1 f2 f3 by (simp_all add: SetStatusOnFirstReconcile_fields NewCluster_fields)
  have unset: "\<not> IsStatusConditionTrue (Conditions (s_Status s3)) StorageInitializedCondition"
    using assms(2) builder(1) by (simp add: SetStatusOnFirstReconcile_IsTrue NewCluster_fields)
  have logs: "execLog w3 = execLog w" "execOutcomes w3 = execOutcomes w"
    using f1 f2 f3 by simp_all
  have calls: "defineBoxCall s3 = defineBoxCall cr" "configureRootCall s3 = configureRootCall cr"
    using builder by (simp_all add: defineBoxCall_def configureRootCall_def)
  have "snd (Sync D cr w) = w4"
    using p1 p2 p3 p4 go by (simp add: Sync_def Let_def)
  moreover have "execLog w4 = execLog w3 @ [defineBoxCall s3, configureRootCall s3]"
    using runDefineBoxScript_execLog(2) [OF unset, of w3] assms(3) logs p4 by simp
  ultimately show ?thesis using logs calls by simp
qed

text \<open>
  C10. When both bootstrap commands succeed and the status persist that follows fails,
  the bootstrap phase returns that error with no requeue delay, and the store is left
  as it was, so \<open>StorageInitialized\<close> is not recorded there. A later pass, whose
  builder is made from the stored resource, sees the condition unset and runs both
  remote commands again: the bootstrap phase does, and so does every later \<open>Sync\<close>
  of the stored resource whose earlier phases continue, when the first command
  succeeds again.
\<close>

theorem runDefineBoxScript_persist_failure_not_recorded:
  assumes "\<not> IsStatusConditionTrue (Conditions (s_Status storage)) StorageInitializedCondition"
    and "storageCRs w (s_Namespace storage, s_Name storage) = Some cr"
    and "\<not> IsStatusConditionTrue (Conditions (s_Status cr)) StorageInitializedCondition"
    and "ExecInPod (s_Namespace storage) (s_Name storage @ ''-0'') ''ydb-storage'' defineBoxCmd w
           = (None, w1)"
    and "ExecInPod (s_Namespace storage) (s_Name storage @ ''-0'') ''ydb-storage'' configureRootCmd w1
           = (None, w2)"
    and "setState (storage\<lparr>s_Status := (s_Status storage)
            \<lparr>Conditions := SetStatusCondition (Conditions (s_Status storage)) storageInitialized\<rparr>\<rparr>) w2
           = ((res, Some err), w3)"
  shows "fst (runDefineBoxScript storage w) = (\<lparr>Requeue = False, RequeueAfter = 0\<rparr>, Some err)
       \<and> snd (snd (runDefineBoxScript storage w)) = w3
       \<and> storageCRs w3 = storageCRs w
       \<and> \<not> IsStatusConditionTrue
             (Conditions (s_Status (SetStatusOnFirstReconcile (NewCluster D cr))))
             StorageInitializedCondition
       \<and> (\<forall>later. fst (nextOutcome (execOutcomes later)) = None \<longrightarrow>
             execLog (snd (snd (runDefineBoxScript
                        (SetStatusOnFirstReconcile (NewCluster D cr)) later))) =
               execLog later @ [defineBoxCall cr, configureRootCall cr])
       \<and> (\<forall>later. reachesBootstrap D cr later
                    \<and> fst (nextOutcome (execOutcomes later)) = None \<longrightarrow>
             execLog (snd (Sync D cr later)) =
               execLog later @ [defineBoxCall cr, configureRootCall cr])"
proof -
  let ?b = "SetStatusOnFirstReconcile (NewCluster D cr)"
  have run: "runDefineBoxScript storage w =
          (NoRequeue err,
           storage\<lparr>s_Status := (s_Status storage)
             \<lparr>Conditions := SetStatusCondition (Conditions (s_Status storage)) storageInitialized\<rparr>\<rparr>,
           w3)"
    using assms(1,4,5,6) by (simp add: runDefineBoxScript_def Let_def)
  have "storageCRs w3 = storageCRs w2"
    using assms(6) by (rule setState_failure_keeps_store)
  moreover have "storageCRs w2 = storageCRs w1"
    using ExecInPod_frame(1) [of "s_Namespace storage" "s_Name storage @ ''-0''" "''ydb-storage''"
            configureRootCmd w1] assms(5) by simp
  moreover have "storageCRs w1 = storageCRs w"
    using ExecInPod_frame(1) [of "s_Namespace storage" "s_Name storage @ ''-0''" "''ydb-storage''"
            defineBoxCmd w] assms(4) by simp
  ultimately have store: "storageCRs w3 = storageCRs w" by simp
  have unset: "\<not> IsStatusConditionTrue (Conditions (s_Status ?b)) StorageInitializedCondition"
    using assms(3) by (simp add: SetStatusOnFirstReconcile_IsTrue NewCluster_fields)
  have calls: "defineBoxCall ?b = defineBoxCall cr" "configureRootCall ?b = configureRootCall cr"
    by (simp_all add: defineBoxCall_def configureRootCall_def SetStatusOnFirstReconcile_fields
          NewCluster_fields)
  have again: "execLog (snd (snd (runDefineBoxScript ?b later))) =
                 execLog later @ [defineBoxCall cr, configureRootCall cr]"
    if "fst (nextOutcome (execOutcomes later)) = None" for later
    using runDefineBoxScript_execLog(2) [OF unset that] calls by simp
  have sync: "execLog (snd (Sync D cr later)) =
                execLog later @ [defineBoxCall cr, configureRootCall cr]"
    if "reachesBootstrap D cr later" "fst (nextOutcome (execOutcomes later)) = None" for later
    using Sync_runs_bootstrap [OF that(1) assms(3) that(2)] .
  show ?thesis
    using run store unset again sync by (simp add: NoRequeue_def)
qed

section \<open>Worked instance: a failed persist on a settled cluster, and the next pass\<close>

lemma settledWorld_value:
  "createLog settledWorld =
     [\<lparr>k_Kind = ''Service'', k_Namespace = ''infra'', k_Name = ''store1-grpc''\<rparr>,
      \<lparr>k_Kind = ''Service'', k_Namespace = ''infra'', k_Name = ''store1-interconnect''\<rparr>,
      \<lparr>k_Kind = ''Service'', k_Namespace = ''infra'', k_Name = ''store1-status''\<rparr>,
      \<lparr>k_Kind = ''ConfigMap'', k_Namespace = ''infra'', k_Name = ''store1''\<rparr>,
      \<lparr>k_Kind = ''StatefulSet'', k_Namespace = ''infra'', k_Name = ''store1''\<rparr>]"
  "execLog settledWorld = []"
  "apiFaults settledWorld = []"
  "execOutcomes settledWorld = []"
  "healthOutcomes settledWorld = []"
  "storageCRs settledWorld = [(''infra'', ''store1'') \<mapsto> exampleStorage]"
  "pods settledWorld = [storagePod ''Running'', storagePod ''Running'', storagePod ''Running'']"
  by (simp_all add: settledWorld_def Sync_def waitForStatefulSetToScale_def
        handleResourcesSync_def resourcesSync_def CreateOrUpdate_def GetObject_def
        CreateObject_def mutate_def buildAndOwn_def SetControllerReference_def nextFault_def
        nextOutcome_def IsNotFound_def Event_def exampleDeps_def exampleStorageBuilders_def
        serviceBuilder_def fixedBodyBuilder_def storageOwner_def storageStatefulSetKey_def
        NewCluster_def SetStatusOnFirstReconcile_def exampleStorage_def emptyWorld_def Let_def
        stops_def IsZero_def Ok_def RequeueImmediately_def)

lemmas storage_eval =
  Sync_def waitForStatefulSetToScale_def handleResourcesSync_def resourcesSync_def
  waitForHealthCheck_def CheckBootstrapHealth_def runDefineBoxScript_def setState_def
  GetStorage_def StatusUpdateStorage_def ExecInPod_def ListPods_def matchesLabels_def
  CreateOrUpdate_def GetObject_def CreateObject_def UpdateObject_def mutate_def buildAndOwn_def
  SetControllerReference_def nextFault_def nextOutcome_def IsNotFound_def Event_def
  exampleDeps_def exampleStorageBuilders_def serviceBuilder_def fixedBodyBuilder_def
  storageOwner_def storageStatefulSetKey_def storagePod_def
  NewCluster_def SetStatusOnFirstReconcile_def exampleStorage_def emptyWorld_def Let_def
  stops_def IsZero_def Ok_def NoRequeue_def RequeueImmediately_def RequeueAfterC_def Second_def
  IsStatusConditionTrue_def StorageInitializedCondition_def slice_def SetStatusCondition_def
  storageInitialized_def

lemma afterFailedPersist_value:
  "execLog afterFailedPersist = [defineBoxCall exampleStorage, configureRootCall exampleStorage]"
  "apiFaults afterFailedPersist = []"
  "execOutcomes afterFailedPersist = []"
  "storageCRs afterFailedPersist = [(''infra'', ''store1'') \<mapsto> exampleStorage]"
  by (simp_all add: afterFailedPersist_def failingPersistWorld_def settledWorld_def storage_eval
        defineBoxCall_def configureRootCall_def)

lemma afterFailedPersist_reaches:
  "reachesBootstrap exampleDeps exampleStorage afterFailedPersist"
  by (simp add: reachesBootstrap_def afterFailedPersist_def failingPersistWorld_def
        settledWorld_def storage_eval)

lemma afterFailedSync_value:
  "fst (Sync exampleDeps exampleStorage failingSyncWorld) =
     (\<lparr>Requeue = False, RequeueAfter = 0\<rparr>, Some (Failure ''conflict''))"
  "execLog afterFailedSync = [defineBoxCall exampleStorage, configureRootCall exampleStorage]"
  "execOutcomes afterFailedSync = []"
  "storageCRs afterFailedSync = [(''infra'', ''store1'') \<mapsto> exampleStorage]"
  by (simp_all add: afterFailedSync_def failingSyncWorld_def settledWorld_def storage_eval
        defineBoxCall_def configureRootCall_def)

lemma afterFailedSync_reaches:
  "reachesBootstrap exampleDeps exampleStorage afterFailedSync"
  by (simp add: reachesBootstrap_def afterFailedSync_def failingSyncWorld_def
        settledWorld_def storage_eval)

theorem runDefineBoxScript_persist_failure_not_recorded_witness:
  "fst (runDefineBoxScript (SetStatusOnFirstReconcile (NewCluster exampleDeps exampleStorage))
          failingPersistWorld) =
     (\<lparr>Requeue = False, RequeueAfter = 0\<rparr>, Some (Failure ''conflict''))
   \<and> length (createLog failingPersistWorld) = 5
   \<and> storageCRs afterFailedPersist (''infra'', ''store1'') = Some exampleStorage
   \<and> execLog afterFailedPersist = [defineBoxCall exampleStorage, configureRootCall exampleStorage]
   \<and> reachesBootstrap exampleDeps exampleStorage afterFailedPersist
   \<and> execLog (snd (Sync exampleDeps exampleStorage afterFailedPersist)) =
       [defineBoxCall exampleStorage, configureRootCall exampleStorage,
        defineBoxCall exampleStorage, configureRootCall exampleStorage]
   \<and> fst (Sync exampleDeps exampleStorage failingSyncWorld) =
       (\<lparr>Requeue = False, RequeueAfter = 0\<rparr>, Some (Failure ''conflict''))
   \<and> reachesBootstrap exampleDeps exampleStorage afterFailedSync
   \<and> execLog (snd (Sync exampleDeps exampleStorage afterFailedSync)) =
       [defineBoxCall exampleStorage, configureRootCall exampleStorage,
        defineBoxCall exampleStorage, configureRootCall exampleStorage]"
proof -
  let ?b = "SetStatusOnFirstReconcile (NewCluster exampleDeps exampleStorage)"
  let ?w = failingPersistWorld
  let ?w1 = "snd (ExecInPod (s_Namespace ?b) (s_Name ?b @ ''-0'') ''ydb-storage'' defineBoxCmd ?w)"
  let ?w2 = "snd (ExecInPod (s_Namespace ?b) (s_Name ?b @ ''-0'') ''ydb-storage'' configureRootCmd ?w1)"
  let ?s1 = "?b\<lparr>s_Status := (s_Status ?b)
            \<lparr>Conditions := SetStatusCondition (Conditions (s_Status ?b)) storageInitialized\<rparr>\<rparr>"
  have h1: "\<not> IsStatusConditionTrue (Conditions (s_Status ?b)) StorageInitializedCondition"
    by (simp add: SetStatusOnFirstReconcile_def NewCluster_def exampleStorage_def
          IsStatusConditionTrue_def slice_def)
  have h2: "storageCRs ?w (s_Namespace ?b, s_Name ?b) = Some exampleStorage"
    using settledWorld_value(6)
    by (simp add: failingPersistWorld_def SetStatusOnFirstReconcile_fields NewCluster_fields
          exampleStorage_def)
  have h3: "\<not> IsStatusConditionTrue (Conditions (s_Status exampleStorage))
               StorageInitializedCondition"
    by (simp add: exampleStorage_def IsStatusConditionTrue_def slice_def)
  have h4: "ExecInPod (s_Namespace ?b) (s_Name ?b @ ''-0'') ''ydb-storage'' defineBoxCmd ?w
              = (None, ?w1)"
    using settledWorld_value(4)
    by (simp add: ExecInPod_def failingPersistWorld_def nextOutcome_def)
  have h5: "ExecInPod (s_Namespace ?b) (s_Name ?b @ ''-0'') ''ydb-storage'' configureRootCmd ?w1
              = (None, ?w2)"
    using settledWorld_value(4)
    by (simp add: ExecInPod_def failingPersistWorld_def nextOutcome_def)
  have h6: "setState ?s1 ?w2 =
              ((\<lparr>Requeue = False, RequeueAfter = 0\<rparr>, Some (Failure ''conflict'')),
               snd (setState ?s1 ?w2))"
    using settledWorld_value(6)
    by (simp add: setState_def GetStorage_def StatusUpdateStorage_def nextFault_def
          nextOutcome_def ExecInPod_def failingPersistWorld_def NoRequeue_def Event_def
          SetStatusOnFirstReconcile_fields NewCluster_fields exampleStorage_def)
  note c2 = conjunct2
  note T = runDefineBoxScript_persist_failure_not_recorded
             [OF h1 h2 h3 h4 h5 h6, of exampleDeps]
  have r1: "fst (runDefineBoxScript ?b ?w) =
              (\<lparr>Requeue = False, RequeueAfter = 0\<rparr>, Some (Failure ''conflict''))"
    by (rule T [THEN conjunct1])
  have left: "storageCRs afterFailedPersist = storageCRs ?w"
    using T [THEN c2, THEN conjunct1] T [THEN c2, THEN c2, THEN conjunct1]
    by (simp add: afterFailedPersist_def)
  have r2: "storageCRs afterFailedPersist (''infra'', ''store1'') = Some exampleStorage"
    using left h2
    by (simp add: SetStatusOnFirstReconcile_fields NewCluster_fields exampleStorage_def)
  note later = T [THEN c2, THEN c2, THEN c2, THEN c2, THEN c2, rule_format]
  have o1: "fst (nextOutcome (execOutcomes afterFailedPersist)) = None"
    by (simp add: afterFailedPersist_value nextOutcome_def)
  have o2: "fst (nextOutcome (execOutcomes afterFailedSync)) = None"
    by (simp add: afterFailedSync_value nextOutcome_def)
  have r3: "execLog (snd (Sync exampleDeps exampleStorage afterFailedPersist)) =
              execLog afterFailedPersist
                @ [defineBoxCall exampleStorage, configureRootCall exampleStorage]"
    by (rule later [OF conjI [OF afterFailedPersist_reaches o1]])
  have r4: "execLog (snd (Sync exampleDeps exampleStorage afterFailedSync)) =
              execLog afterFailedSync
                @ [defineBoxCall exampleStorage, configureRootCall exampleStorage]"
    by (rule later [OF conjI [OF afterFailedSync_reaches o2]])
  have five: "length (createLog ?w) = 5"
    by (simp add: failingPersistWorld_def settledWorld_value)
  show ?thesis
    using r1 r2 r3 r4 five afterFailedPersist_value(1) afterFailedPersist_reaches
      afterFailedSync_value(1,2) afterFailedSync_reaches
    by simp
qed

end
